theory Spec2Isabelle
  imports Complex_Main "HOL-Library.Char_ord"
begin

section \<open>The data model of \<^verbatim>\<open>app/models.py\<close>\<close>

text \<open>
  \<^verbatim>\<open>app/models.py\<close> declares five string enumerations, nine table classes and eleven
  non-table shapes. Every class is a list of typed fields, each with the keyword
  arguments of \<^verbatim>\<open>Field(...)\<close>: a default or a default factory, \<^verbatim>\<open>max_length\<close>, \<^verbatim>\<open>ge\<close>,
  \<^verbatim>\<open>regex\<close>, \<^verbatim>\<open>unique\<close>, \<^verbatim>\<open>primary_key\<close>, \<^verbatim>\<open>foreign_key\<close>.

  The library that reads the declarations (\<^verbatim>\<open>sqlmodel\<close>, over \<^verbatim>\<open>pydantic\<close>) has two ways of
  making an instance of a class \<open>X\<close>, and they differ:
  \<^item> validation, \<^verbatim>\<open>X.model_validate(payload)\<close>, checks every declared constraint and
    fills the omitted fields with their defaults. The constructor call \<^verbatim>\<open>X(...)\<close> of a
    class declared with \<^verbatim>\<open>table=False\<close> is this validation;
  \<^item> the constructor call \<^verbatim>\<open>X(...)\<close> of a class declared with \<^verbatim>\<open>table=True\<close> checks
    nothing: it stores the keyword arguments as they are and fills the omitted fields
    with their defaults.

  The embedding has, for a class \<open>X\<close>,
  \<^item> a record \<open>X_kwargs\<close>: the keyword arguments of a call. A field without default is
    there as it is; a field with a default is an \<open>option\<close>, \<open>None\<close> meaning that the call
    omits it. An enumerated field arrives as the string of the payload;
  \<^item> a record \<open>X\<close>: a validated instance, every field with its declared type;
  \<^item> a function \<open>X_errors\<close>: the declared constraints that validation checks, field
    by field in the order of declaration, as the list of all violations found (one
    entry per offending field);
  \<^item> for a shape, \<open>X_validate\<close>: the constructor call \<^verbatim>\<open>X(...)\<close>, which returns the instance
    or the violations;
  \<^item> for a table class, \<open>X_model_validate\<close>: the call \<^verbatim>\<open>X.model_validate(...)\<close>, which
    returns the instance or the violations; a record \<open>X_object\<close>: the attributes of an
    object that was not validated, an enumerated field holding a string; and
    \<open>X_init\<close>: the constructor call \<^verbatim>\<open>X(...)\<close>, which always returns an object.

  The types of the records stand for the type annotations, so a payload of the wrong
  type, and a call that omits a field without default, are no values of the model.

  \<^verbatim>\<open>Relationship(...)\<close> attributes are navigation properties and no columns: they take
  no part in construction and are left out of the records. Strings are lists of
  characters, and \<^verbatim>\<open>max_length\<close> counts characters. A \<^verbatim>\<open>datetime\<close> is a number of
  microseconds, a \<^verbatim>\<open>Decimal\<close> the rational number it denotes.
\<close>

type_synonym datetime = nat
type_synonym decimal = rat

datatype json =
  JNull
| JBool bool
| JNum rat
| JStr string
| JList "json list"
| JObj "(string \<times> json) list"

subsection \<open>Violations\<close>

text \<open>
  The violated constraint of a field: a length bound, a lower bound, a pattern, and the
  column that takes no null. The kinds of failure: a violation of the named field, a
  string outside the enumeration of the named field, a collision on the named unique
  column.
\<close>

datatype constraint = MaxLength nat | GreaterEqual int | Pattern | NotNull

datatype error =
  FieldValidationError string constraint
| EnumValueError string
| UniquenessConstraintError string

text \<open>The field that a violation names, and the violations of one field among a list.\<close>

fun error_field :: "error \<Rightarrow> string" where
  "error_field (FieldValidationError field c) = field"
| "error_field (EnumValueError field) = field"
| "error_field (UniquenessConstraintError field) = field"

definition errors_of :: "string \<Rightarrow> error list \<Rightarrow> error list" where
  "errors_of field errs = filter (\<lambda>e. error_field e = field) errs"

subsection \<open>Regular expressions\<close>

text \<open>
  The fragment of regular expressions that the one pattern of the file needs: literal
  characters, character classes (a list of ranges \<open>lo-hi\<close>, a single character \<open>c\<close> being
  the range \<open>c-c\<close>), concatenation and \<open>+\<close>. \<open>Zero\<close>, \<open>One\<close>, \<open>Alt\<close> and \<open>Star\<close> are what
  derivatives of these produce. \<open>matches r s\<close> decides whether the whole of \<open>s\<close> is
  matched by \<open>r\<close>, taking the derivative of \<open>r\<close> by each character of \<open>s\<close> in turn.
\<close>

datatype regex =
  Zero
| One
| Lit char
| Class "(char \<times> char) list"
| Alt regex regex
| Seq regex regex
| Star regex

definition in_class :: "(char \<times> char) list \<Rightarrow> char \<Rightarrow> bool" where
  "in_class rs c = list_ex (\<lambda>(lo, hi). lo \<le> c \<and> c \<le> hi) rs"

fun nullable :: "regex \<Rightarrow> bool" where
  "nullable Zero = False"
| "nullable One = True"
| "nullable (Lit c) = False"
| "nullable (Class rs) = False"
| "nullable (Alt r s) = (nullable r \<or> nullable s)"
| "nullable (Seq r s) = (nullable r \<and> nullable s)"
| "nullable (Star r) = True"

fun deriv :: "char \<Rightarrow> regex \<Rightarrow> regex" where
  "deriv c Zero = Zero"
| "deriv c One = Zero"
| "deriv c (Lit d) = (if c = d then One else Zero)"
| "deriv c (Class rs) = (if in_class rs c then One else Zero)"
| "deriv c (Alt r s) = Alt (deriv c r) (deriv c s)"
| "deriv c (Seq r s) =
     (if nullable r then Alt (Seq (deriv c r) s) (deriv c s) else Seq (deriv c r) s)"
| "deriv c (Star r) = Seq (deriv c r) (Star r)"

fun matches :: "regex \<Rightarrow> string \<Rightarrow> bool" where
  "matches r [] = nullable r"
| "matches r (c # cs) = matches (deriv c r) cs"

definition Plus :: "regex \<Rightarrow> regex" where
  "Plus r = Seq r (Star r)"

text \<open>
  A pattern written \<^verbatim>\<open>^r$\<close> is anchored at both ends. The engines that run a pattern
  differ on \<^verbatim>\<open>$\<close>: Python's \<^verbatim>\<open>re\<close> lets it match at the end of the input and also just
  before a line feed that ends the input; the \<^verbatim>\<open>regex\<close> crate of Rust lets it match at the
  end of the input only.
\<close>

datatype regex_engine = Python_re | Rust_regex

definition line_feed :: char where
  "line_feed = CHR 0x0A"

definition anchored_match :: "regex_engine \<Rightarrow> regex \<Rightarrow> string \<Rightarrow> bool" where
  "anchored_match eng r s =
     (case eng of
        Python_re \<Rightarrow> matches (Seq r (Alt One (Lit line_feed))) s
      | Rust_regex \<Rightarrow> matches r s)"

text \<open>
  The pattern that \<^verbatim>\<open>User.email\<close> declares with \<^verbatim>\<open>regex=\<close>:
  \<^verbatim>\<open>^[a-zA-Z0-9_.+-]+@[a-zA-Z0-9-]+\.[a-zA-Z0-9-.]+$\<close>.
  In the last class the \<^verbatim>\<open>-\<close> after the range \<^verbatim>\<open>0-9\<close> is a literal, and so is the \<^verbatim>\<open>.\<close>.
\<close>

definition email_local_class :: "(char \<times> char) list" where
  "email_local_class =
     [(CHR ''a'', CHR ''z''), (CHR ''A'', CHR ''Z''), (CHR ''0'', CHR ''9''),
      (CHR ''_'', CHR ''_''), (CHR ''.'', CHR ''.''), (CHR ''+'', CHR ''+''),
      (CHR ''-'', CHR ''-'')]"

definition email_label_class :: "(char \<times> char) list" where
  "email_label_class =
     [(CHR ''a'', CHR ''z''), (CHR ''A'', CHR ''Z''), (CHR ''0'', CHR ''9''),
      (CHR ''-'', CHR ''-'')]"

definition email_rest_class :: "(char \<times> char) list" where
  "email_rest_class =
     [(CHR ''a'', CHR ''z''), (CHR ''A'', CHR ''Z''), (CHR ''0'', CHR ''9''),
      (CHR ''-'', CHR ''-''), (CHR ''.'', CHR ''.'')]"

definition email_regex :: regex where
  "email_regex =
     Seq (Plus (Class email_local_class))
    (Seq (Lit CHR ''@'')
    (Seq (Plus (Class email_label_class))
    (Seq (Lit CHR ''.'')
         (Plus (Class email_rest_class)))))"

subsection \<open>Field constraints\<close>

definition check_max_length :: "string \<Rightarrow> nat \<Rightarrow> string \<Rightarrow> error list" where
  "check_max_length field n s =
     (if length s \<le> n then [] else [FieldValidationError field (MaxLength n)])"

definition check_ge :: "string \<Rightarrow> int \<Rightarrow> int \<Rightarrow> error list" where
  "check_ge field n v =
     (if n \<le> v then [] else [FieldValidationError field (GreaterEqual n)])"

text \<open>A field that the call omits, or that is null, is not checked.\<close>

definition check_opt :: "('a \<Rightarrow> error list) \<Rightarrow> 'a option \<Rightarrow> error list" where
  "check_opt chk v = (case v of None \<Rightarrow> [] | Some x \<Rightarrow> chk x)"

definition with_default :: "'a \<Rightarrow> 'a option \<Rightarrow> 'a" where
  "with_default d v = (case v of None \<Rightarrow> d | Some x \<Rightarrow> x)"

subsection \<open>Enumerations\<close>

text \<open>
  Each enumeration is a \<^verbatim>\<open>str, Enum\<close> class: a member is looked up by its value, the
  string. The table of an enumeration lists its members with their values.
\<close>

datatype FileStatus =
  FileStatus_UPLOADING
| FileStatus_UPLOADED
| FileStatus_PROCESSING
| FileStatus_READY
| FileStatus_ERROR

datatype ChatMessageRole =
  ChatMessageRole_USER
| ChatMessageRole_ASSISTANT
| ChatMessageRole_SYSTEM

datatype SearchStatus =
  SearchStatus_PENDING
| SearchStatus_IN_PROGRESS
| SearchStatus_COMPLETED
| SearchStatus_FAILED

datatype VideoStatus =
  VideoStatus_UPLOADED
| VideoStatus_PROCESSING
| VideoStatus_READY
| VideoStatus_ERROR

datatype VideoEditType =
  VideoEditType_TRIM
| VideoEditType_MERGE
| VideoEditType_FILTER
| VideoEditType_ENHANCE
| VideoEditType_CUSTOM

definition FileStatus_members :: "(string \<times> FileStatus) list" where
  "FileStatus_members =
     [(''uploading'', FileStatus_UPLOADING), (''uploaded'', FileStatus_UPLOADED),
      (''processing'', FileStatus_PROCESSING), (''ready'', FileStatus_READY),
      (''error'', FileStatus_ERROR)]"

definition ChatMessageRole_members :: "(string \<times> ChatMessageRole) list" where
  "ChatMessageRole_members =
     [(''user'', ChatMessageRole_USER), (''assistant'', ChatMessageRole_ASSISTANT),
      (''system'', ChatMessageRole_SYSTEM)]"

definition SearchStatus_members :: "(string \<times> SearchStatus) list" where
  "SearchStatus_members =
     [(''pending'', SearchStatus_PENDING), (''in_progress'', SearchStatus_IN_PROGRESS),
      (''completed'', SearchStatus_COMPLETED), (''failed'', SearchStatus_FAILED)]"

definition VideoStatus_members :: "(string \<times> VideoStatus) list" where
  "VideoStatus_members =
     [(''uploaded'', VideoStatus_UPLOADED), (''processing'', VideoStatus_PROCESSING),
      (''ready'', VideoStatus_READY), (''error'', VideoStatus_ERROR)]"

definition VideoEditType_members :: "(string \<times> VideoEditType) list" where
  "VideoEditType_members =
     [(''trim'', VideoEditType_TRIM), (''merge'', VideoEditType_MERGE),
      (''filter'', VideoEditType_FILTER), (''enhance'', VideoEditType_ENHANCE),
      (''custom'', VideoEditType_CUSTOM)]"

text \<open>
  The value of a payload for an enumerated field: the member with that value, or the
  violation of the field.
\<close>

definition enum_member :: "(string \<times> 'a) list \<Rightarrow> string \<Rightarrow> 'a option" where
  "enum_member members s = map_of members s"

definition check_enum :: "string \<Rightarrow> (string \<times> 'a) list \<Rightarrow> string \<Rightarrow> error list" where
  "check_enum field members s =
     (case enum_member members s of None \<Rightarrow> [EnumValueError field] | Some m \<Rightarrow> [])"

text \<open>
  The value of a member. A member of a \<^verbatim>\<open>str, Enum\<close> class is itself a string, equal to
  its value: an attribute that holds a member holds that string.
\<close>

fun FileStatus_value :: "FileStatus \<Rightarrow> string" where
  "FileStatus_value FileStatus_UPLOADING = ''uploading''"
| "FileStatus_value FileStatus_UPLOADED = ''uploaded''"
| "FileStatus_value FileStatus_PROCESSING = ''processing''"
| "FileStatus_value FileStatus_READY = ''ready''"
| "FileStatus_value FileStatus_ERROR = ''error''"

fun ChatMessageRole_value :: "ChatMessageRole \<Rightarrow> string" where
  "ChatMessageRole_value ChatMessageRole_USER = ''user''"
| "ChatMessageRole_value ChatMessageRole_ASSISTANT = ''assistant''"
| "ChatMessageRole_value ChatMessageRole_SYSTEM = ''system''"

fun SearchStatus_value :: "SearchStatus \<Rightarrow> string" where
  "SearchStatus_value SearchStatus_PENDING = ''pending''"
| "SearchStatus_value SearchStatus_IN_PROGRESS = ''in_progress''"
| "SearchStatus_value SearchStatus_COMPLETED = ''completed''"
| "SearchStatus_value SearchStatus_FAILED = ''failed''"

fun VideoStatus_value :: "VideoStatus \<Rightarrow> string" where
  "VideoStatus_value VideoStatus_UPLOADED = ''uploaded''"
| "VideoStatus_value VideoStatus_PROCESSING = ''processing''"
| "VideoStatus_value VideoStatus_READY = ''ready''"
| "VideoStatus_value VideoStatus_ERROR = ''error''"

fun VideoEditType_value :: "VideoEditType \<Rightarrow> string" where
  "VideoEditType_value VideoEditType_TRIM = ''trim''"
| "VideoEditType_value VideoEditType_MERGE = ''merge''"
| "VideoEditType_value VideoEditType_FILTER = ''filter''"
| "VideoEditType_value VideoEditType_ENHANCE = ''enhance''"
| "VideoEditType_value VideoEditType_CUSTOM = ''custom''"

text \<open>An enumerated field with a default: the default member when the call omits it.\<close>

definition enum_member_default :: "'a \<Rightarrow> (string \<times> 'a) list \<Rightarrow> string option \<Rightarrow> 'a option" where
  "enum_member_default d members v =
     (case v of None \<Rightarrow> Some d | Some s \<Rightarrow> enum_member members s)"

text \<open>An optional enumerated field: null, or the member with the string's value.\<close>

definition enum_member_opt :: "(string \<times> 'a) list \<Rightarrow> string option \<Rightarrow> 'a option option" where
  "enum_member_opt members v =
     (case v of None \<Rightarrow> Some None | Some s \<Rightarrow> map_option Some (enum_member members s))"

text \<open>An optional enumerated field that the call may leave unset.\<close>

definition enum_member_unset ::
  "(string \<times> 'a) list \<Rightarrow> string option option \<Rightarrow> 'a option option option" where
  "enum_member_unset members v =
     (case v of None \<Rightarrow> Some None | Some w \<Rightarrow> map_option Some (enum_member_opt members w))"

section \<open>Persistent models\<close>

text \<open>
  The classes declared with \<^verbatim>\<open>table=True\<close>. A \<^verbatim>\<open>default_factory=datetime.utcnow\<close> reads
  the clock when the call omits the field: validation and the constructor take one
  reading per such field, in the order of declaration.

  The object that the constructor returns holds what the call passes: for an enumerated
  field the string of the payload, whether a member has that value or not, and for an
  omitted enumerated field the default member, which is the string of its value.

  \<open>X_columns\<close> lists the columns of the table and \<open>X_relationships\<close> the
  \<^verbatim>\<open>Relationship(...)\<close> attributes of the class, both in the order of declaration.

  \<^verbatim>\<open>User.email\<close> declares its pattern with the keyword \<^verbatim>\<open>regex\<close>. The validation library
  knows the pattern constraint under the keyword \<^verbatim>\<open>pattern\<close> and reads no \<^verbatim>\<open>regex\<close>: the
  declared pattern is no constraint of the class, and of an email validation checks the
  length only.
\<close>

subsection \<open>\<^verbatim>\<open>User\<close>\<close>

record User_kwargs =
  kw_User_id :: "int option"
  kw_User_username :: string
  kw_User_email :: string
  kw_User_full_name :: string
  kw_User_is_active :: "bool option"
  kw_User_created_at :: "datetime option"
  kw_User_updated_at :: "datetime option"
  kw_User_storage_quota :: "int option"
  kw_User_storage_used :: "int option"

record User =
  User_id :: "int option"
  User_username :: string
  User_email :: string
  User_full_name :: string
  User_is_active :: bool
  User_created_at :: datetime
  User_updated_at :: datetime
  User_storage_quota :: int
  User_storage_used :: int

definition User_errors :: "User_kwargs \<Rightarrow> error list" where
  "User_errors kw =
       check_max_length ''username'' 50 (kw_User_username kw)
     @ check_max_length ''email'' 255 (kw_User_email kw)
     @ check_max_length ''full_name'' 200 (kw_User_full_name kw)"

definition User_model_validate ::
  "User_kwargs \<Rightarrow> datetime \<Rightarrow> datetime \<Rightarrow> error list + User" where
  "User_model_validate kw now_created_at now_updated_at =
     (if User_errors kw = []
      then Inr \<lparr>User_id = kw_User_id kw,
              User_username = kw_User_username kw,
              User_email = kw_User_email kw,
              User_full_name = kw_User_full_name kw,
              User_is_active = with_default True (kw_User_is_active kw),
              User_created_at = with_default now_created_at (kw_User_created_at kw),
              User_updated_at = with_default now_updated_at (kw_User_updated_at kw),
              User_storage_quota = with_default 5368709120 (kw_User_storage_quota kw),
              User_storage_used = with_default 0 (kw_User_storage_used kw)\<rparr>
      else Inl (User_errors kw))"

record User_object =
  obj_User_id :: "int option"
  obj_User_username :: string
  obj_User_email :: string
  obj_User_full_name :: string
  obj_User_is_active :: bool
  obj_User_created_at :: datetime
  obj_User_updated_at :: datetime
  obj_User_storage_quota :: int
  obj_User_storage_used :: int

definition User_init :: "User_kwargs \<Rightarrow> datetime \<Rightarrow> datetime \<Rightarrow> User_object" where
  "User_init kw now_created_at now_updated_at =
     \<lparr>obj_User_id = kw_User_id kw,
      obj_User_username = kw_User_username kw,
      obj_User_email = kw_User_email kw,
      obj_User_full_name = kw_User_full_name kw,
      obj_User_is_active = with_default True (kw_User_is_active kw),
      obj_User_created_at = with_default now_created_at (kw_User_created_at kw),
      obj_User_updated_at = with_default now_updated_at (kw_User_updated_at kw),
      obj_User_storage_quota = with_default 5368709120 (kw_User_storage_quota kw),
      obj_User_storage_used = with_default 0 (kw_User_storage_used kw)\<rparr>"

definition User_columns :: "string list" where
  "User_columns = [''id'', ''username'', ''email'', ''full_name'', ''is_active'',
                   ''created_at'', ''updated_at'', ''storage_quota'', ''storage_used'']"


subsection \<open>\<^verbatim>\<open>UploadedFile\<close>\<close>

record UploadedFile_kwargs =
  kw_UploadedFile_id :: "int option"
  kw_UploadedFile_filename :: string
  kw_UploadedFile_original_filename :: string
  kw_UploadedFile_file_path :: string
  kw_UploadedFile_file_size :: int
  kw_UploadedFile_mime_type :: string
  kw_UploadedFile_file_hash :: string
  kw_UploadedFile_status :: "string option"
  kw_UploadedFile_user_id :: int
  kw_UploadedFile_created_at :: "datetime option"
  kw_UploadedFile_updated_at :: "datetime option"
  kw_UploadedFile_file_metadata :: "json option"
  kw_UploadedFile_processed_data :: "json option"

record UploadedFile =
  UploadedFile_id :: "int option"
  UploadedFile_filename :: string
  UploadedFile_original_filename :: string
  UploadedFile_file_path :: string
  UploadedFile_file_size :: int
  UploadedFile_mime_type :: string
  UploadedFile_file_hash :: string
  UploadedFile_status :: FileStatus
  UploadedFile_user_id :: int
  UploadedFile_created_at :: datetime
  UploadedFile_updated_at :: datetime
  UploadedFile_file_metadata :: json
  UploadedFile_processed_data :: json

definition UploadedFile_errors :: "UploadedFile_kwargs \<Rightarrow> error list" where
  "UploadedFile_errors kw =
       check_max_length ''filename'' 255 (kw_UploadedFile_filename kw)
     @ check_max_length ''original_filename'' 255 (kw_UploadedFile_original_filename kw)
     @ check_max_length ''file_path'' 500 (kw_UploadedFile_file_path kw)
     @ check_ge ''file_size'' 0 (kw_UploadedFile_file_size kw)
     @ check_max_length ''mime_type'' 100 (kw_UploadedFile_mime_type kw)
     @ check_max_length ''file_hash'' 64 (kw_UploadedFile_file_hash kw)
     @ check_opt (check_enum ''status'' FileStatus_members) (kw_UploadedFile_status kw)"

definition UploadedFile_model_validate ::
  "UploadedFile_kwargs \<Rightarrow> datetime \<Rightarrow> datetime \<Rightarrow> error list + UploadedFile" where
  "UploadedFile_model_validate kw now_created_at now_updated_at =
     (case enum_member_default FileStatus_UPLOADING FileStatus_members (kw_UploadedFile_status kw) of
        Some v_status \<Rightarrow>
          (if UploadedFile_errors kw = []
           then Inr \<lparr>UploadedFile_id = kw_UploadedFile_id kw,
                    UploadedFile_filename = kw_UploadedFile_filename kw,
                    UploadedFile_original_filename = kw_UploadedFile_original_filename kw,
                    UploadedFile_file_path = kw_UploadedFile_file_path kw,
                    UploadedFile_file_size = kw_UploadedFile_file_size kw,
                    UploadedFile_mime_type = kw_UploadedFile_mime_type kw,
                    UploadedFile_file_hash = kw_UploadedFile_file_hash kw,
                    UploadedFile_status = v_status,
                    UploadedFile_user_id = kw_UploadedFile_user_id kw,
                    UploadedFile_created_at = with_default now_created_at (kw_UploadedFile_created_at kw),
                    UploadedFile_updated_at = with_default now_updated_at (kw_UploadedFile_updated_at kw),
                    UploadedFile_file_metadata = with_default (JObj []) (kw_UploadedFile_file_metadata kw),
                    UploadedFile_processed_data = with_default (JObj []) (kw_UploadedFile_processed_data kw)\<rparr>
           else Inl (UploadedFile_errors kw))
      | None \<Rightarrow> Inl (UploadedFile_errors kw))"

record UploadedFile_object =
  obj_UploadedFile_id :: "int option"
  obj_UploadedFile_filename :: string
  obj_UploadedFile_original_filename :: string
  obj_UploadedFile_file_path :: string
  obj_UploadedFile_file_size :: int
  obj_UploadedFile_mime_type :: string
  obj_UploadedFile_file_hash :: string
  obj_UploadedFile_status :: string
  obj_UploadedFile_user_id :: int
  obj_UploadedFile_created_at :: datetime
  obj_UploadedFile_updated_at :: datetime
  obj_UploadedFile_file_metadata :: json
  obj_UploadedFile_processed_data :: json

definition UploadedFile_init :: "UploadedFile_kwargs \<Rightarrow> datetime \<Rightarrow> datetime \<Rightarrow> UploadedFile_object" where
  "UploadedFile_init kw now_created_at now_updated_at =
     \<lparr>obj_UploadedFile_id = kw_UploadedFile_id kw,
      obj_UploadedFile_filename = kw_UploadedFile_filename kw,
      obj_UploadedFile_original_filename = kw_UploadedFile_original_filename kw,
      obj_UploadedFile_file_path = kw_UploadedFile_file_path kw,
      obj_UploadedFile_file_size = kw_UploadedFile_file_size kw,
      obj_UploadedFile_mime_type = kw_UploadedFile_mime_type kw,
      obj_UploadedFile_file_hash = kw_UploadedFile_file_hash kw,
      obj_UploadedFile_status = with_default (FileStatus_value FileStatus_UPLOADING) (kw_UploadedFile_status kw),
      obj_UploadedFile_user_id = kw_UploadedFile_user_id kw,
      obj_UploadedFile_created_at = with_default now_created_at (kw_UploadedFile_created_at kw),
      obj_UploadedFile_updated_at = with_default now_updated_at (kw_UploadedFile_updated_at kw),
      obj_UploadedFile_file_metadata = with_default (JObj []) (kw_UploadedFile_file_metadata kw),
      obj_UploadedFile_processed_data = with_default (JObj []) (kw_UploadedFile_processed_data kw)\<rparr>"

definition UploadedFile_columns :: "string list" where
  "UploadedFile_columns = [''id'', ''filename'', ''original_filename'', ''file_path'',
                           ''file_size'', ''mime_type'', ''file_hash'', ''status'',
                           ''user_id'', ''created_at'', ''updated_at'', ''file_metadata'',
                           ''processed_data'']"

definition UploadedFile_relationships :: "string list" where
  "UploadedFile_relationships = [''user'', ''chat_file_attachments'']"

subsection \<open>\<^verbatim>\<open>ChatSession\<close>\<close>

record ChatSession_kwargs =
  kw_ChatSession_id :: "int option"
  kw_ChatSession_title :: "string option"
  kw_ChatSession_user_id :: int
  kw_ChatSession_created_at :: "datetime option"
  kw_ChatSession_updated_at :: "datetime option"
  kw_ChatSession_is_active :: "bool option"
  kw_ChatSession_ai_model :: "string option"
  kw_ChatSession_system_prompt :: "string option"
  kw_ChatSession_temperature :: "decimal option"
  kw_ChatSession_max_tokens :: "int option"
  kw_ChatSession_settings :: "json option"

record ChatSession =
  ChatSession_id :: "int option"
  ChatSession_title :: string
  ChatSession_user_id :: int
  ChatSession_created_at :: datetime
  ChatSession_updated_at :: datetime
  ChatSession_is_active :: bool
  ChatSession_ai_model :: string
  ChatSession_system_prompt :: string
  ChatSession_temperature :: decimal
  ChatSession_max_tokens :: int
  ChatSession_settings :: json

definition ChatSession_errors :: "ChatSession_kwargs \<Rightarrow> error list" where
  "ChatSession_errors kw =
       check_opt (check_max_length ''title'' 200) (kw_ChatSession_title kw)
     @ check_opt (check_max_length ''ai_model'' 100) (kw_ChatSession_ai_model kw)
     @ check_opt (check_max_length ''system_prompt'' 2000) (kw_ChatSession_system_prompt kw)"

definition ChatSession_model_validate ::
  "ChatSession_kwargs \<Rightarrow> datetime \<Rightarrow> datetime \<Rightarrow> error list + ChatSession" where
  "ChatSession_model_validate kw now_created_at now_updated_at =
     (if ChatSession_errors kw = []
      then Inr \<lparr>ChatSession_id = kw_ChatSession_id kw,
              ChatSession_title = with_default (''New Chat'') (kw_ChatSession_title kw),
              ChatSession_user_id = kw_ChatSession_user_id kw,
              ChatSession_created_at = with_default now_created_at (kw_ChatSession_created_at kw),
              ChatSession_updated_at = with_default now_updated_at (kw_ChatSession_updated_at kw),
              ChatSession_is_active = with_default True (kw_ChatSession_is_active kw),
              ChatSession_ai_model = with_default ''gpt-3.5-turbo'' (kw_ChatSession_ai_model kw),
              ChatSession_system_prompt = with_default '''' (kw_ChatSession_system_prompt kw),
              ChatSession_temperature = with_default (7 / 10) (kw_ChatSession_temperature kw),
              ChatSession_max_tokens = with_default 2048 (kw_ChatSession_max_tokens kw),
              ChatSession_settings = with_default (JObj []) (kw_ChatSession_settings kw)\<rparr>
      else Inl (ChatSession_errors kw))"

record ChatSession_object =
  obj_ChatSession_id :: "int option"
  obj_ChatSession_title :: string
  obj_ChatSession_user_id :: int
  obj_ChatSession_created_at :: datetime
  obj_ChatSession_updated_at :: datetime
  obj_ChatSession_is_active :: bool
  obj_ChatSession_ai_model :: string
  obj_ChatSession_system_prompt :: string
  obj_ChatSession_temperature :: decimal
  obj_ChatSession_max_tokens :: int
  obj_ChatSession_settings :: json

definition ChatSession_init :: "ChatSession_kwargs \<Rightarrow> datetime \<Rightarrow> datetime \<Rightarrow> ChatSession_object" where
  "ChatSession_init kw now_created_at now_updated_at =
     \<lparr>obj_ChatSession_id = kw_ChatSession_id kw,
      obj_ChatSession_title = with_default (''New Chat'') (kw_ChatSession_title kw),
      obj_ChatSession_user_id = kw_ChatSession_user_id kw,
      obj_ChatSession_created_at = with_default now_created_at (kw_ChatSession_created_at kw),
      obj_ChatSession_updated_at = with_default now_updated_at (kw_ChatSession_updated_at kw),
      obj_ChatSession_is_active = with_default True (kw_ChatSession_is_active kw),
      obj_ChatSession_ai_model = with_default ''gpt-3.5-turbo'' (kw_ChatSession_ai_model kw),
      obj_ChatSession_system_prompt = with_default '''' (kw_ChatSession_system_prompt kw),
      obj_ChatSession_temperature = with_default (7 / 10) (kw_ChatSession_temperature kw),
      obj_ChatSession_max_tokens = with_default 2048 (kw_ChatSession_max_tokens kw),
      obj_ChatSession_settings = with_default (JObj []) (kw_ChatSession_settings kw)\<rparr>"

definition ChatSession_columns :: "string list" where
  "ChatSession_columns = [''id'', ''title'', ''user_id'', ''created_at'', ''updated_at'',
                          ''is_active'', ''ai_model'', ''system_prompt'', ''temperature'',
                          ''max_tokens'', ''settings'']"


subsection \<open>\<^verbatim>\<open>ChatMessage\<close>\<close>

record ChatMessage_kwargs =
  kw_ChatMessage_id :: "int option"
  kw_ChatMessage_session_id :: int
  kw_ChatMessage_role :: string
  kw_ChatMessage_content :: string
  kw_ChatMessage_created_at :: "datetime option"
  kw_ChatMessage_input_tokens :: "int option"
  kw_ChatMessage_output_tokens :: "int option"
  kw_ChatMessage_message_metadata :: "json option"

record ChatMessage =
  ChatMessage_id :: "int option"
  ChatMessage_session_id :: int
  ChatMessage_role :: ChatMessageRole
  ChatMessage_content :: string
  ChatMessage_created_at :: datetime
  ChatMessage_input_tokens :: "int option"
  ChatMessage_output_tokens :: "int option"
  ChatMessage_message_metadata :: json

definition ChatMessage_errors :: "ChatMessage_kwargs \<Rightarrow> error list" where
  "ChatMessage_errors kw =
       check_enum ''role'' ChatMessageRole_members (kw_ChatMessage_role kw)
     @ check_max_length ''content'' 10000 (kw_ChatMessage_content kw)
     @ check_opt (check_ge ''input_tokens'' 0) (kw_ChatMessage_input_tokens kw)
     @ check_opt (check_ge ''output_tokens'' 0) (kw_ChatMessage_output_tokens kw)"

definition ChatMessage_model_validate ::
  "ChatMessage_kwargs \<Rightarrow> datetime \<Rightarrow> error list + ChatMessage" where
  "ChatMessage_model_validate kw now_created_at =
     (case enum_member ChatMessageRole_members (kw_ChatMessage_role kw) of
        Some v_role \<Rightarrow>
          (if ChatMessage_errors kw = []
           then Inr \<lparr>ChatMessage_id = kw_ChatMessage_id kw,
                    ChatMessage_session_id = kw_ChatMessage_session_id kw,
                    ChatMessage_role = v_role,
                    ChatMessage_content = kw_ChatMessage_content kw,
                    ChatMessage_created_at = with_default now_created_at (kw_ChatMessage_created_at kw),
                    ChatMessage_input_tokens = kw_ChatMessage_input_tokens kw,
                    ChatMessage_output_tokens = kw_ChatMessage_output_tokens kw,
                    ChatMessage_message_metadata = with_default (JObj []) (kw_ChatMessage_message_metadata kw)\<rparr>
           else Inl (ChatMessage_errors kw))
      | None \<Rightarrow> Inl (ChatMessage_errors kw))"

record ChatMessage_object =
  obj_ChatMessage_id :: "int option"
  obj_ChatMessage_session_id :: int
  obj_ChatMessage_role :: string
  obj_ChatMessage_content :: string
  obj_ChatMessage_created_at :: datetime
  obj_ChatMessage_input_tokens :: "int option"
  obj_ChatMessage_output_tokens :: "int option"
  obj_ChatMessage_message_metadata :: json

definition ChatMessage_init :: "ChatMessage_kwargs \<Rightarrow> datetime \<Rightarrow> ChatMessage_object" where
  "ChatMessage_init kw now_created_at =
     \<lparr>obj_ChatMessage_id = kw_ChatMessage_id kw,
      obj_ChatMessage_session_id = kw_ChatMessage_session_id kw,
      obj_ChatMessage_role = kw_ChatMessage_role kw,
      obj_ChatMessage_content = kw_ChatMessage_content kw,
      obj_ChatMessage_created_at = with_default now_created_at (kw_ChatMessage_created_at kw),
      obj_ChatMessage_input_tokens = kw_ChatMessage_input_tokens kw,
      obj_ChatMessage_output_tokens = kw_ChatMessage_output_tokens kw,
      obj_ChatMessage_message_metadata = with_default (JObj []) (kw_ChatMessage_message_metadata kw)\<rparr>"

definition ChatMessage_columns :: "string list" where
  "ChatMessage_columns = [''id'', ''session_id'', ''role'', ''content'', ''created_at'',
                          ''input_tokens'', ''output_tokens'', ''message_metadata'']"

definition ChatMessage_relationships :: "string list" where
  "ChatMessage_relationships = [''session'', ''file_attachments'']"

subsection \<open>\<^verbatim>\<open>ChatFileAttachment\<close>\<close>

record ChatFileAttachment_kwargs =
  kw_ChatFileAttachment_id :: "int option"
  kw_ChatFileAttachment_message_id :: int
  kw_ChatFileAttachment_file_id :: int
  kw_ChatFileAttachment_created_at :: "datetime option"

record ChatFileAttachment =
  ChatFileAttachment_id :: "int option"
  ChatFileAttachment_message_id :: int
  ChatFileAttachment_file_id :: int
  ChatFileAttachment_created_at :: datetime

definition ChatFileAttachment_errors :: "ChatFileAttachment_kwargs \<Rightarrow> error list" where
  "ChatFileAttachment_errors kw =
       []"

definition ChatFileAttachment_model_validate ::
  "ChatFileAttachment_kwargs \<Rightarrow> datetime \<Rightarrow> error list + ChatFileAttachment" where
  "ChatFileAttachment_model_validate kw now_created_at =
     (if ChatFileAttachment_errors kw = []
      then Inr \<lparr>ChatFileAttachment_id = kw_ChatFileAttachment_id kw,
              ChatFileAttachment_message_id = kw_ChatFileAttachment_message_id kw,
              ChatFileAttachment_file_id = kw_ChatFileAttachment_file_id kw,
              ChatFileAttachment_created_at = with_default now_created_at (kw_ChatFileAttachment_created_at kw)\<rparr>
      else Inl (ChatFileAttachment_errors kw))"

record ChatFileAttachment_object =
  obj_ChatFileAttachment_id :: "int option"
  obj_ChatFileAttachment_message_id :: int
  obj_ChatFileAttachment_file_id :: int
  obj_ChatFileAttachment_created_at :: datetime

definition ChatFileAttachment_init :: "ChatFileAttachment_kwargs \<Rightarrow> datetime \<Rightarrow> ChatFileAttachment_object" where
  "ChatFileAttachment_init kw now_created_at =
     \<lparr>obj_ChatFileAttachment_id = kw_ChatFileAttachment_id kw,
      obj_ChatFileAttachment_message_id = kw_ChatFileAttachment_message_id kw,
      obj_ChatFileAttachment_file_id = kw_ChatFileAttachment_file_id kw,
      obj_ChatFileAttachment_created_at = with_default now_created_at (kw_ChatFileAttachment_created_at kw)\<rparr>"

definition ChatFileAttachment_columns :: "string list" where
  "ChatFileAttachment_columns = [''id'', ''message_id'', ''file_id'', ''created_at'']"

definition ChatFileAttachment_relationships :: "string list" where
  "ChatFileAttachment_relationships = [''message'', ''file'']"

subsection \<open>\<^verbatim>\<open>SearchQuery\<close>\<close>

record SearchQuery_kwargs =
  kw_SearchQuery_id :: "int option"
  kw_SearchQuery_user_id :: int
  kw_SearchQuery_query :: string
  kw_SearchQuery_status :: "string option"
  kw_SearchQuery_created_at :: "datetime option"
  kw_SearchQuery_updated_at :: "datetime option"
  kw_SearchQuery_completed_at :: "datetime option"
  kw_SearchQuery_search_engines :: "string list option"
  kw_SearchQuery_max_results :: "int option"
  kw_SearchQuery_language :: "string option"
  kw_SearchQuery_region :: "string option"
  kw_SearchQuery_results :: "json option"
  kw_SearchQuery_results_count :: "int option"
  kw_SearchQuery_error_message :: "string option"

record SearchQuery =
  SearchQuery_id :: "int option"
  SearchQuery_user_id :: int
  SearchQuery_query :: string
  SearchQuery_status :: SearchStatus
  SearchQuery_created_at :: datetime
  SearchQuery_updated_at :: datetime
  SearchQuery_completed_at :: "datetime option"
  SearchQuery_search_engines :: "string list"
  SearchQuery_max_results :: int
  SearchQuery_language :: string
  SearchQuery_region :: string
  SearchQuery_results :: json
  SearchQuery_results_count :: int
  SearchQuery_error_message :: "string option"

definition SearchQuery_errors :: "SearchQuery_kwargs \<Rightarrow> error list" where
  "SearchQuery_errors kw =
       check_max_length ''query'' 1000 (kw_SearchQuery_query kw)
     @ check_opt (check_enum ''status'' SearchStatus_members) (kw_SearchQuery_status kw)
     @ check_opt (check_max_length ''language'' 10) (kw_SearchQuery_language kw)
     @ check_opt (check_max_length ''region'' 10) (kw_SearchQuery_region kw)
     @ check_opt (check_ge ''results_count'' 0) (kw_SearchQuery_results_count kw)
     @ check_opt (check_max_length ''error_message'' 1000) (kw_SearchQuery_error_message kw)"

definition SearchQuery_model_validate ::
  "SearchQuery_kwargs \<Rightarrow> datetime \<Rightarrow> datetime \<Rightarrow> error list + SearchQuery" where
  "SearchQuery_model_validate kw now_created_at now_updated_at =
     (case enum_member_default SearchStatus_PENDING SearchStatus_members (kw_SearchQuery_status kw) of
        Some v_status \<Rightarrow>
          (if SearchQuery_errors kw = []
           then Inr \<lparr>SearchQuery_id = kw_SearchQuery_id kw,
                    SearchQuery_user_id = kw_SearchQuery_user_id kw,
                    SearchQuery_query = kw_SearchQuery_query kw,
                    SearchQuery_status = v_status,
                    SearchQuery_created_at = with_default now_created_at (kw_SearchQuery_created_at kw),
                    SearchQuery_updated_at = with_default now_updated_at (kw_SearchQuery_updated_at kw),
                    SearchQuery_completed_at = kw_SearchQuery_completed_at kw,
                    SearchQuery_search_engines = with_default [''google''] (kw_SearchQuery_search_engines kw),
                    SearchQuery_max_results = with_default 10 (kw_SearchQuery_max_results kw),
                    SearchQuery_language = with_default ''en'' (kw_SearchQuery_language kw),
                    SearchQuery_region = with_default ''us'' (kw_SearchQuery_region kw),
                    SearchQuery_results = with_default (JObj []) (kw_SearchQuery_results kw),
                    SearchQuery_results_count = with_default 0 (kw_SearchQuery_results_count kw),
                    SearchQuery_error_message = kw_SearchQuery_error_message kw\<rparr>
           else Inl (SearchQuery_errors kw))
      | None \<Rightarrow> Inl (SearchQuery_errors kw))"

record SearchQuery_object =
  obj_SearchQuery_id :: "int option"
  obj_SearchQuery_user_id :: int
  obj_SearchQuery_query :: string
  obj_SearchQuery_status :: string
  obj_SearchQuery_created_at :: datetime
  obj_SearchQuery_updated_at :: datetime
  obj_SearchQuery_completed_at :: "datetime option"
  obj_SearchQuery_search_engines :: "string list"
  obj_SearchQuery_max_results :: int
  obj_SearchQuery_language :: string
  obj_SearchQuery_region :: string
  obj_SearchQuery_results :: json
  obj_SearchQuery_results_count :: int
  obj_SearchQuery_error_message :: "string option"

definition SearchQuery_init :: "SearchQuery_kwargs \<Rightarrow> datetime \<Rightarrow> datetime \<Rightarrow> SearchQuery_object" where
  "SearchQuery_init kw now_created_at now_updated_at =
     \<lparr>obj_SearchQuery_id = kw_SearchQuery_id kw,
      obj_SearchQuery_user_id = kw_SearchQuery_user_id kw,
      obj_SearchQuery_query = kw_SearchQuery_query kw,
      obj_SearchQuery_status = with_default (SearchStatus_value SearchStatus_PENDING) (kw_SearchQuery_status kw),
      obj_SearchQuery_created_at = with_default now_created_at (kw_SearchQuery_created_at kw),
      obj_SearchQuery_updated_at = with_default now_updated_at (kw_SearchQuery_updated_at kw),
      obj_SearchQuery_completed_at = kw_SearchQuery_completed_at kw,
      obj_SearchQuery_search_engines = with_default [''google''] (kw_SearchQuery_search_engines kw),
      obj_SearchQuery_max_results = with_default 10 (kw_SearchQuery_max_results kw),
      obj_SearchQuery_language = with_default ''en'' (kw_SearchQuery_language kw),
      obj_SearchQuery_region = with_default ''us'' (kw_SearchQuery_region kw),
      obj_SearchQuery_results = with_default (JObj []) (kw_SearchQuery_results kw),
      obj_SearchQuery_results_count = with_default 0 (kw_SearchQuery_results_count kw),
      obj_SearchQuery_error_message = kw_SearchQuery_error_message kw\<rparr>"

definition SearchQuery_columns :: "string list" where
  "SearchQuery_columns = [''id'', ''user_id'', ''query'', ''status'', ''created_at'',
                          ''updated_at'', ''completed_at'', ''search_engines'',
                          ''max_results'', ''language'', ''region'', ''results'',
                          ''results_count'', ''error_message'']"

definition SearchQuery_relationships :: "string list" where
  "SearchQuery_relationships = [''user'']"

subsection \<open>\<^verbatim>\<open>VideoProject\<close>\<close>

record VideoProject_kwargs =
  kw_VideoProject_id :: "int option"
  kw_VideoProject_user_id :: int
  kw_VideoProject_title :: string
  kw_VideoProject_description :: "string option"
  kw_VideoProject_created_at :: "datetime option"
  kw_VideoProject_updated_at :: "datetime option"
  kw_VideoProject_settings :: "json option"

record VideoProject =
  VideoProject_id :: "int option"
  VideoProject_user_id :: int
  VideoProject_title :: string
  VideoProject_description :: string
  VideoProject_created_at :: datetime
  VideoProject_updated_at :: datetime
  VideoProject_settings :: json

definition VideoProject_errors :: "VideoProject_kwargs \<Rightarrow> error list" where
  "VideoProject_errors kw =
       check_max_length ''title'' 200 (kw_VideoProject_title kw)
     @ check_opt (check_max_length ''description'' 1000) (kw_VideoProject_description kw)"

definition VideoProject_model_validate ::
  "VideoProject_kwargs \<Rightarrow> datetime \<Rightarrow> datetime \<Rightarrow> error list + VideoProject" where
  "VideoProject_model_validate kw now_created_at now_updated_at =
     (if VideoProject_errors kw = []
      then Inr \<lparr>VideoProject_id = kw_VideoProject_id kw,
              VideoProject_user_id = kw_VideoProject_user_id kw,
              VideoProject_title = kw_VideoProject_title kw,
              VideoProject_description = with_default '''' (kw_VideoProject_description kw),
              VideoProject_created_at = with_default now_created_at (kw_VideoProject_created_at kw),
              VideoProject_updated_at = with_default now_updated_at (kw_VideoProject_updated_at kw),
              VideoProject_settings = with_default (JObj []) (kw_VideoProject_settings kw)\<rparr>
      else Inl (VideoProject_errors kw))"

record VideoProject_object =
  obj_VideoProject_id :: "int option"
  obj_VideoProject_user_id :: int
  obj_VideoProject_title :: string
  obj_VideoProject_description :: string
  obj_VideoProject_created_at :: datetime
  obj_VideoProject_updated_at :: datetime
  obj_VideoProject_settings :: json

definition VideoProject_init :: "VideoProject_kwargs \<Rightarrow> datetime \<Rightarrow> datetime \<Rightarrow> VideoProject_object" where
  "VideoProject_init kw now_created_at now_updated_at =
     \<lparr>obj_VideoProject_id = kw_VideoProject_id kw,
      obj_VideoProject_user_id = kw_VideoProject_user_id kw,
      obj_VideoProject_title = kw_VideoProject_title kw,
      obj_VideoProject_description = with_default '''' (kw_VideoProject_description kw),
      obj_VideoProject_created_at = with_default now_created_at (kw_VideoProject_created_at kw),
      obj_VideoProject_updated_at = with_default now_updated_at (kw_VideoProject_updated_at kw),
      obj_VideoProject_settings = with_default (JObj []) (kw_VideoProject_settings kw)\<rparr>"

definition VideoProject_columns :: "string list" where
  "VideoProject_columns = [''id'', ''user_id'', ''title'', ''description'', ''created_at'',
                           ''updated_at'', ''settings'']"


subsection \<open>\<^verbatim>\<open>VideoFile\<close>\<close>

record VideoFile_kwargs =
  kw_VideoFile_id :: "int option"
  kw_VideoFile_project_id :: int
  kw_VideoFile_filename :: string
  kw_VideoFile_original_filename :: string
  kw_VideoFile_file_path :: string
  kw_VideoFile_file_size :: int
  kw_VideoFile_duration :: "decimal option"
  kw_VideoFile_resolution :: "string option"
  kw_VideoFile_fps :: "decimal option"
  kw_VideoFile_codec :: "string option"
  kw_VideoFile_status :: "string option"
  kw_VideoFile_created_at :: "datetime option"
  kw_VideoFile_updated_at :: "datetime option"
  kw_VideoFile_video_metadata :: "json option"

record VideoFile =
  VideoFile_id :: "int option"
  VideoFile_project_id :: int
  VideoFile_filename :: string
  VideoFile_original_filename :: string
  VideoFile_file_path :: string
  VideoFile_file_size :: int
  VideoFile_duration :: "decimal option"
  VideoFile_resolution :: "string option"
  VideoFile_fps :: "decimal option"
  VideoFile_codec :: "string option"
  VideoFile_status :: VideoStatus
  VideoFile_created_at :: datetime
  VideoFile_updated_at :: datetime
  VideoFile_video_metadata :: json

definition VideoFile_errors :: "VideoFile_kwargs \<Rightarrow> error list" where
  "VideoFile_errors kw =
       check_max_length ''filename'' 255 (kw_VideoFile_filename kw)
     @ check_max_length ''original_filename'' 255 (kw_VideoFile_original_filename kw)
     @ check_max_length ''file_path'' 500 (kw_VideoFile_file_path kw)
     @ check_ge ''file_size'' 0 (kw_VideoFile_file_size kw)
     @ check_opt (check_max_length ''resolution'' 20) (kw_VideoFile_resolution kw)
     @ check_opt (check_max_length ''codec'' 50) (kw_VideoFile_codec kw)
     @ check_opt (check_enum ''status'' VideoStatus_members) (kw_VideoFile_status kw)"

definition VideoFile_model_validate ::
  "VideoFile_kwargs \<Rightarrow> datetime \<Rightarrow> datetime \<Rightarrow> error list + VideoFile" where
  "VideoFile_model_validate kw now_created_at now_updated_at =
     (case enum_member_default VideoStatus_UPLOADED VideoStatus_members (kw_VideoFile_status kw) of
        Some v_status \<Rightarrow>
          (if VideoFile_errors kw = []
           then Inr \<lparr>VideoFile_id = kw_VideoFile_id kw,
                    VideoFile_project_id = kw_VideoFile_project_id kw,
                    VideoFile_filename = kw_VideoFile_filename kw,
                    VideoFile_original_filename = kw_VideoFile_original_filename kw,
                    VideoFile_file_path = kw_VideoFile_file_path kw,
                    VideoFile_file_size = kw_VideoFile_file_size kw,
                    VideoFile_duration = kw_VideoFile_duration kw,
                    VideoFile_resolution = kw_VideoFile_resolution kw,
                    VideoFile_fps = kw_VideoFile_fps kw,
                    VideoFile_codec = kw_VideoFile_codec kw,
                    VideoFile_status = v_status,
                    VideoFile_created_at = with_default now_created_at (kw_VideoFile_created_at kw),
                    VideoFile_updated_at = with_default now_updated_at (kw_VideoFile_updated_at kw),
                    VideoFile_video_metadata = with_default (JObj []) (kw_VideoFile_video_metadata kw)\<rparr>
           else Inl (VideoFile_errors kw))
      | None \<Rightarrow> Inl (VideoFile_errors kw))"

record VideoFile_object =
  obj_VideoFile_id :: "int option"
  obj_VideoFile_project_id :: int
  obj_VideoFile_filename :: string
  obj_VideoFile_original_filename :: string
  obj_VideoFile_file_path :: string
  obj_VideoFile_file_size :: int
  obj_VideoFile_duration :: "decimal option"
  obj_VideoFile_resolution :: "string option"
  obj_VideoFile_fps :: "decimal option"
  obj_VideoFile_codec :: "string option"
  obj_VideoFile_status :: string
  obj_VideoFile_created_at :: datetime
  obj_VideoFile_updated_at :: datetime
  obj_VideoFile_video_metadata :: json

definition VideoFile_init :: "VideoFile_kwargs \<Rightarrow> datetime \<Rightarrow> datetime \<Rightarrow> VideoFile_object" where
  "VideoFile_init kw now_created_at now_updated_at =
     \<lparr>obj_VideoFile_id = kw_VideoFile_id kw,
      obj_VideoFile_project_id = kw_VideoFile_project_id kw,
      obj_VideoFile_filename = kw_VideoFile_filename kw,
      obj_VideoFile_original_filename = kw_VideoFile_original_filename kw,
      obj_VideoFile_file_path = kw_VideoFile_file_path kw,
      obj_VideoFile_file_size = kw_VideoFile_file_size kw,
      obj_VideoFile_duration = kw_VideoFile_duration kw,
      obj_VideoFile_resolution = kw_VideoFile_resolution kw,
      obj_VideoFile_fps = kw_VideoFile_fps kw,
      obj_VideoFile_codec = kw_VideoFile_codec kw,
      obj_VideoFile_status = with_default (VideoStatus_value VideoStatus_UPLOADED) (kw_VideoFile_status kw),
      obj_VideoFile_created_at = with_default now_created_at (kw_VideoFile_created_at kw),
      obj_VideoFile_updated_at = with_default now_updated_at (kw_VideoFile_updated_at kw),
      obj_VideoFile_video_metadata = with_default (JObj []) (kw_VideoFile_video_metadata kw)\<rparr>"

definition VideoFile_columns :: "string list" where
  "VideoFile_columns = [''id'', ''project_id'', ''filename'', ''original_filename'',
                        ''file_path'', ''file_size'', ''duration'', ''resolution'', ''fps'',
                        ''codec'', ''status'', ''created_at'', ''updated_at'',
                        ''video_metadata'']"

definition VideoFile_relationships :: "string list" where
  "VideoFile_relationships = [''project'']"

subsection \<open>\<^verbatim>\<open>VideoEditTask\<close>\<close>

record VideoEditTask_kwargs =
  kw_VideoEditTask_id :: "int option"
  kw_VideoEditTask_project_id :: int
  kw_VideoEditTask_edit_type :: string
  kw_VideoEditTask_status :: "string option"
  kw_VideoEditTask_user_prompt :: string
  kw_VideoEditTask_created_at :: "datetime option"
  kw_VideoEditTask_updated_at :: "datetime option"
  kw_VideoEditTask_completed_at :: "datetime option"
  kw_VideoEditTask_edit_parameters :: "json option"
  kw_VideoEditTask_output_file_path :: "string option"
  kw_VideoEditTask_processing_log :: "string option"
  kw_VideoEditTask_error_message :: "string option"
  kw_VideoEditTask_progress_percentage :: "decimal option"

record VideoEditTask =
  VideoEditTask_id :: "int option"
  VideoEditTask_project_id :: int
  VideoEditTask_edit_type :: VideoEditType
  VideoEditTask_status :: VideoStatus
  VideoEditTask_user_prompt :: string
  VideoEditTask_created_at :: datetime
  VideoEditTask_updated_at :: datetime
  VideoEditTask_completed_at :: "datetime option"
  VideoEditTask_edit_parameters :: json
  VideoEditTask_output_file_path :: "string option"
  VideoEditTask_processing_log :: string
  VideoEditTask_error_message :: "string option"
  VideoEditTask_progress_percentage :: decimal

definition VideoEditTask_errors :: "VideoEditTask_kwargs \<Rightarrow> error list" where
  "VideoEditTask_errors kw =
       check_enum ''edit_type'' VideoEditType_members (kw_VideoEditTask_edit_type kw)
     @ check_opt (check_enum ''status'' VideoStatus_members) (kw_VideoEditTask_status kw)
     @ check_max_length ''user_prompt'' 2000 (kw_VideoEditTask_user_prompt kw)
     @ check_opt (check_max_length ''output_file_path'' 500) (kw_VideoEditTask_output_file_path kw)
     @ check_opt (check_max_length ''processing_log'' 5000) (kw_VideoEditTask_processing_log kw)
     @ check_opt (check_max_length ''error_message'' 1000) (kw_VideoEditTask_error_message kw)"

definition VideoEditTask_model_validate ::
  "VideoEditTask_kwargs \<Rightarrow> datetime \<Rightarrow> datetime \<Rightarrow> error list + VideoEditTask" where
  "VideoEditTask_model_validate kw now_created_at now_updated_at =
     (case (enum_member VideoEditType_members (kw_VideoEditTask_edit_type kw),
            enum_member_default VideoStatus_UPLOADED VideoStatus_members (kw_VideoEditTask_status kw)) of
        (Some v_edit_type, Some v_status) \<Rightarrow>
          (if VideoEditTask_errors kw = []
           then Inr \<lparr>VideoEditTask_id = kw_VideoEditTask_id kw,
                    VideoEditTask_project_id = kw_VideoEditTask_project_id kw,
                    VideoEditTask_edit_type = v_edit_type,
                    VideoEditTask_status = v_status,
                    VideoEditTask_user_prompt = kw_VideoEditTask_user_prompt kw,
                    VideoEditTask_created_at = with_default now_created_at (kw_VideoEditTask_created_at kw),
                    VideoEditTask_updated_at = with_default now_updated_at (kw_VideoEditTask_updated_at kw),
                    VideoEditTask_completed_at = kw_VideoEditTask_completed_at kw,
                    VideoEditTask_edit_parameters = with_default (JObj []) (kw_VideoEditTask_edit_parameters kw),
                    VideoEditTask_output_file_path = kw_VideoEditTask_output_file_path kw,
                    VideoEditTask_processing_log = with_default '''' (kw_VideoEditTask_processing_log kw),
                    VideoEditTask_error_message = kw_VideoEditTask_error_message kw,
                    VideoEditTask_progress_percentage = with_default 0 (kw_VideoEditTask_progress_percentage kw)\<rparr>
           else Inl (VideoEditTask_errors kw))
      | _ \<Rightarrow> Inl (VideoEditTask_errors kw))"

record VideoEditTask_object =
  obj_VideoEditTask_id :: "int option"
  obj_VideoEditTask_project_id :: int
  obj_VideoEditTask_edit_type :: string
  obj_VideoEditTask_status :: string
  obj_VideoEditTask_user_prompt :: string
  obj_VideoEditTask_created_at :: datetime
  obj_VideoEditTask_updated_at :: datetime
  obj_VideoEditTask_completed_at :: "datetime option"
  obj_VideoEditTask_edit_parameters :: json
  obj_VideoEditTask_output_file_path :: "string option"
  obj_VideoEditTask_processing_log :: string
  obj_VideoEditTask_error_message :: "string option"
  obj_VideoEditTask_progress_percentage :: decimal

definition VideoEditTask_init :: "VideoEditTask_kwargs \<Rightarrow> datetime \<Rightarrow> datetime \<Rightarrow> VideoEditTask_object" where
  "VideoEditTask_init kw now_created_at now_updated_at =
     \<lparr>obj_VideoEditTask_id = kw_VideoEditTask_id kw,
      obj_VideoEditTask_project_id = kw_VideoEditTask_project_id kw,
      obj_VideoEditTask_edit_type = kw_VideoEditTask_edit_type kw,
      obj_VideoEditTask_status = with_default (VideoStatus_value VideoStatus_UPLOADED) (kw_VideoEditTask_status kw),
      obj_VideoEditTask_user_prompt = kw_VideoEditTask_user_prompt kw,
      obj_VideoEditTask_created_at = with_default now_created_at (kw_VideoEditTask_created_at kw),
      obj_VideoEditTask_updated_at = with_default now_updated_at (kw_VideoEditTask_updated_at kw),
      obj_VideoEditTask_completed_at = kw_VideoEditTask_completed_at kw,
      obj_VideoEditTask_edit_parameters = with_default (JObj []) (kw_VideoEditTask_edit_parameters kw),
      obj_VideoEditTask_output_file_path = kw_VideoEditTask_output_file_path kw,
      obj_VideoEditTask_processing_log = with_default '''' (kw_VideoEditTask_processing_log kw),
      obj_VideoEditTask_error_message = kw_VideoEditTask_error_message kw,
      obj_VideoEditTask_progress_percentage = with_default 0 (kw_VideoEditTask_progress_percentage kw)\<rparr>"

definition VideoEditTask_columns :: "string list" where
  "VideoEditTask_columns = [''id'', ''project_id'', ''edit_type'', ''status'',
                            ''user_prompt'', ''created_at'', ''updated_at'',
                            ''completed_at'', ''edit_parameters'', ''output_file_path'',
                            ''processing_log'', ''error_message'', ''progress_percentage'']"


section \<open>Non-persistent schemas\<close>

text \<open>
  The classes declared with \<^verbatim>\<open>table=False\<close>. A field \<^verbatim>\<open>Optional[T] = Field(default=d)\<close>
  of a shape has three kinds of payload: omitted (\<open>None\<close>), null (\<open>Some None\<close>) and a
  value (\<open>Some (Some v)\<close>); only the omitted field takes the default.

  Every field of an Update shape is \<^verbatim>\<open>Optional[T] = Field(default=None)\<close>. Its attribute
  is null both when the call omits the field and when the call passes null; the instance
  tells the two apart by the set of the fields that the call has set
  (\<^verbatim>\<open>model_fields_set\<close>). The record of an Update shape holds both: a field is \<open>None\<close>
  when it is unset, \<open>Some None\<close> when it is set to null and \<open>Some (Some v)\<close> when it is set
  to \<open>v\<close>. \<open>X_fields\<close> lists the fields of an Update shape.
\<close>

subsection \<open>\<^verbatim>\<open>UserCreate\<close>\<close>

record UserCreate_kwargs =
  kw_UserCreate_username :: string
  kw_UserCreate_email :: string
  kw_UserCreate_full_name :: string
  kw_UserCreate_storage_quota :: "int option option"

record UserCreate =
  UserCreate_username :: string
  UserCreate_email :: string
  UserCreate_full_name :: string
  UserCreate_storage_quota :: "int option"

definition UserCreate_errors :: "UserCreate_kwargs \<Rightarrow> error list" where
  "UserCreate_errors kw =
       check_max_length ''username'' 50 (kw_UserCreate_username kw)
     @ check_max_length ''email'' 255 (kw_UserCreate_email kw)
     @ check_max_length ''full_name'' 200 (kw_UserCreate_full_name kw)"

definition UserCreate_validate :: "UserCreate_kwargs \<Rightarrow> error list + UserCreate" where
  "UserCreate_validate kw =
     (if UserCreate_errors kw = []
      then Inr \<lparr>UserCreate_username = kw_UserCreate_username kw,
              UserCreate_email = kw_UserCreate_email kw,
              UserCreate_full_name = kw_UserCreate_full_name kw,
              UserCreate_storage_quota = with_default (Some 5368709120) (kw_UserCreate_storage_quota kw)\<rparr>
      else Inl (UserCreate_errors kw))"

subsection \<open>\<^verbatim>\<open>UserUpdate\<close>\<close>

record UserUpdate_kwargs =
  kw_UserUpdate_username :: "string option option"
  kw_UserUpdate_email :: "string option option"
  kw_UserUpdate_full_name :: "string option option"
  kw_UserUpdate_is_active :: "bool option option"
  kw_UserUpdate_storage_quota :: "int option option"

record UserUpdate =
  UserUpdate_username :: "string option option"
  UserUpdate_email :: "string option option"
  UserUpdate_full_name :: "string option option"
  UserUpdate_is_active :: "bool option option"
  UserUpdate_storage_quota :: "int option option"

definition UserUpdate_errors :: "UserUpdate_kwargs \<Rightarrow> error list" where
  "UserUpdate_errors kw =
       check_opt (check_opt (check_max_length ''username'' 50)) (kw_UserUpdate_username kw)
     @ check_opt (check_opt (check_max_length ''email'' 255)) (kw_UserUpdate_email kw)
     @ check_opt (check_opt (check_max_length ''full_name'' 200)) (kw_UserUpdate_full_name kw)"

definition UserUpdate_validate :: "UserUpdate_kwargs \<Rightarrow> error list + UserUpdate" where
  "UserUpdate_validate kw =
     (if UserUpdate_errors kw = []
      then Inr \<lparr>UserUpdate_username = kw_UserUpdate_username kw,
              UserUpdate_email = kw_UserUpdate_email kw,
              UserUpdate_full_name = kw_UserUpdate_full_name kw,
              UserUpdate_is_active = kw_UserUpdate_is_active kw,
              UserUpdate_storage_quota = kw_UserUpdate_storage_quota kw\<rparr>
      else Inl (UserUpdate_errors kw))"


subsection \<open>\<^verbatim>\<open>FileUploadRequest\<close>\<close>

record FileUploadRequest_kwargs =
  kw_FileUploadRequest_filename :: string
  kw_FileUploadRequest_file_size :: int
  kw_FileUploadRequest_mime_type :: string

record FileUploadRequest =
  FileUploadRequest_filename :: string
  FileUploadRequest_file_size :: int
  FileUploadRequest_mime_type :: string

definition FileUploadRequest_errors :: "FileUploadRequest_kwargs \<Rightarrow> error list" where
  "FileUploadRequest_errors kw =
       check_max_length ''filename'' 255 (kw_FileUploadRequest_filename kw)
     @ check_ge ''file_size'' 0 (kw_FileUploadRequest_file_size kw)
     @ check_max_length ''mime_type'' 100 (kw_FileUploadRequest_mime_type kw)"

definition FileUploadRequest_validate ::
  "FileUploadRequest_kwargs \<Rightarrow> error list + FileUploadRequest" where
  "FileUploadRequest_validate kw =
     (if FileUploadRequest_errors kw = []
      then Inr \<lparr>FileUploadRequest_filename = kw_FileUploadRequest_filename kw,
              FileUploadRequest_file_size = kw_FileUploadRequest_file_size kw,
              FileUploadRequest_mime_type = kw_FileUploadRequest_mime_type kw\<rparr>
      else Inl (FileUploadRequest_errors kw))"

subsection \<open>\<^verbatim>\<open>ChatSessionCreate\<close>\<close>

record ChatSessionCreate_kwargs =
  kw_ChatSessionCreate_title :: "string option option"
  kw_ChatSessionCreate_ai_model :: "string option option"
  kw_ChatSessionCreate_system_prompt :: "string option option"
  kw_ChatSessionCreate_temperature :: "decimal option option"
  kw_ChatSessionCreate_max_tokens :: "int option option"

record ChatSessionCreate =
  ChatSessionCreate_title :: "string option"
  ChatSessionCreate_ai_model :: "string option"
  ChatSessionCreate_system_prompt :: "string option"
  ChatSessionCreate_temperature :: "decimal option"
  ChatSessionCreate_max_tokens :: "int option"

definition ChatSessionCreate_errors :: "ChatSessionCreate_kwargs \<Rightarrow> error list" where
  "ChatSessionCreate_errors kw =
       check_opt (check_opt (check_max_length ''title'' 200)) (kw_ChatSessionCreate_title kw)
     @ check_opt (check_opt (check_max_length ''ai_model'' 100)) (kw_ChatSessionCreate_ai_model kw)
     @ check_opt (check_opt (check_max_length ''system_prompt'' 2000)) (kw_ChatSessionCreate_system_prompt kw)"

definition ChatSessionCreate_validate ::
  "ChatSessionCreate_kwargs \<Rightarrow> error list + ChatSessionCreate" where
  "ChatSessionCreate_validate kw =
     (if ChatSessionCreate_errors kw = []
      then Inr \<lparr>ChatSessionCreate_title = with_default (Some (''New Chat'')) (kw_ChatSessionCreate_title kw),
              ChatSessionCreate_ai_model = with_default (Some ''gpt-3.5-turbo'') (kw_ChatSessionCreate_ai_model kw),
              ChatSessionCreate_system_prompt = with_default (Some '''') (kw_ChatSessionCreate_system_prompt kw),
              ChatSessionCreate_temperature = with_default (Some (7 / 10)) (kw_ChatSessionCreate_temperature kw),
              ChatSessionCreate_max_tokens = with_default (Some 2048) (kw_ChatSessionCreate_max_tokens kw)\<rparr>
      else Inl (ChatSessionCreate_errors kw))"

subsection \<open>\<^verbatim>\<open>ChatSessionUpdate\<close>\<close>

record ChatSessionUpdate_kwargs =
  kw_ChatSessionUpdate_title :: "string option option"
  kw_ChatSessionUpdate_ai_model :: "string option option"
  kw_ChatSessionUpdate_system_prompt :: "string option option"
  kw_ChatSessionUpdate_temperature :: "decimal option option"
  kw_ChatSessionUpdate_max_tokens :: "int option option"
  kw_ChatSessionUpdate_is_active :: "bool option option"

record ChatSessionUpdate =
  ChatSessionUpdate_title :: "string option option"
  ChatSessionUpdate_ai_model :: "string option option"
  ChatSessionUpdate_system_prompt :: "string option option"
  ChatSessionUpdate_temperature :: "decimal option option"
  ChatSessionUpdate_max_tokens :: "int option option"
  ChatSessionUpdate_is_active :: "bool option option"

definition ChatSessionUpdate_errors :: "ChatSessionUpdate_kwargs \<Rightarrow> error list" where
  "ChatSessionUpdate_errors kw =
       check_opt (check_opt (check_max_length ''title'' 200)) (kw_ChatSessionUpdate_title kw)
     @ check_opt (check_opt (check_max_length ''ai_model'' 100)) (kw_ChatSessionUpdate_ai_model kw)
     @ check_opt (check_opt (check_max_length ''system_prompt'' 2000)) (kw_ChatSessionUpdate_system_prompt kw)"

definition ChatSessionUpdate_validate ::
  "ChatSessionUpdate_kwargs \<Rightarrow> error list + ChatSessionUpdate" where
  "ChatSessionUpdate_validate kw =
     (if ChatSessionUpdate_errors kw = []
      then Inr \<lparr>ChatSessionUpdate_title = kw_ChatSessionUpdate_title kw,
              ChatSessionUpdate_ai_model = kw_ChatSessionUpdate_ai_model kw,
              ChatSessionUpdate_system_prompt = kw_ChatSessionUpdate_system_prompt kw,
              ChatSessionUpdate_temperature = kw_ChatSessionUpdate_temperature kw,
              ChatSessionUpdate_max_tokens = kw_ChatSessionUpdate_max_tokens kw,
              ChatSessionUpdate_is_active = kw_ChatSessionUpdate_is_active kw\<rparr>
      else Inl (ChatSessionUpdate_errors kw))"


subsection \<open>\<^verbatim>\<open>ChatMessageCreate\<close>\<close>

record ChatMessageCreate_kwargs =
  kw_ChatMessageCreate_role :: string
  kw_ChatMessageCreate_content :: string
  kw_ChatMessageCreate_file_ids :: "int list option option"

record ChatMessageCreate =
  ChatMessageCreate_role :: ChatMessageRole
  ChatMessageCreate_content :: string
  ChatMessageCreate_file_ids :: "int list option"

definition ChatMessageCreate_errors :: "ChatMessageCreate_kwargs \<Rightarrow> error list" where
  "ChatMessageCreate_errors kw =
       check_enum ''role'' ChatMessageRole_members (kw_ChatMessageCreate_role kw)
     @ check_max_length ''content'' 10000 (kw_ChatMessageCreate_content kw)"

definition ChatMessageCreate_validate ::
  "ChatMessageCreate_kwargs \<Rightarrow> error list + ChatMessageCreate" where
  "ChatMessageCreate_validate kw =
     (case enum_member ChatMessageRole_members (kw_ChatMessageCreate_role kw) of
        Some v_role \<Rightarrow>
          (if ChatMessageCreate_errors kw = []
           then Inr \<lparr>ChatMessageCreate_role = v_role,
                    ChatMessageCreate_content = kw_ChatMessageCreate_content kw,
                    ChatMessageCreate_file_ids = with_default (Some []) (kw_ChatMessageCreate_file_ids kw)\<rparr>
           else Inl (ChatMessageCreate_errors kw))
      | None \<Rightarrow> Inl (ChatMessageCreate_errors kw))"

subsection \<open>\<^verbatim>\<open>SearchQueryCreate\<close>\<close>

record SearchQueryCreate_kwargs =
  kw_SearchQueryCreate_query :: string
  kw_SearchQueryCreate_search_engines :: "string list option option"
  kw_SearchQueryCreate_max_results :: "int option option"
  kw_SearchQueryCreate_language :: "string option option"
  kw_SearchQueryCreate_region :: "string option option"

record SearchQueryCreate =
  SearchQueryCreate_query :: string
  SearchQueryCreate_search_engines :: "string list option"
  SearchQueryCreate_max_results :: "int option"
  SearchQueryCreate_language :: "string option"
  SearchQueryCreate_region :: "string option"

definition SearchQueryCreate_errors :: "SearchQueryCreate_kwargs \<Rightarrow> error list" where
  "SearchQueryCreate_errors kw =
       check_max_length ''query'' 1000 (kw_SearchQueryCreate_query kw)
     @ check_opt (check_opt (check_max_length ''language'' 10)) (kw_SearchQueryCreate_language kw)
     @ check_opt (check_opt (check_max_length ''region'' 10)) (kw_SearchQueryCreate_region kw)"

definition SearchQueryCreate_validate ::
  "SearchQueryCreate_kwargs \<Rightarrow> error list + SearchQueryCreate" where
  "SearchQueryCreate_validate kw =
     (if SearchQueryCreate_errors kw = []
      then Inr \<lparr>SearchQueryCreate_query = kw_SearchQueryCreate_query kw,
              SearchQueryCreate_search_engines = with_default (Some [''google'']) (kw_SearchQueryCreate_search_engines kw),
              SearchQueryCreate_max_results = with_default (Some 10) (kw_SearchQueryCreate_max_results kw),
              SearchQueryCreate_language = with_default (Some ''en'') (kw_SearchQueryCreate_language kw),
              SearchQueryCreate_region = with_default (Some ''us'') (kw_SearchQueryCreate_region kw)\<rparr>
      else Inl (SearchQueryCreate_errors kw))"

subsection \<open>\<^verbatim>\<open>VideoProjectCreate\<close>\<close>

record VideoProjectCreate_kwargs =
  kw_VideoProjectCreate_title :: string
  kw_VideoProjectCreate_description :: "string option option"

record VideoProjectCreate =
  VideoProjectCreate_title :: string
  VideoProjectCreate_description :: "string option"

definition VideoProjectCreate_errors :: "VideoProjectCreate_kwargs \<Rightarrow> error list" where
  "VideoProjectCreate_errors kw =
       check_max_length ''title'' 200 (kw_VideoProjectCreate_title kw)
     @ check_opt (check_opt (check_max_length ''description'' 1000)) (kw_VideoProjectCreate_description kw)"

definition VideoProjectCreate_validate ::
  "VideoProjectCreate_kwargs \<Rightarrow> error list + VideoProjectCreate" where
  "VideoProjectCreate_validate kw =
     (if VideoProjectCreate_errors kw = []
      then Inr \<lparr>VideoProjectCreate_title = kw_VideoProjectCreate_title kw,
              VideoProjectCreate_description = with_default (Some '''') (kw_VideoProjectCreate_description kw)\<rparr>
      else Inl (VideoProjectCreate_errors kw))"

subsection \<open>\<^verbatim>\<open>VideoProjectUpdate\<close>\<close>

record VideoProjectUpdate_kwargs =
  kw_VideoProjectUpdate_title :: "string option option"
  kw_VideoProjectUpdate_description :: "string option option"

record VideoProjectUpdate =
  VideoProjectUpdate_title :: "string option option"
  VideoProjectUpdate_description :: "string option option"

definition VideoProjectUpdate_errors :: "VideoProjectUpdate_kwargs \<Rightarrow> error list" where
  "VideoProjectUpdate_errors kw =
       check_opt (check_opt (check_max_length ''title'' 200)) (kw_VideoProjectUpdate_title kw)
     @ check_opt (check_opt (check_max_length ''description'' 1000)) (kw_VideoProjectUpdate_description kw)"

definition VideoProjectUpdate_validate ::
  "VideoProjectUpdate_kwargs \<Rightarrow> error list + VideoProjectUpdate" where
  "VideoProjectUpdate_validate kw =
     (if VideoProjectUpdate_errors kw = []
      then Inr \<lparr>VideoProjectUpdate_title = kw_VideoProjectUpdate_title kw,
              VideoProjectUpdate_description = kw_VideoProjectUpdate_description kw\<rparr>
      else Inl (VideoProjectUpdate_errors kw))"


subsection \<open>\<^verbatim>\<open>VideoEditTaskCreate\<close>\<close>

record VideoEditTaskCreate_kwargs =
  kw_VideoEditTaskCreate_edit_type :: string
  kw_VideoEditTaskCreate_user_prompt :: string

record VideoEditTaskCreate =
  VideoEditTaskCreate_edit_type :: VideoEditType
  VideoEditTaskCreate_user_prompt :: string

definition VideoEditTaskCreate_errors :: "VideoEditTaskCreate_kwargs \<Rightarrow> error list" where
  "VideoEditTaskCreate_errors kw =
       check_enum ''edit_type'' VideoEditType_members (kw_VideoEditTaskCreate_edit_type kw)
     @ check_max_length ''user_prompt'' 2000 (kw_VideoEditTaskCreate_user_prompt kw)"

definition VideoEditTaskCreate_validate ::
  "VideoEditTaskCreate_kwargs \<Rightarrow> error list + VideoEditTaskCreate" where
  "VideoEditTaskCreate_validate kw =
     (case enum_member VideoEditType_members (kw_VideoEditTaskCreate_edit_type kw) of
        Some v_edit_type \<Rightarrow>
          (if VideoEditTaskCreate_errors kw = []
           then Inr \<lparr>VideoEditTaskCreate_edit_type = v_edit_type,
                    VideoEditTaskCreate_user_prompt = kw_VideoEditTaskCreate_user_prompt kw\<rparr>
           else Inl (VideoEditTaskCreate_errors kw))
      | None \<Rightarrow> Inl (VideoEditTaskCreate_errors kw))"

subsection \<open>\<^verbatim>\<open>VideoEditTaskUpdate\<close>\<close>

record VideoEditTaskUpdate_kwargs =
  kw_VideoEditTaskUpdate_status :: "string option option"
  kw_VideoEditTaskUpdate_edit_parameters :: "json option option"
  kw_VideoEditTaskUpdate_output_file_path :: "string option option"
  kw_VideoEditTaskUpdate_processing_log :: "string option option"
  kw_VideoEditTaskUpdate_error_message :: "string option option"
  kw_VideoEditTaskUpdate_progress_percentage :: "decimal option option"

record VideoEditTaskUpdate =
  VideoEditTaskUpdate_status :: "VideoStatus option option"
  VideoEditTaskUpdate_edit_parameters :: "json option option"
  VideoEditTaskUpdate_output_file_path :: "string option option"
  VideoEditTaskUpdate_processing_log :: "string option option"
  VideoEditTaskUpdate_error_message :: "string option option"
  VideoEditTaskUpdate_progress_percentage :: "decimal option option"

definition VideoEditTaskUpdate_errors :: "VideoEditTaskUpdate_kwargs \<Rightarrow> error list" where
  "VideoEditTaskUpdate_errors kw =
       check_opt (check_opt (check_enum ''status'' VideoStatus_members)) (kw_VideoEditTaskUpdate_status kw)
     @ check_opt (check_opt (check_max_length ''output_file_path'' 500)) (kw_VideoEditTaskUpdate_output_file_path kw)
     @ check_opt (check_opt (check_max_length ''processing_log'' 5000)) (kw_VideoEditTaskUpdate_processing_log kw)
     @ check_opt (check_opt (check_max_length ''error_message'' 1000)) (kw_VideoEditTaskUpdate_error_message kw)"

definition VideoEditTaskUpdate_validate ::
  "VideoEditTaskUpdate_kwargs \<Rightarrow> error list + VideoEditTaskUpdate" where
  "VideoEditTaskUpdate_validate kw =
     (case enum_member_unset VideoStatus_members (kw_VideoEditTaskUpdate_status kw) of
        Some v_status \<Rightarrow>
          (if VideoEditTaskUpdate_errors kw = []
           then Inr \<lparr>VideoEditTaskUpdate_status = v_status,
                    VideoEditTaskUpdate_edit_parameters = kw_VideoEditTaskUpdate_edit_parameters kw,
                    VideoEditTaskUpdate_output_file_path = kw_VideoEditTaskUpdate_output_file_path kw,
                    VideoEditTaskUpdate_processing_log = kw_VideoEditTaskUpdate_processing_log kw,
                    VideoEditTaskUpdate_error_message = kw_VideoEditTaskUpdate_error_message kw,
                    VideoEditTaskUpdate_progress_percentage = kw_VideoEditTaskUpdate_progress_percentage kw\<rparr>
           else Inl (VideoEditTaskUpdate_errors kw))
      | None \<Rightarrow> Inl (VideoEditTaskUpdate_errors kw))"


section \<open>Writing to the store\<close>

text \<open>
  \<^verbatim>\<open>app/models.py\<close> declares the tables and the shapes; the routines that update a stored
  row, those that apply an Update shape to it, and the store that holds the rows, are
  outside it. The definitions of this section follow the specification of the data
  model: an entity is mutated via an Update shape with partial, optional-field
  semantics (an unset field leaves the existing value unchanged); \<^verbatim>\<open>created_at\<close> is set at
  creation and never altered by an update, \<^verbatim>\<open>updated_at\<close> changes on every update; a
  violating write fails with an error that names the field, and no violation is
  silently corrected or dropped.

  The time of an update is the reading of the clock that the routine takes, a parameter
  here.
\<close>

subsection \<open>Updates of the entities\<close>

text \<open>
  Modelled from the spec: the routine that updates a stored \<^verbatim>\<open>User\<close> is missing
  from the source. \<open>change\<close> is what the update writes to the record; the identity and
  \<^verbatim>\<open>created_at\<close> are kept, \<^verbatim>\<open>updated_at\<close> becomes the time of the update.
\<close>

definition User_update ::
  "User \<Rightarrow> (User \<Rightarrow> User) \<Rightarrow> datetime \<Rightarrow> User" where
  "User_update u change now =
     (change u)\<lparr>User_id := User_id u,
                 User_created_at := User_created_at u,
                 User_updated_at := now\<rparr>"

text \<open>
  Modelled from the spec: the routine that updates a stored \<^verbatim>\<open>UploadedFile\<close> is missing
  from the source. \<open>change\<close> is what the update writes to the record; the identity and
  \<^verbatim>\<open>created_at\<close> are kept, \<^verbatim>\<open>updated_at\<close> becomes the time of the update.
\<close>

definition UploadedFile_update ::
  "UploadedFile \<Rightarrow> (UploadedFile \<Rightarrow> UploadedFile) \<Rightarrow> datetime \<Rightarrow> UploadedFile" where
  "UploadedFile_update f change now =
     (change f)\<lparr>UploadedFile_id := UploadedFile_id f,
                 UploadedFile_created_at := UploadedFile_created_at f,
                 UploadedFile_updated_at := now\<rparr>"

text \<open>
  Modelled from the spec: the routine that updates a stored \<^verbatim>\<open>ChatSession\<close> is missing
  from the source. \<open>change\<close> is what the update writes to the record; the identity and
  \<^verbatim>\<open>created_at\<close> are kept, \<^verbatim>\<open>updated_at\<close> becomes the time of the update.
\<close>

definition ChatSession_update ::
  "ChatSession \<Rightarrow> (ChatSession \<Rightarrow> ChatSession) \<Rightarrow> datetime \<Rightarrow> ChatSession" where
  "ChatSession_update c change now =
     (change c)\<lparr>ChatSession_id := ChatSession_id c,
                 ChatSession_created_at := ChatSession_created_at c,
                 ChatSession_updated_at := now\<rparr>"

text \<open>
  Modelled from the spec: the routine that updates a stored \<^verbatim>\<open>ChatMessage\<close> is missing
  from the source. \<open>change\<close> is what the update writes to the record; the identity and
  \<^verbatim>\<open>created_at\<close> are kept. The class declares no \<^verbatim>\<open>updated_at\<close>, so there is none to
  set.
\<close>

definition ChatMessage_update ::
  "ChatMessage \<Rightarrow> (ChatMessage \<Rightarrow> ChatMessage) \<Rightarrow> ChatMessage" where
  "ChatMessage_update m change =
     (change m)\<lparr>ChatMessage_id := ChatMessage_id m,
                 ChatMessage_created_at := ChatMessage_created_at m\<rparr>"

text \<open>
  Modelled from the spec: the routine that updates a stored \<^verbatim>\<open>ChatFileAttachment\<close> is missing
  from the source. \<open>change\<close> is what the update writes to the record; the identity and
  \<^verbatim>\<open>created_at\<close> are kept. The class declares no \<^verbatim>\<open>updated_at\<close>, so there is none to
  set.
\<close>

definition ChatFileAttachment_update ::
  "ChatFileAttachment \<Rightarrow> (ChatFileAttachment \<Rightarrow> ChatFileAttachment) \<Rightarrow> ChatFileAttachment" where
  "ChatFileAttachment_update a change =
     (change a)\<lparr>ChatFileAttachment_id := ChatFileAttachment_id a,
                 ChatFileAttachment_created_at := ChatFileAttachment_created_at a\<rparr>"

text \<open>
  Modelled from the spec: the routine that updates a stored \<^verbatim>\<open>SearchQuery\<close> is missing
  from the source. \<open>change\<close> is what the update writes to the record; the identity and
  \<^verbatim>\<open>created_at\<close> are kept, \<^verbatim>\<open>updated_at\<close> becomes the time of the update.
\<close>

definition SearchQuery_update ::
  "SearchQuery \<Rightarrow> (SearchQuery \<Rightarrow> SearchQuery) \<Rightarrow> datetime \<Rightarrow> SearchQuery" where
  "SearchQuery_update s change now =
     (change s)\<lparr>SearchQuery_id := SearchQuery_id s,
                 SearchQuery_created_at := SearchQuery_created_at s,
                 SearchQuery_updated_at := now\<rparr>"

text \<open>
  Modelled from the spec: the routine that updates a stored \<^verbatim>\<open>VideoProject\<close> is missing
  from the source. \<open>change\<close> is what the update writes to the record; the identity and
  \<^verbatim>\<open>created_at\<close> are kept, \<^verbatim>\<open>updated_at\<close> becomes the time of the update.
\<close>

definition VideoProject_update ::
  "VideoProject \<Rightarrow> (VideoProject \<Rightarrow> VideoProject) \<Rightarrow> datetime \<Rightarrow> VideoProject" where
  "VideoProject_update p change now =
     (change p)\<lparr>VideoProject_id := VideoProject_id p,
                 VideoProject_created_at := VideoProject_created_at p,
                 VideoProject_updated_at := now\<rparr>"

text \<open>
  Modelled from the spec: the routine that updates a stored \<^verbatim>\<open>VideoFile\<close> is missing
  from the source. \<open>change\<close> is what the update writes to the record; the identity and
  \<^verbatim>\<open>created_at\<close> are kept, \<^verbatim>\<open>updated_at\<close> becomes the time of the update.
\<close>

definition VideoFile_update ::
  "VideoFile \<Rightarrow> (VideoFile \<Rightarrow> VideoFile) \<Rightarrow> datetime \<Rightarrow> VideoFile" where
  "VideoFile_update v change now =
     (change v)\<lparr>VideoFile_id := VideoFile_id v,
                 VideoFile_created_at := VideoFile_created_at v,
                 VideoFile_updated_at := now\<rparr>"

text \<open>
  Modelled from the spec: the routine that updates a stored \<^verbatim>\<open>VideoEditTask\<close> is missing
  from the source. \<open>change\<close> is what the update writes to the record; the identity and
  \<^verbatim>\<open>created_at\<close> are kept, \<^verbatim>\<open>updated_at\<close> becomes the time of the update.
\<close>

definition VideoEditTask_update ::
  "VideoEditTask \<Rightarrow> (VideoEditTask \<Rightarrow> VideoEditTask) \<Rightarrow> datetime \<Rightarrow> VideoEditTask" where
  "VideoEditTask_update t change now =
     (change t)\<lparr>VideoEditTask_id := VideoEditTask_id t,
                 VideoEditTask_created_at := VideoEditTask_created_at t,
                 VideoEditTask_updated_at := now\<rparr>"

text \<open>
  Modelled from the spec: a sequence of updates applied to an entity after its creation.
  Each update of the sequence is what it writes and its time; \<open>after_updates\<close> is the
  entity after the first \<open>n\<close> updates of the sequence.
\<close>

definition after_updates ::
  "('e \<Rightarrow> 'c \<Rightarrow> datetime \<Rightarrow> 'e) \<Rightarrow> 'e \<Rightarrow> ('c \<times> datetime) list \<Rightarrow> nat \<Rightarrow> 'e" where
  "after_updates update e ups n =
     foldl (\<lambda>e (change, now). update e change now) e (take n ups)"

text \<open>
  Modelled from the spec: the same for an entity without \<^verbatim>\<open>updated_at\<close>, whose updates
  take no time.
\<close>

definition after_changes :: "('e \<Rightarrow> 'c \<Rightarrow> 'e) \<Rightarrow> 'e \<Rightarrow> 'c list \<Rightarrow> nat \<Rightarrow> 'e" where
  "after_changes update e changes n = foldl update e (take n changes)"

subsection \<open>Applying an Update shape\<close>

text \<open>
  A field of an Update shape is unset (\<open>None\<close>), set to null (\<open>Some None\<close>) or set to a
  value (\<open>Some (Some v)\<close>).

  Modelled from the spec: the column after the write, for a column that takes no null.
  A field set to a value replaces the old value; an unset field leaves it.
\<close>

definition set_field :: "'a \<Rightarrow> 'a option option \<Rightarrow> 'a" where
  "set_field old new = (case new of Some (Some v) \<Rightarrow> v | _ \<Rightarrow> old)"

text \<open>
  Modelled from the spec: the column after the write, for a column that takes null. A
  field set to a value or to null replaces the old value; an unset field leaves it.
\<close>

definition set_nullable_field :: "'a option \<Rightarrow> 'a option option \<Rightarrow> 'a option" where
  "set_nullable_field old new = (case new of None \<Rightarrow> old | Some v \<Rightarrow> v)"

text \<open>
  Modelled from the spec: a field set to null cannot be written to a column that takes
  no null. The write is a violation of the field; it is not dropped.
\<close>

definition check_not_null :: "string \<Rightarrow> 'a option option \<Rightarrow> error list" where
  "check_not_null field new =
     (case new of Some None \<Rightarrow> [FieldValidationError field NotNull] | _ \<Rightarrow> [])"

text \<open>
  Modelled from the spec: what a \<^verbatim>\<open>UserUpdate\<close> may not write. A field of the shape
  that is set to null, on a column of \<^verbatim>\<open>User\<close> that takes no null, is a violation of that
  field.
\<close>

definition UserUpdate_null_errors :: "UserUpdate \<Rightarrow> error list" where
  "UserUpdate_null_errors upd =
       check_not_null ''username'' (UserUpdate_username upd)
     @ check_not_null ''email'' (UserUpdate_email upd)
     @ check_not_null ''full_name'' (UserUpdate_full_name upd)
     @ check_not_null ''is_active'' (UserUpdate_is_active upd)
     @ check_not_null ''storage_quota'' (UserUpdate_storage_quota upd)"

text \<open>
  Modelled from the spec: the routine that applies a \<^verbatim>\<open>UserUpdate\<close> to a stored
  \<^verbatim>\<open>User\<close> is missing from the source. It is an update that writes the fields
  that the shape sets and leaves the unset fields as they are; it fails, writing
  nothing, with the violations of the shape.
\<close>

definition apply_UserUpdate :: "User \<Rightarrow> UserUpdate \<Rightarrow> datetime \<Rightarrow> error list + User" where
  "apply_UserUpdate u upd now =
     (if UserUpdate_null_errors upd = []
      then Inr (User_update u
          (\<lambda>u. u\<lparr>User_username :=
               set_field (User_username u) (UserUpdate_username upd),
             User_email :=
               set_field (User_email u) (UserUpdate_email upd),
             User_full_name :=
               set_field (User_full_name u) (UserUpdate_full_name upd),
             User_is_active :=
               set_field (User_is_active u) (UserUpdate_is_active upd),
             User_storage_quota :=
               set_field (User_storage_quota u) (UserUpdate_storage_quota upd)\<rparr>)
          now)
      else Inl (UserUpdate_null_errors upd))"

text \<open>
  Modelled from the spec: what a \<^verbatim>\<open>ChatSessionUpdate\<close> may not write. A field of the shape
  that is set to null, on a column of \<^verbatim>\<open>ChatSession\<close> that takes no null, is a violation of that
  field.
\<close>

definition ChatSessionUpdate_null_errors :: "ChatSessionUpdate \<Rightarrow> error list" where
  "ChatSessionUpdate_null_errors upd =
       check_not_null ''title'' (ChatSessionUpdate_title upd)
     @ check_not_null ''ai_model'' (ChatSessionUpdate_ai_model upd)
     @ check_not_null ''system_prompt'' (ChatSessionUpdate_system_prompt upd)
     @ check_not_null ''temperature'' (ChatSessionUpdate_temperature upd)
     @ check_not_null ''max_tokens'' (ChatSessionUpdate_max_tokens upd)
     @ check_not_null ''is_active'' (ChatSessionUpdate_is_active upd)"

text \<open>
  Modelled from the spec: the routine that applies a \<^verbatim>\<open>ChatSessionUpdate\<close> to a stored
  \<^verbatim>\<open>ChatSession\<close> is missing from the source. It is an update that writes the fields
  that the shape sets and leaves the unset fields as they are; it fails, writing
  nothing, with the violations of the shape.
\<close>

definition apply_ChatSessionUpdate :: "ChatSession \<Rightarrow> ChatSessionUpdate \<Rightarrow> datetime \<Rightarrow> error list + ChatSession" where
  "apply_ChatSessionUpdate c upd now =
     (if ChatSessionUpdate_null_errors upd = []
      then Inr (ChatSession_update c
          (\<lambda>c. c\<lparr>ChatSession_title :=
               set_field (ChatSession_title c) (ChatSessionUpdate_title upd),
             ChatSession_ai_model :=
               set_field (ChatSession_ai_model c) (ChatSessionUpdate_ai_model upd),
             ChatSession_system_prompt :=
               set_field (ChatSession_system_prompt c) (ChatSessionUpdate_system_prompt upd),
             ChatSession_temperature :=
               set_field (ChatSession_temperature c) (ChatSessionUpdate_temperature upd),
             ChatSession_max_tokens :=
               set_field (ChatSession_max_tokens c) (ChatSessionUpdate_max_tokens upd),
             ChatSession_is_active :=
               set_field (ChatSession_is_active c) (ChatSessionUpdate_is_active upd)\<rparr>)
          now)
      else Inl (ChatSessionUpdate_null_errors upd))"

text \<open>
  Modelled from the spec: what a \<^verbatim>\<open>VideoProjectUpdate\<close> may not write. A field of the shape
  that is set to null, on a column of \<^verbatim>\<open>VideoProject\<close> that takes no null, is a violation of that
  field.
\<close>

definition VideoProjectUpdate_null_errors :: "VideoProjectUpdate \<Rightarrow> error list" where
  "VideoProjectUpdate_null_errors upd =
       check_not_null ''title'' (VideoProjectUpdate_title upd)
     @ check_not_null ''description'' (VideoProjectUpdate_description upd)"

text \<open>
  Modelled from the spec: the routine that applies a \<^verbatim>\<open>VideoProjectUpdate\<close> to a stored
  \<^verbatim>\<open>VideoProject\<close> is missing from the source. It is an update that writes the fields
  that the shape sets and leaves the unset fields as they are; it fails, writing
  nothing, with the violations of the shape.
\<close>

definition apply_VideoProjectUpdate :: "VideoProject \<Rightarrow> VideoProjectUpdate \<Rightarrow> datetime \<Rightarrow> error list + VideoProject" where
  "apply_VideoProjectUpdate p upd now =
     (if VideoProjectUpdate_null_errors upd = []
      then Inr (VideoProject_update p
          (\<lambda>p. p\<lparr>VideoProject_title :=
               set_field (VideoProject_title p) (VideoProjectUpdate_title upd),
             VideoProject_description :=
               set_field (VideoProject_description p) (VideoProjectUpdate_description upd)\<rparr>)
          now)
      else Inl (VideoProjectUpdate_null_errors upd))"

text \<open>
  Modelled from the spec: what a \<^verbatim>\<open>VideoEditTaskUpdate\<close> may not write. A field of the shape
  that is set to null, on a column of \<^verbatim>\<open>VideoEditTask\<close> that takes no null, is a violation of that
  field.
\<close>

definition VideoEditTaskUpdate_null_errors :: "VideoEditTaskUpdate \<Rightarrow> error list" where
  "VideoEditTaskUpdate_null_errors upd =
       check_not_null ''status'' (VideoEditTaskUpdate_status upd)
     @ check_not_null ''edit_parameters'' (VideoEditTaskUpdate_edit_parameters upd)
     @ check_not_null ''processing_log'' (VideoEditTaskUpdate_processing_log upd)
     @ check_not_null ''progress_percentage'' (VideoEditTaskUpdate_progress_percentage upd)"

text \<open>
  Modelled from the spec: the routine that applies a \<^verbatim>\<open>VideoEditTaskUpdate\<close> to a stored
  \<^verbatim>\<open>VideoEditTask\<close> is missing from the source. It is an update that writes the fields
  that the shape sets and leaves the unset fields as they are; it fails, writing
  nothing, with the violations of the shape.
\<close>

definition apply_VideoEditTaskUpdate :: "VideoEditTask \<Rightarrow> VideoEditTaskUpdate \<Rightarrow> datetime \<Rightarrow> error list + VideoEditTask" where
  "apply_VideoEditTaskUpdate t upd now =
     (if VideoEditTaskUpdate_null_errors upd = []
      then Inr (VideoEditTask_update t
          (\<lambda>t. t\<lparr>VideoEditTask_status :=
               set_field (VideoEditTask_status t) (VideoEditTaskUpdate_status upd),
             VideoEditTask_edit_parameters :=
               set_field (VideoEditTask_edit_parameters t) (VideoEditTaskUpdate_edit_parameters upd),
             VideoEditTask_output_file_path :=
               set_nullable_field (VideoEditTask_output_file_path t) (VideoEditTaskUpdate_output_file_path upd),
             VideoEditTask_processing_log :=
               set_field (VideoEditTask_processing_log t) (VideoEditTaskUpdate_processing_log upd),
             VideoEditTask_error_message :=
               set_nullable_field (VideoEditTask_error_message t) (VideoEditTaskUpdate_error_message upd),
             VideoEditTask_progress_percentage :=
               set_field (VideoEditTask_progress_percentage t) (VideoEditTaskUpdate_progress_percentage upd)\<rparr>)
          now)
      else Inl (VideoEditTaskUpdate_null_errors upd))"

subsection \<open>The \<^verbatim>\<open>users\<close> table\<close>

text \<open>
  Modelled from the spec: the store of the \<^verbatim>\<open>users\<close> table is missing from the source,
  which declares \<^verbatim>\<open>unique=True\<close> on \<^verbatim>\<open>username\<close> and on \<^verbatim>\<open>email\<close> and a primary key that
  the persistence layer assigns. The specification makes a write that collides on a
  unique column fail with a UniquenessConstraintError for that column; strings are
  compared as they are. The result is the table after the write, and the stored row or
  the error.
\<close>

definition next_User_id :: "User list \<Rightarrow> int" where
  "next_User_id tbl =
     1 + foldr max (map (\<lambda>r. case User_id r of None \<Rightarrow> 0 | Some i \<Rightarrow> i) tbl) 0"

definition users_insert :: "User list \<Rightarrow> User \<Rightarrow> User list \<times> (error + User)" where
  "users_insert tbl u =
     (if list_ex (\<lambda>r. User_username r = User_username u) tbl
      then (tbl, Inl (UniquenessConstraintError ''username''))
      else if list_ex (\<lambda>r. User_email r = User_email u) tbl
      then (tbl, Inl (UniquenessConstraintError ''email''))
      else (let row = u\<lparr>User_id := Some (next_User_id tbl)\<rparr>
            in (tbl @ [row], Inr row)))"

section \<open>The form of an email address in the specification\<close>

text \<open>
  The specification describes the accepted email addresses in words: one or more
  characters of \<^verbatim>\<open>[A-Za-z0-9_.+-]\<close>, then \<^verbatim>\<open>@\<close>, then a domain of at least two labels
  separated by \<^verbatim>\<open>.\<close>, each label one or more characters of \<^verbatim>\<open>[A-Za-z0-9-]\<close>.
  \<open>spec_email_form\<close> is that description, to be compared with the pattern of the source.
  Neither class has \<^verbatim>\<open>@\<close>, so the local part ends at the first \<^verbatim>\<open>@\<close>; a label has no
  \<^verbatim>\<open>.\<close>, so the labels are the pieces of the domain between its dots.
\<close>

fun split_on :: "char \<Rightarrow> string \<Rightarrow> string list" where
  "split_on sep [] = [[]]"
| "split_on sep (c # cs) =
     (if c = sep then [] # split_on sep cs
      else (case split_on sep cs of
              [] \<Rightarrow> [[c]]
            | piece # pieces \<Rightarrow> (c # piece) # pieces))"

definition spec_email_form :: "string \<Rightarrow> bool" where
  "spec_email_form s =
     (let local = takeWhile (\<lambda>c. c \<noteq> CHR ''@'') s;
          rest = dropWhile (\<lambda>c. c \<noteq> CHR ''@'') s
      in local \<noteq> [] \<and> list_all (in_class email_local_class) local \<and>
         (case rest of
            [] \<Rightarrow> False
          | at_sign # domain_part \<Rightarrow>
              (let labels = split_on CHR ''.'' domain_part
               in 2 \<le> length labels \<and>
                  list_all (\<lambda>l. l \<noteq> [] \<and> list_all (in_class email_label_class) l) labels)))"

section \<open>Sample payloads\<close>

text \<open>Concrete calls, on which the theorems below are evaluated.\<close>

definition sample_UploadedFile_kwargs :: UploadedFile_kwargs where
  "sample_UploadedFile_kwargs =
     \<lparr>kw_UploadedFile_id = None,
      kw_UploadedFile_filename = ''a1b2.pdf'',
      kw_UploadedFile_original_filename = ''report.pdf'',
      kw_UploadedFile_file_path = ''/data/a1b2.pdf'',
      kw_UploadedFile_file_size = 1024,
      kw_UploadedFile_mime_type = ''application/pdf'',
      kw_UploadedFile_file_hash = ''9f86d081884c7d65'',
      kw_UploadedFile_status = None,
      kw_UploadedFile_user_id = 1,
      kw_UploadedFile_created_at = None,
      kw_UploadedFile_updated_at = None,
      kw_UploadedFile_file_metadata = None,
      kw_UploadedFile_processed_data = None\<rparr>"

definition sample_FileUploadRequest_kwargs :: FileUploadRequest_kwargs where
  "sample_FileUploadRequest_kwargs =
     \<lparr>kw_FileUploadRequest_filename = ''report.pdf'',
      kw_FileUploadRequest_file_size = 1024,
      kw_FileUploadRequest_mime_type = ''application/pdf''\<rparr>"

definition sample_ChatMessage_kwargs :: ChatMessage_kwargs where
  "sample_ChatMessage_kwargs =
     \<lparr>kw_ChatMessage_id = None,
      kw_ChatMessage_session_id = 1,
      kw_ChatMessage_role = ''user'',
      kw_ChatMessage_content = ''hi'',
      kw_ChatMessage_created_at = None,
      kw_ChatMessage_input_tokens = None,
      kw_ChatMessage_output_tokens = None,
      kw_ChatMessage_message_metadata = None\<rparr>"

definition sample_ChatMessageCreate_kwargs :: ChatMessageCreate_kwargs where
  "sample_ChatMessageCreate_kwargs =
     \<lparr>kw_ChatMessageCreate_role = ''user'',
      kw_ChatMessageCreate_content = ''hi'',
      kw_ChatMessageCreate_file_ids = None\<rparr>"

definition sample_ChatFileAttachment_kwargs :: ChatFileAttachment_kwargs where
  "sample_ChatFileAttachment_kwargs =
     \<lparr>kw_ChatFileAttachment_id = None,
      kw_ChatFileAttachment_message_id = 1,
      kw_ChatFileAttachment_file_id = 7,
      kw_ChatFileAttachment_created_at = None\<rparr>"

definition sample_User_kwargs :: User_kwargs where
  "sample_User_kwargs =
     \<lparr>kw_User_id = None,
      kw_User_username = ''alice'',
      kw_User_email = ''alice@example.com'',
      kw_User_full_name = ''Alice A'',
      kw_User_is_active = None,
      kw_User_created_at = None,
      kw_User_updated_at = None,
      kw_User_storage_quota = None,
      kw_User_storage_used = None\<rparr>"

definition sample_UserCreate_kwargs :: UserCreate_kwargs where
  "sample_UserCreate_kwargs =
     \<lparr>kw_UserCreate_username = ''alice'',
      kw_UserCreate_email = ''alice@example.com'',
      kw_UserCreate_full_name = ''Alice A'',
      kw_UserCreate_storage_quota = None\<rparr>"

definition sample_ChatSession_kwargs :: ChatSession_kwargs where
  "sample_ChatSession_kwargs =
     \<lparr>kw_ChatSession_id = None,
      kw_ChatSession_title = None,
      kw_ChatSession_user_id = 1,
      kw_ChatSession_created_at = None,
      kw_ChatSession_updated_at = None,
      kw_ChatSession_is_active = None,
      kw_ChatSession_ai_model = None,
      kw_ChatSession_system_prompt = None,
      kw_ChatSession_temperature = None,
      kw_ChatSession_max_tokens = None,
      kw_ChatSession_settings = None\<rparr>"

definition sample_ChatSessionCreate_kwargs :: ChatSessionCreate_kwargs where
  "sample_ChatSessionCreate_kwargs =
     \<lparr>kw_ChatSessionCreate_title = None,
      kw_ChatSessionCreate_ai_model = None,
      kw_ChatSessionCreate_system_prompt = None,
      kw_ChatSessionCreate_temperature = None,
      kw_ChatSessionCreate_max_tokens = None\<rparr>"

definition sample_SearchQuery_kwargs :: SearchQuery_kwargs where
  "sample_SearchQuery_kwargs =
     \<lparr>kw_SearchQuery_id = None,
      kw_SearchQuery_user_id = 1,
      kw_SearchQuery_query = ''isabelle hol'',
      kw_SearchQuery_status = None,
      kw_SearchQuery_created_at = None,
      kw_SearchQuery_updated_at = None,
      kw_SearchQuery_completed_at = None,
      kw_SearchQuery_search_engines = None,
      kw_SearchQuery_max_results = None,
      kw_SearchQuery_language = None,
      kw_SearchQuery_region = None,
      kw_SearchQuery_results = None,
      kw_SearchQuery_results_count = None,
      kw_SearchQuery_error_message = None\<rparr>"

definition sample_SearchQueryCreate_kwargs :: SearchQueryCreate_kwargs where
  "sample_SearchQueryCreate_kwargs =
     \<lparr>kw_SearchQueryCreate_query = ''isabelle hol'',
      kw_SearchQueryCreate_search_engines = None,
      kw_SearchQueryCreate_max_results = None,
      kw_SearchQueryCreate_language = None,
      kw_SearchQueryCreate_region = None\<rparr>"

definition sample_VideoProject_kwargs :: VideoProject_kwargs where
  "sample_VideoProject_kwargs =
     \<lparr>kw_VideoProject_id = None,
      kw_VideoProject_user_id = 1,
      kw_VideoProject_title = ''Holiday'',
      kw_VideoProject_description = None,
      kw_VideoProject_created_at = None,
      kw_VideoProject_updated_at = None,
      kw_VideoProject_settings = None\<rparr>"

definition sample_VideoProjectCreate_kwargs :: VideoProjectCreate_kwargs where
  "sample_VideoProjectCreate_kwargs =
     \<lparr>kw_VideoProjectCreate_title = ''Holiday'',
      kw_VideoProjectCreate_description = None\<rparr>"

definition sample_VideoFile_kwargs :: VideoFile_kwargs where
  "sample_VideoFile_kwargs =
     \<lparr>kw_VideoFile_id = None,
      kw_VideoFile_project_id = 1,
      kw_VideoFile_filename = ''c3d4.mp4'',
      kw_VideoFile_original_filename = ''beach.mp4'',
      kw_VideoFile_file_path = ''/data/c3d4.mp4'',
      kw_VideoFile_file_size = 2048,
      kw_VideoFile_duration = None,
      kw_VideoFile_resolution = None,
      kw_VideoFile_fps = None,
      kw_VideoFile_codec = None,
      kw_VideoFile_status = None,
      kw_VideoFile_created_at = None,
      kw_VideoFile_updated_at = None,
      kw_VideoFile_video_metadata = None\<rparr>"

definition sample_VideoEditTask_kwargs :: VideoEditTask_kwargs where
  "sample_VideoEditTask_kwargs =
     \<lparr>kw_VideoEditTask_id = None,
      kw_VideoEditTask_project_id = 1,
      kw_VideoEditTask_edit_type = ''merge'',
      kw_VideoEditTask_status = None,
      kw_VideoEditTask_user_prompt = ''join the two clips'',
      kw_VideoEditTask_created_at = None,
      kw_VideoEditTask_updated_at = None,
      kw_VideoEditTask_completed_at = None,
      kw_VideoEditTask_edit_parameters = None,
      kw_VideoEditTask_output_file_path = None,
      kw_VideoEditTask_processing_log = None,
      kw_VideoEditTask_error_message = None,
      kw_VideoEditTask_progress_percentage = None\<rparr>"

definition sample_VideoEditTaskCreate_kwargs :: VideoEditTaskCreate_kwargs where
  "sample_VideoEditTaskCreate_kwargs =
     \<lparr>kw_VideoEditTaskCreate_edit_type = ''merge'',
      kw_VideoEditTaskCreate_user_prompt = ''join the two clips''\<rparr>"

definition sample_UserUpdate_kwargs :: UserUpdate_kwargs where
  "sample_UserUpdate_kwargs =
     \<lparr>kw_UserUpdate_username = None,
      kw_UserUpdate_email = None,
      kw_UserUpdate_full_name = Some (Some ''Alice B''),
      kw_UserUpdate_is_active = None,
      kw_UserUpdate_storage_quota = None\<rparr>"

definition sample_ChatSessionUpdate_kwargs :: ChatSessionUpdate_kwargs where
  "sample_ChatSessionUpdate_kwargs =
     \<lparr>kw_ChatSessionUpdate_title = Some (Some ''Proofs''),
      kw_ChatSessionUpdate_ai_model = None,
      kw_ChatSessionUpdate_system_prompt = None,
      kw_ChatSessionUpdate_temperature = None,
      kw_ChatSessionUpdate_max_tokens = None,
      kw_ChatSessionUpdate_is_active = None\<rparr>"


definition sample_VideoEditTaskUpdate_kwargs :: VideoEditTaskUpdate_kwargs where
  "sample_VideoEditTaskUpdate_kwargs =
     \<lparr>kw_VideoEditTaskUpdate_status = Some (Some ''processing''),
      kw_VideoEditTaskUpdate_edit_parameters = None,
      kw_VideoEditTaskUpdate_output_file_path = None,
      kw_VideoEditTaskUpdate_processing_log = None,
      kw_VideoEditTaskUpdate_error_message = Some None,
      kw_VideoEditTaskUpdate_progress_percentage = Some (Some 40)\<rparr>"

text \<open>
  Stored rows: the instances of the sample calls of the table classes, made at the clock
  readings 5 and 6, with the identity 1 that the store assigned.
\<close>

definition stored_User :: User where
  "stored_User =
     \<lparr>User_id = Some 1,
      User_username = ''alice'',
      User_email = ''alice@example.com'',
      User_full_name = ''Alice A'',
      User_is_active = True,
      User_created_at = 5,
      User_updated_at = 6,
      User_storage_quota = 5368709120,
      User_storage_used = 0\<rparr>"

definition stored_UploadedFile :: UploadedFile where
  "stored_UploadedFile =
     \<lparr>UploadedFile_id = Some 1,
      UploadedFile_filename = ''a1b2.pdf'',
      UploadedFile_original_filename = ''report.pdf'',
      UploadedFile_file_path = ''/data/a1b2.pdf'',
      UploadedFile_file_size = 1024,
      UploadedFile_mime_type = ''application/pdf'',
      UploadedFile_file_hash = ''9f86d081884c7d65'',
      UploadedFile_status = FileStatus_UPLOADING,
      UploadedFile_user_id = 1,
      UploadedFile_created_at = 5,
      UploadedFile_updated_at = 6,
      UploadedFile_file_metadata = JObj [],
      UploadedFile_processed_data = JObj []\<rparr>"

definition stored_ChatSession :: ChatSession where
  "stored_ChatSession =
     \<lparr>ChatSession_id = Some 1,
      ChatSession_title = ''New Chat'',
      ChatSession_user_id = 1,
      ChatSession_created_at = 5,
      ChatSession_updated_at = 6,
      ChatSession_is_active = True,
      ChatSession_ai_model = ''gpt-3.5-turbo'',
      ChatSession_system_prompt = '''',
      ChatSession_temperature = 7 / 10,
      ChatSession_max_tokens = 2048,
      ChatSession_settings = JObj []\<rparr>"

definition stored_ChatMessage :: ChatMessage where
  "stored_ChatMessage =
     \<lparr>ChatMessage_id = Some 1,
      ChatMessage_session_id = 1,
      ChatMessage_role = ChatMessageRole_USER,
      ChatMessage_content = ''hi'',
      ChatMessage_created_at = 5,
      ChatMessage_input_tokens = None,
      ChatMessage_output_tokens = None,
      ChatMessage_message_metadata = JObj []\<rparr>"

definition stored_ChatFileAttachment :: ChatFileAttachment where
  "stored_ChatFileAttachment =
     \<lparr>ChatFileAttachment_id = Some 1,
      ChatFileAttachment_message_id = 1,
      ChatFileAttachment_file_id = 7,
      ChatFileAttachment_created_at = 5\<rparr>"

definition stored_SearchQuery :: SearchQuery where
  "stored_SearchQuery =
     \<lparr>SearchQuery_id = Some 1,
      SearchQuery_user_id = 1,
      SearchQuery_query = ''isabelle hol'',
      SearchQuery_status = SearchStatus_PENDING,
      SearchQuery_created_at = 5,
      SearchQuery_updated_at = 6,
      SearchQuery_completed_at = None,
      SearchQuery_search_engines = [''google''],
      SearchQuery_max_results = 10,
      SearchQuery_language = ''en'',
      SearchQuery_region = ''us'',
      SearchQuery_results = JObj [],
      SearchQuery_results_count = 0,
      SearchQuery_error_message = None\<rparr>"

definition stored_VideoProject :: VideoProject where
  "stored_VideoProject =
     \<lparr>VideoProject_id = Some 1,
      VideoProject_user_id = 1,
      VideoProject_title = ''Holiday'',
      VideoProject_description = '''',
      VideoProject_created_at = 5,
      VideoProject_updated_at = 6,
      VideoProject_settings = JObj []\<rparr>"

definition stored_VideoFile :: VideoFile where
  "stored_VideoFile =
     \<lparr>VideoFile_id = Some 1,
      VideoFile_project_id = 1,
      VideoFile_filename = ''c3d4.mp4'',
      VideoFile_original_filename = ''beach.mp4'',
      VideoFile_file_path = ''/data/c3d4.mp4'',
      VideoFile_file_size = 2048,
      VideoFile_duration = None,
      VideoFile_resolution = None,
      VideoFile_fps = None,
      VideoFile_codec = None,
      VideoFile_status = VideoStatus_UPLOADED,
      VideoFile_created_at = 5,
      VideoFile_updated_at = 6,
      VideoFile_video_metadata = JObj []\<rparr>"

definition stored_VideoEditTask :: VideoEditTask where
  "stored_VideoEditTask =
     \<lparr>VideoEditTask_id = Some 1,
      VideoEditTask_project_id = 1,
      VideoEditTask_edit_type = VideoEditType_MERGE,
      VideoEditTask_status = VideoStatus_UPLOADED,
      VideoEditTask_user_prompt = ''join the two clips'',
      VideoEditTask_created_at = 5,
      VideoEditTask_updated_at = 6,
      VideoEditTask_completed_at = None,
      VideoEditTask_edit_parameters = JObj [],
      VideoEditTask_output_file_path = None,
      VideoEditTask_processing_log = '''',
      VideoEditTask_error_message = None,
      VideoEditTask_progress_percentage = 0\<rparr>"

text \<open>
  Sequences of two updates of the stored rows, made at the clock readings 10 and 20.
  The second one tries to write \<^verbatim>\<open>created_at\<close>.
\<close>

definition sample_User_updates :: "((User \<Rightarrow> User) \<times> datetime) list" where
  "sample_User_updates =
     [(\<lambda>x. x\<lparr>User_full_name := ''Alice B''\<rparr>, 10),
      (\<lambda>x. x\<lparr>User_created_at := 99\<rparr>, 20)]"

definition sample_UploadedFile_updates :: "((UploadedFile \<Rightarrow> UploadedFile) \<times> datetime) list" where
  "sample_UploadedFile_updates =
     [(\<lambda>x. x\<lparr>UploadedFile_status := FileStatus_READY\<rparr>, 10),
      (\<lambda>x. x\<lparr>UploadedFile_created_at := 99\<rparr>, 20)]"

definition sample_ChatSession_updates :: "((ChatSession \<Rightarrow> ChatSession) \<times> datetime) list" where
  "sample_ChatSession_updates =
     [(\<lambda>x. x\<lparr>ChatSession_title := ''Proofs''\<rparr>, 10),
      (\<lambda>x. x\<lparr>ChatSession_created_at := 99\<rparr>, 20)]"

definition sample_ChatMessage_updates :: "(ChatMessage \<Rightarrow> ChatMessage) list" where
  "sample_ChatMessage_updates =
     [\<lambda>x. x\<lparr>ChatMessage_content := ''edited''\<rparr>,
      \<lambda>x. x\<lparr>ChatMessage_created_at := 99\<rparr>]"

definition sample_ChatFileAttachment_updates :: "(ChatFileAttachment \<Rightarrow> ChatFileAttachment) list" where
  "sample_ChatFileAttachment_updates =
     [\<lambda>x. x\<lparr>ChatFileAttachment_file_id := 9\<rparr>,
      \<lambda>x. x\<lparr>ChatFileAttachment_created_at := 99\<rparr>]"

definition sample_SearchQuery_updates :: "((SearchQuery \<Rightarrow> SearchQuery) \<times> datetime) list" where
  "sample_SearchQuery_updates =
     [(\<lambda>x. x\<lparr>SearchQuery_status := SearchStatus_COMPLETED\<rparr>, 10),
      (\<lambda>x. x\<lparr>SearchQuery_created_at := 99\<rparr>, 20)]"

definition sample_VideoProject_updates :: "((VideoProject \<Rightarrow> VideoProject) \<times> datetime) list" where
  "sample_VideoProject_updates =
     [(\<lambda>x. x\<lparr>VideoProject_title := ''Summer''\<rparr>, 10),
      (\<lambda>x. x\<lparr>VideoProject_created_at := 99\<rparr>, 20)]"

definition sample_VideoFile_updates :: "((VideoFile \<Rightarrow> VideoFile) \<times> datetime) list" where
  "sample_VideoFile_updates =
     [(\<lambda>x. x\<lparr>VideoFile_status := VideoStatus_READY\<rparr>, 10),
      (\<lambda>x. x\<lparr>VideoFile_created_at := 99\<rparr>, 20)]"

definition sample_VideoEditTask_updates :: "((VideoEditTask \<Rightarrow> VideoEditTask) \<times> datetime) list" where
  "sample_VideoEditTask_updates =
     [(\<lambda>x. x\<lparr>VideoEditTask_progress_percentage := 40\<rparr>, 10),
      (\<lambda>x. x\<lparr>VideoEditTask_created_at := 99\<rparr>, 20)]"

section \<open>Properties of the validators\<close>

lemmas check_defs =
  check_max_length_def check_ge_def check_opt_def check_enum_def
  with_default_def enum_member_def enum_member_default_def enum_member_opt_def
  enum_member_unset_def

lemmas class_defs = in_class_def email_local_class_def email_label_class_def email_rest_class_def

subsection \<open>What a validator returns\<close>

text \<open>
  The instance that a validator returns: no violation was found, and every field is the
  value of the call, or the default of the field when the call omits it.
\<close>

lemma User_model_validate_fields:
  "User_model_validate kw now_created_at now_updated_at = Inr x \<Longrightarrow>
   User_errors kw = [] \<and>
   User_id x = kw_User_id kw \<and>
   User_username x = kw_User_username kw \<and>
   User_email x = kw_User_email kw \<and>
   User_full_name x = kw_User_full_name kw \<and>
   User_is_active x = with_default True (kw_User_is_active kw) \<and>
   User_created_at x = with_default now_created_at (kw_User_created_at kw) \<and>
   User_updated_at x = with_default now_updated_at (kw_User_updated_at kw) \<and>
   User_storage_quota x = with_default 5368709120 (kw_User_storage_quota kw) \<and>
   User_storage_used x = with_default 0 (kw_User_storage_used kw)"
  by (auto simp: User_model_validate_def split: if_splits option.splits)

lemma UploadedFile_model_validate_fields:
  "UploadedFile_model_validate kw now_created_at now_updated_at = Inr x \<Longrightarrow>
   UploadedFile_errors kw = [] \<and>
   UploadedFile_id x = kw_UploadedFile_id kw \<and>
   UploadedFile_filename x = kw_UploadedFile_filename kw \<and>
   UploadedFile_original_filename x = kw_UploadedFile_original_filename kw \<and>
   UploadedFile_file_path x = kw_UploadedFile_file_path kw \<and>
   UploadedFile_file_size x = kw_UploadedFile_file_size kw \<and>
   UploadedFile_mime_type x = kw_UploadedFile_mime_type kw \<and>
   UploadedFile_file_hash x = kw_UploadedFile_file_hash kw \<and>
   enum_member_default FileStatus_UPLOADING FileStatus_members (kw_UploadedFile_status kw) = Some (UploadedFile_status x) \<and>
   UploadedFile_user_id x = kw_UploadedFile_user_id kw \<and>
   UploadedFile_created_at x = with_default now_created_at (kw_UploadedFile_created_at kw) \<and>
   UploadedFile_updated_at x = with_default now_updated_at (kw_UploadedFile_updated_at kw) \<and>
   UploadedFile_file_metadata x = with_default (JObj []) (kw_UploadedFile_file_metadata kw) \<and>
   UploadedFile_processed_data x = with_default (JObj []) (kw_UploadedFile_processed_data kw)"
  by (auto simp: UploadedFile_model_validate_def split: if_splits option.splits)

lemma ChatSession_model_validate_fields:
  "ChatSession_model_validate kw now_created_at now_updated_at = Inr x \<Longrightarrow>
   ChatSession_errors kw = [] \<and>
   ChatSession_id x = kw_ChatSession_id kw \<and>
   ChatSession_title x = with_default (''New Chat'') (kw_ChatSession_title kw) \<and>
   ChatSession_user_id x = kw_ChatSession_user_id kw \<and>
   ChatSession_created_at x = with_default now_created_at (kw_ChatSession_created_at kw) \<and>
   ChatSession_updated_at x = with_default now_updated_at (kw_ChatSession_updated_at kw) \<and>
   ChatSession_is_active x = with_default True (kw_ChatSession_is_active kw) \<and>
   ChatSession_ai_model x = with_default ''gpt-3.5-turbo'' (kw_ChatSession_ai_model kw) \<and>
   ChatSession_system_prompt x = with_default '''' (kw_ChatSession_system_prompt kw) \<and>
   ChatSession_temperature x = with_default (7 / 10) (kw_ChatSession_temperature kw) \<and>
   ChatSession_max_tokens x = with_default 2048 (kw_ChatSession_max_tokens kw) \<and>
   ChatSession_settings x = with_default (JObj []) (kw_ChatSession_settings kw)"
  by (auto simp: ChatSession_model_validate_def split: if_splits option.splits)

lemma ChatMessage_model_validate_fields:
  "ChatMessage_model_validate kw now_created_at = Inr x \<Longrightarrow>
   ChatMessage_errors kw = [] \<and>
   ChatMessage_id x = kw_ChatMessage_id kw \<and>
   ChatMessage_session_id x = kw_ChatMessage_session_id kw \<and>
   enum_member ChatMessageRole_members (kw_ChatMessage_role kw) = Some (ChatMessage_role x) \<and>
   ChatMessage_content x = kw_ChatMessage_content kw \<and>
   ChatMessage_created_at x = with_default now_created_at (kw_ChatMessage_created_at kw) \<and>
   ChatMessage_input_tokens x = kw_ChatMessage_input_tokens kw \<and>
   ChatMessage_output_tokens x = kw_ChatMessage_output_tokens kw \<and>
   ChatMessage_message_metadata x = with_default (JObj []) (kw_ChatMessage_message_metadata kw)"
  by (auto simp: ChatMessage_model_validate_def split: if_splits option.splits)

lemma ChatFileAttachment_model_validate_fields:
  "ChatFileAttachment_model_validate kw now_created_at = Inr x \<Longrightarrow>
   ChatFileAttachment_errors kw = [] \<and>
   ChatFileAttachment_id x = kw_ChatFileAttachment_id kw \<and>
   ChatFileAttachment_message_id x = kw_ChatFileAttachment_message_id kw \<and>
   ChatFileAttachment_file_id x = kw_ChatFileAttachment_file_id kw \<and>
   ChatFileAttachment_created_at x = with_default now_created_at (kw_ChatFileAttachment_created_at kw)"
  by (auto simp: ChatFileAttachment_model_validate_def split: if_splits option.splits)

lemma SearchQuery_model_validate_fields:
  "SearchQuery_model_validate kw now_created_at now_updated_at = Inr x \<Longrightarrow>
   SearchQuery_errors kw = [] \<and>
   SearchQuery_id x = kw_SearchQuery_id kw \<and>
   SearchQuery_user_id x = kw_SearchQuery_user_id kw \<and>
   SearchQuery_query x = kw_SearchQuery_query kw \<and>
   enum_member_default SearchStatus_PENDING SearchStatus_members (kw_SearchQuery_status kw) = Some (SearchQuery_status x) \<and>
   SearchQuery_created_at x = with_default now_created_at (kw_SearchQuery_created_at kw) \<and>
   SearchQuery_updated_at x = with_default now_updated_at (kw_SearchQuery_updated_at kw) \<and>
   SearchQuery_completed_at x = kw_SearchQuery_completed_at kw \<and>
   SearchQuery_search_engines x = with_default [''google''] (kw_SearchQuery_search_engines kw) \<and>
   SearchQuery_max_results x = with_default 10 (kw_SearchQuery_max_results kw) \<and>
   SearchQuery_language x = with_default ''en'' (kw_SearchQuery_language kw) \<and>
   SearchQuery_region x = with_default ''us'' (kw_SearchQuery_region kw) \<and>
   SearchQuery_results x = with_default (JObj []) (kw_SearchQuery_results kw) \<and>
   SearchQuery_results_count x = with_default 0 (kw_SearchQuery_results_count kw) \<and>
   SearchQuery_error_message x = kw_SearchQuery_error_message kw"
  by (auto simp: SearchQuery_model_validate_def split: if_splits option.splits)

lemma VideoProject_model_validate_fields:
  "VideoProject_model_validate kw now_created_at now_updated_at = Inr x \<Longrightarrow>
   VideoProject_errors kw = [] \<and>
   VideoProject_id x = kw_VideoProject_id kw \<and>
   VideoProject_user_id x = kw_VideoProject_user_id kw \<and>
   VideoProject_title x = kw_VideoProject_title kw \<and>
   VideoProject_description x = with_default '''' (kw_VideoProject_description kw) \<and>
   VideoProject_created_at x = with_default now_created_at (kw_VideoProject_created_at kw) \<and>
   VideoProject_updated_at x = with_default now_updated_at (kw_VideoProject_updated_at kw) \<and>
   VideoProject_settings x = with_default (JObj []) (kw_VideoProject_settings kw)"
  by (auto simp: VideoProject_model_validate_def split: if_splits option.splits)

lemma VideoFile_model_validate_fields:
  "VideoFile_model_validate kw now_created_at now_updated_at = Inr x \<Longrightarrow>
   VideoFile_errors kw = [] \<and>
   VideoFile_id x = kw_VideoFile_id kw \<and>
   VideoFile_project_id x = kw_VideoFile_project_id kw \<and>
   VideoFile_filename x = kw_VideoFile_filename kw \<and>
   VideoFile_original_filename x = kw_VideoFile_original_filename kw \<and>
   VideoFile_file_path x = kw_VideoFile_file_path kw \<and>
   VideoFile_file_size x = kw_VideoFile_file_size kw \<and>
   VideoFile_duration x = kw_VideoFile_duration kw \<and>
   VideoFile_resolution x = kw_VideoFile_resolution kw \<and>
   VideoFile_fps x = kw_VideoFile_fps kw \<and>
   VideoFile_codec x = kw_VideoFile_codec kw \<and>
   enum_member_default VideoStatus_UPLOADED VideoStatus_members (kw_VideoFile_status kw) = Some (VideoFile_status x) \<and>
   VideoFile_created_at x = with_default now_created_at (kw_VideoFile_created_at kw) \<and>
   VideoFile_updated_at x = with_default now_updated_at (kw_VideoFile_updated_at kw) \<and>
   VideoFile_video_metadata x = with_default (JObj []) (kw_VideoFile_video_metadata kw)"
  by (auto simp: VideoFile_model_validate_def split: if_splits option.splits)

lemma VideoEditTask_model_validate_fields:
  "VideoEditTask_model_validate kw now_created_at now_updated_at = Inr x \<Longrightarrow>
   VideoEditTask_errors kw = [] \<and>
   VideoEditTask_id x = kw_VideoEditTask_id kw \<and>
   VideoEditTask_project_id x = kw_VideoEditTask_project_id kw \<and>
   enum_member VideoEditType_members (kw_VideoEditTask_edit_type kw) = Some (VideoEditTask_edit_type x) \<and>
   enum_member_default VideoStatus_UPLOADED VideoStatus_members (kw_VideoEditTask_status kw) = Some (VideoEditTask_status x) \<and>
   VideoEditTask_user_prompt x = kw_VideoEditTask_user_prompt kw \<and>
   VideoEditTask_created_at x = with_default now_created_at (kw_VideoEditTask_created_at kw) \<and>
   VideoEditTask_updated_at x = with_default now_updated_at (kw_VideoEditTask_updated_at kw) \<and>
   VideoEditTask_completed_at x = kw_VideoEditTask_completed_at kw \<and>
   VideoEditTask_edit_parameters x = with_default (JObj []) (kw_VideoEditTask_edit_parameters kw) \<and>
   VideoEditTask_output_file_path x = kw_VideoEditTask_output_file_path kw \<and>
   VideoEditTask_processing_log x = with_default '''' (kw_VideoEditTask_processing_log kw) \<and>
   VideoEditTask_error_message x = kw_VideoEditTask_error_message kw \<and>
   VideoEditTask_progress_percentage x = with_default 0 (kw_VideoEditTask_progress_percentage kw)"
  by (auto simp: VideoEditTask_model_validate_def split: if_splits option.splits)

lemma UserCreate_validate_fields:
  "UserCreate_validate kw = Inr x \<Longrightarrow>
   UserCreate_errors kw = [] \<and>
   UserCreate_username x = kw_UserCreate_username kw \<and>
   UserCreate_email x = kw_UserCreate_email kw \<and>
   UserCreate_full_name x = kw_UserCreate_full_name kw \<and>
   UserCreate_storage_quota x = with_default (Some 5368709120) (kw_UserCreate_storage_quota kw)"
  by (auto simp: UserCreate_validate_def split: if_splits option.splits)

lemma UserUpdate_validate_fields:
  "UserUpdate_validate kw = Inr x \<Longrightarrow>
   UserUpdate_errors kw = [] \<and>
   UserUpdate_username x = kw_UserUpdate_username kw \<and>
   UserUpdate_email x = kw_UserUpdate_email kw \<and>
   UserUpdate_full_name x = kw_UserUpdate_full_name kw \<and>
   UserUpdate_is_active x = kw_UserUpdate_is_active kw \<and>
   UserUpdate_storage_quota x = kw_UserUpdate_storage_quota kw"
  by (auto simp: UserUpdate_validate_def split: if_splits option.splits)

lemma FileUploadRequest_validate_fields:
  "FileUploadRequest_validate kw = Inr x \<Longrightarrow>
   FileUploadRequest_errors kw = [] \<and>
   FileUploadRequest_filename x = kw_FileUploadRequest_filename kw \<and>
   FileUploadRequest_file_size x = kw_FileUploadRequest_file_size kw \<and>
   FileUploadRequest_mime_type x = kw_FileUploadRequest_mime_type kw"
  by (auto simp: FileUploadRequest_validate_def split: if_splits option.splits)

lemma ChatSessionCreate_validate_fields:
  "ChatSessionCreate_validate kw = Inr x \<Longrightarrow>
   ChatSessionCreate_errors kw = [] \<and>
   ChatSessionCreate_title x = with_default (Some (''New Chat'')) (kw_ChatSessionCreate_title kw) \<and>
   ChatSessionCreate_ai_model x = with_default (Some ''gpt-3.5-turbo'') (kw_ChatSessionCreate_ai_model kw) \<and>
   ChatSessionCreate_system_prompt x = with_default (Some '''') (kw_ChatSessionCreate_system_prompt kw) \<and>
   ChatSessionCreate_temperature x = with_default (Some (7 / 10)) (kw_ChatSessionCreate_temperature kw) \<and>
   ChatSessionCreate_max_tokens x = with_default (Some 2048) (kw_ChatSessionCreate_max_tokens kw)"
  by (auto simp: ChatSessionCreate_validate_def split: if_splits option.splits)

lemma ChatSessionUpdate_validate_fields:
  "ChatSessionUpdate_validate kw = Inr x \<Longrightarrow>
   ChatSessionUpdate_errors kw = [] \<and>
   ChatSessionUpdate_title x = kw_ChatSessionUpdate_title kw \<and>
   ChatSessionUpdate_ai_model x = kw_ChatSessionUpdate_ai_model kw \<and>
   ChatSessionUpdate_system_prompt x = kw_ChatSessionUpdate_system_prompt kw \<and>
   ChatSessionUpdate_temperature x = kw_ChatSessionUpdate_temperature kw \<and>
   ChatSessionUpdate_max_tokens x = kw_ChatSessionUpdate_max_tokens kw \<and>
   ChatSessionUpdate_is_active x = kw_ChatSessionUpdate_is_active kw"
  by (auto simp: ChatSessionUpdate_validate_def split: if_splits option.splits)

lemma ChatMessageCreate_validate_fields:
  "ChatMessageCreate_validate kw = Inr x \<Longrightarrow>
   ChatMessageCreate_errors kw = [] \<and>
   enum_member ChatMessageRole_members (kw_ChatMessageCreate_role kw) = Some (ChatMessageCreate_role x) \<and>
   ChatMessageCreate_content x = kw_ChatMessageCreate_content kw \<and>
   ChatMessageCreate_file_ids x = with_default (Some []) (kw_ChatMessageCreate_file_ids kw)"
  by (auto simp: ChatMessageCreate_validate_def split: if_splits option.splits)

lemma SearchQueryCreate_validate_fields:
  "SearchQueryCreate_validate kw = Inr x \<Longrightarrow>
   SearchQueryCreate_errors kw = [] \<and>
   SearchQueryCreate_query x = kw_SearchQueryCreate_query kw \<and>
   SearchQueryCreate_search_engines x = with_default (Some [''google'']) (kw_SearchQueryCreate_search_engines kw) \<and>
   SearchQueryCreate_max_results x = with_default (Some 10) (kw_SearchQueryCreate_max_results kw) \<and>
   SearchQueryCreate_language x = with_default (Some ''en'') (kw_SearchQueryCreate_language kw) \<and>
   SearchQueryCreate_region x = with_default (Some ''us'') (kw_SearchQueryCreate_region kw)"
  by (auto simp: SearchQueryCreate_validate_def split: if_splits option.splits)

lemma VideoProjectCreate_validate_fields:
  "VideoProjectCreate_validate kw = Inr x \<Longrightarrow>
   VideoProjectCreate_errors kw = [] \<and>
   VideoProjectCreate_title x = kw_VideoProjectCreate_title kw \<and>
   VideoProjectCreate_description x = with_default (Some '''') (kw_VideoProjectCreate_description kw)"
  by (auto simp: VideoProjectCreate_validate_def split: if_splits option.splits)

lemma VideoProjectUpdate_validate_fields:
  "VideoProjectUpdate_validate kw = Inr x \<Longrightarrow>
   VideoProjectUpdate_errors kw = [] \<and>
   VideoProjectUpdate_title x = kw_VideoProjectUpdate_title kw \<and>
   VideoProjectUpdate_description x = kw_VideoProjectUpdate_description kw"
  by (auto simp: VideoProjectUpdate_validate_def split: if_splits option.splits)

lemma VideoEditTaskCreate_validate_fields:
  "VideoEditTaskCreate_validate kw = Inr x \<Longrightarrow>
   VideoEditTaskCreate_errors kw = [] \<and>
   enum_member VideoEditType_members (kw_VideoEditTaskCreate_edit_type kw) = Some (VideoEditTaskCreate_edit_type x) \<and>
   VideoEditTaskCreate_user_prompt x = kw_VideoEditTaskCreate_user_prompt kw"
  by (auto simp: VideoEditTaskCreate_validate_def split: if_splits option.splits)

lemma VideoEditTaskUpdate_validate_fields:
  "VideoEditTaskUpdate_validate kw = Inr x \<Longrightarrow>
   VideoEditTaskUpdate_errors kw = [] \<and>
   enum_member_unset VideoStatus_members (kw_VideoEditTaskUpdate_status kw) = Some (VideoEditTaskUpdate_status x) \<and>
   VideoEditTaskUpdate_edit_parameters x = kw_VideoEditTaskUpdate_edit_parameters kw \<and>
   VideoEditTaskUpdate_output_file_path x = kw_VideoEditTaskUpdate_output_file_path kw \<and>
   VideoEditTaskUpdate_processing_log x = kw_VideoEditTaskUpdate_processing_log kw \<and>
   VideoEditTaskUpdate_error_message x = kw_VideoEditTaskUpdate_error_message kw \<and>
   VideoEditTaskUpdate_progress_percentage x = kw_VideoEditTaskUpdate_progress_percentage kw"
  by (auto simp: VideoEditTaskUpdate_validate_def split: if_splits option.splits)

subsection \<open>Defaults\<close>

lemma UserCreate_defaults:
  "(UserCreate_validate uc_kw = Inr uc \<and> User_model_validate u_kw u_tc u_tu = Inr u \<longrightarrow>
      (kw_UserCreate_storage_quota uc_kw = None \<longrightarrow>
        UserCreate_storage_quota uc = Some 5368709120 \<and>
        (kw_User_storage_quota u_kw = None \<or> kw_User_storage_quota u_kw = UserCreate_storage_quota uc \<longrightarrow>
          User_storage_quota u = 5368709120)) \<and>
      (kw_User_id u_kw = None \<longrightarrow> User_id u = None) \<and>
      (kw_User_is_active u_kw = None \<longrightarrow> User_is_active u = True) \<and>
      (kw_User_storage_used u_kw = None \<longrightarrow> User_storage_used u = 0))"
  using UserCreate_validate_fields [where kw = uc_kw and x = uc]
    User_model_validate_fields [where kw = u_kw and x = u and now_created_at = u_tc and now_updated_at = u_tu]
  by (auto simp: with_default_def enum_member_default_def)

lemma UserCreate_init_defaults:
  "(UserCreate_validate uc_kw = Inr uc \<longrightarrow>
      (kw_UserCreate_storage_quota uc_kw = None \<longrightarrow>
        (kw_User_storage_quota u_kw = None \<or> kw_User_storage_quota u_kw = UserCreate_storage_quota uc \<longrightarrow>
          obj_User_storage_quota (User_init u_kw u_tc u_tu) = 5368709120)) \<and>
      (kw_User_id u_kw = None \<longrightarrow> obj_User_id (User_init u_kw u_tc u_tu) = None) \<and>
      (kw_User_is_active u_kw = None \<longrightarrow> obj_User_is_active (User_init u_kw u_tc u_tu) = True) \<and>
      (kw_User_storage_used u_kw = None \<longrightarrow> obj_User_storage_used (User_init u_kw u_tc u_tu) = 0))"
  using UserCreate_validate_fields [where kw = uc_kw and x = uc]
  by (auto simp: User_init_def with_default_def)

lemma ChatSessionCreate_defaults:
  "(ChatSessionCreate_validate csc_kw = Inr csc \<and> ChatSession_model_validate cs_kw cs_tc cs_tu = Inr cs \<longrightarrow>
      (kw_ChatSessionCreate_title csc_kw = None \<longrightarrow>
        ChatSessionCreate_title csc = Some (''New Chat'') \<and>
        (kw_ChatSession_title cs_kw = None \<or> kw_ChatSession_title cs_kw = ChatSessionCreate_title csc \<longrightarrow>
          ChatSession_title cs = ''New Chat'')) \<and>
      (kw_ChatSessionCreate_ai_model csc_kw = None \<longrightarrow>
        ChatSessionCreate_ai_model csc = Some ''gpt-3.5-turbo'' \<and>
        (kw_ChatSession_ai_model cs_kw = None \<or> kw_ChatSession_ai_model cs_kw = ChatSessionCreate_ai_model csc \<longrightarrow>
          ChatSession_ai_model cs = ''gpt-3.5-turbo'')) \<and>
      (kw_ChatSessionCreate_system_prompt csc_kw = None \<longrightarrow>
        ChatSessionCreate_system_prompt csc = Some '''' \<and>
        (kw_ChatSession_system_prompt cs_kw = None \<or> kw_ChatSession_system_prompt cs_kw = ChatSessionCreate_system_prompt csc \<longrightarrow>
          ChatSession_system_prompt cs = '''')) \<and>
      (kw_ChatSessionCreate_temperature csc_kw = None \<longrightarrow>
        ChatSessionCreate_temperature csc = Some (7 / 10) \<and>
        (kw_ChatSession_temperature cs_kw = None \<or> kw_ChatSession_temperature cs_kw = ChatSessionCreate_temperature csc \<longrightarrow>
          ChatSession_temperature cs = 7 / 10)) \<and>
      (kw_ChatSessionCreate_max_tokens csc_kw = None \<longrightarrow>
        ChatSessionCreate_max_tokens csc = Some 2048 \<and>
        (kw_ChatSession_max_tokens cs_kw = None \<or> kw_ChatSession_max_tokens cs_kw = ChatSessionCreate_max_tokens csc \<longrightarrow>
          ChatSession_max_tokens cs = 2048)) \<and>
      (kw_ChatSession_id cs_kw = None \<longrightarrow> ChatSession_id cs = None) \<and>
      (kw_ChatSession_is_active cs_kw = None \<longrightarrow> ChatSession_is_active cs = True) \<and>
      (kw_ChatSession_settings cs_kw = None \<longrightarrow> ChatSession_settings cs = JObj []))"
  using ChatSessionCreate_validate_fields [where kw = csc_kw and x = csc]
    ChatSession_model_validate_fields [where kw = cs_kw and x = cs and now_created_at = cs_tc and now_updated_at = cs_tu]
  by (auto simp: with_default_def enum_member_default_def)

lemma ChatSessionCreate_init_defaults:
  "(ChatSessionCreate_validate csc_kw = Inr csc \<longrightarrow>
      (kw_ChatSessionCreate_title csc_kw = None \<longrightarrow>
        (kw_ChatSession_title cs_kw = None \<or> kw_ChatSession_title cs_kw = ChatSessionCreate_title csc \<longrightarrow>
          obj_ChatSession_title (ChatSession_init cs_kw cs_tc cs_tu) = ''New Chat'')) \<and>
      (kw_ChatSessionCreate_ai_model csc_kw = None \<longrightarrow>
        (kw_ChatSession_ai_model cs_kw = None \<or> kw_ChatSession_ai_model cs_kw = ChatSessionCreate_ai_model csc \<longrightarrow>
          obj_ChatSession_ai_model (ChatSession_init cs_kw cs_tc cs_tu) = ''gpt-3.5-turbo'')) \<and>
      (kw_ChatSessionCreate_system_prompt csc_kw = None \<longrightarrow>
        (kw_ChatSession_system_prompt cs_kw = None \<or> kw_ChatSession_system_prompt cs_kw = ChatSessionCreate_system_prompt csc \<longrightarrow>
          obj_ChatSession_system_prompt (ChatSession_init cs_kw cs_tc cs_tu) = '''')) \<and>
      (kw_ChatSessionCreate_temperature csc_kw = None \<longrightarrow>
        (kw_ChatSession_temperature cs_kw = None \<or> kw_ChatSession_temperature cs_kw = ChatSessionCreate_temperature csc \<longrightarrow>
          obj_ChatSession_temperature (ChatSession_init cs_kw cs_tc cs_tu) = 7 / 10)) \<and>
      (kw_ChatSessionCreate_max_tokens csc_kw = None \<longrightarrow>
        (kw_ChatSession_max_tokens cs_kw = None \<or> kw_ChatSession_max_tokens cs_kw = ChatSessionCreate_max_tokens csc \<longrightarrow>
          obj_ChatSession_max_tokens (ChatSession_init cs_kw cs_tc cs_tu) = 2048)) \<and>
      (kw_ChatSession_id cs_kw = None \<longrightarrow> obj_ChatSession_id (ChatSession_init cs_kw cs_tc cs_tu) = None) \<and>
      (kw_ChatSession_is_active cs_kw = None \<longrightarrow> obj_ChatSession_is_active (ChatSession_init cs_kw cs_tc cs_tu) = True) \<and>
      (kw_ChatSession_settings cs_kw = None \<longrightarrow> obj_ChatSession_settings (ChatSession_init cs_kw cs_tc cs_tu) = JObj []))"
  using ChatSessionCreate_validate_fields [where kw = csc_kw and x = csc]
  by (auto simp: ChatSession_init_def with_default_def)

lemma ChatMessageCreate_defaults:
  "(ChatMessageCreate_validate cmc_kw = Inr cmc \<and> ChatMessage_model_validate cm_kw cm_tc = Inr cm \<longrightarrow>
      (kw_ChatMessageCreate_file_ids cmc_kw = None \<longrightarrow> ChatMessageCreate_file_ids cmc = Some []) \<and>
      (kw_ChatMessage_id cm_kw = None \<longrightarrow> ChatMessage_id cm = None) \<and>
      (kw_ChatMessage_input_tokens cm_kw = None \<longrightarrow> ChatMessage_input_tokens cm = None) \<and>
      (kw_ChatMessage_output_tokens cm_kw = None \<longrightarrow> ChatMessage_output_tokens cm = None) \<and>
      (kw_ChatMessage_message_metadata cm_kw = None \<longrightarrow> ChatMessage_message_metadata cm = JObj []))"
  using ChatMessageCreate_validate_fields [where kw = cmc_kw and x = cmc]
    ChatMessage_model_validate_fields [where kw = cm_kw and x = cm and now_created_at = cm_tc]
  by (auto simp: with_default_def enum_member_default_def)

lemma ChatMessageCreate_init_defaults:
  "(ChatMessageCreate_validate cmc_kw = Inr cmc \<longrightarrow>
      (kw_ChatMessage_id cm_kw = None \<longrightarrow> obj_ChatMessage_id (ChatMessage_init cm_kw cm_tc) = None) \<and>
      (kw_ChatMessage_input_tokens cm_kw = None \<longrightarrow> obj_ChatMessage_input_tokens (ChatMessage_init cm_kw cm_tc) = None) \<and>
      (kw_ChatMessage_output_tokens cm_kw = None \<longrightarrow> obj_ChatMessage_output_tokens (ChatMessage_init cm_kw cm_tc) = None) \<and>
      (kw_ChatMessage_message_metadata cm_kw = None \<longrightarrow> obj_ChatMessage_message_metadata (ChatMessage_init cm_kw cm_tc) = JObj []))"
  using ChatMessageCreate_validate_fields [where kw = cmc_kw and x = cmc]
  by (auto simp: ChatMessage_init_def with_default_def)

lemma SearchQueryCreate_defaults:
  "(SearchQueryCreate_validate sqc_kw = Inr sqc \<and> SearchQuery_model_validate sq_kw sq_tc sq_tu = Inr sq \<longrightarrow>
      (kw_SearchQueryCreate_search_engines sqc_kw = None \<longrightarrow>
        SearchQueryCreate_search_engines sqc = Some [''google''] \<and>
        (kw_SearchQuery_search_engines sq_kw = None \<or> kw_SearchQuery_search_engines sq_kw = SearchQueryCreate_search_engines sqc \<longrightarrow>
          SearchQuery_search_engines sq = [''google''])) \<and>
      (kw_SearchQueryCreate_max_results sqc_kw = None \<longrightarrow>
        SearchQueryCreate_max_results sqc = Some 10 \<and>
        (kw_SearchQuery_max_results sq_kw = None \<or> kw_SearchQuery_max_results sq_kw = SearchQueryCreate_max_results sqc \<longrightarrow>
          SearchQuery_max_results sq = 10)) \<and>
      (kw_SearchQueryCreate_language sqc_kw = None \<longrightarrow>
        SearchQueryCreate_language sqc = Some ''en'' \<and>
        (kw_SearchQuery_language sq_kw = None \<or> kw_SearchQuery_language sq_kw = SearchQueryCreate_language sqc \<longrightarrow>
          SearchQuery_language sq = ''en'')) \<and>
      (kw_SearchQueryCreate_region sqc_kw = None \<longrightarrow>
        SearchQueryCreate_region sqc = Some ''us'' \<and>
        (kw_SearchQuery_region sq_kw = None \<or> kw_SearchQuery_region sq_kw = SearchQueryCreate_region sqc \<longrightarrow>
          SearchQuery_region sq = ''us'')) \<and>
      (kw_SearchQuery_id sq_kw = None \<longrightarrow> SearchQuery_id sq = None) \<and>
      (kw_SearchQuery_status sq_kw = None \<longrightarrow> SearchQuery_status sq = SearchStatus_PENDING) \<and>
      (kw_SearchQuery_completed_at sq_kw = None \<longrightarrow> SearchQuery_completed_at sq = None) \<and>
      (kw_SearchQuery_results sq_kw = None \<longrightarrow> SearchQuery_results sq = JObj []) \<and>
      (kw_SearchQuery_results_count sq_kw = None \<longrightarrow> SearchQuery_results_count sq = 0) \<and>
      (kw_SearchQuery_error_message sq_kw = None \<longrightarrow> SearchQuery_error_message sq = None))"
  using SearchQueryCreate_validate_fields [where kw = sqc_kw and x = sqc]
    SearchQuery_model_validate_fields [where kw = sq_kw and x = sq and now_created_at = sq_tc and now_updated_at = sq_tu]
  by (auto simp: with_default_def enum_member_default_def)

lemma SearchQueryCreate_init_defaults:
  "(SearchQueryCreate_validate sqc_kw = Inr sqc \<longrightarrow>
      (kw_SearchQueryCreate_search_engines sqc_kw = None \<longrightarrow>
        (kw_SearchQuery_search_engines sq_kw = None \<or> kw_SearchQuery_search_engines sq_kw = SearchQueryCreate_search_engines sqc \<longrightarrow>
          obj_SearchQuery_search_engines (SearchQuery_init sq_kw sq_tc sq_tu) = [''google''])) \<and>
      (kw_SearchQueryCreate_max_results sqc_kw = None \<longrightarrow>
        (kw_SearchQuery_max_results sq_kw = None \<or> kw_SearchQuery_max_results sq_kw = SearchQueryCreate_max_results sqc \<longrightarrow>
          obj_SearchQuery_max_results (SearchQuery_init sq_kw sq_tc sq_tu) = 10)) \<and>
      (kw_SearchQueryCreate_language sqc_kw = None \<longrightarrow>
        (kw_SearchQuery_language sq_kw = None \<or> kw_SearchQuery_language sq_kw = SearchQueryCreate_language sqc \<longrightarrow>
          obj_SearchQuery_language (SearchQuery_init sq_kw sq_tc sq_tu) = ''en'')) \<and>
      (kw_SearchQueryCreate_region sqc_kw = None \<longrightarrow>
        (kw_SearchQuery_region sq_kw = None \<or> kw_SearchQuery_region sq_kw = SearchQueryCreate_region sqc \<longrightarrow>
          obj_SearchQuery_region (SearchQuery_init sq_kw sq_tc sq_tu) = ''us'')) \<and>
      (kw_SearchQuery_id sq_kw = None \<longrightarrow> obj_SearchQuery_id (SearchQuery_init sq_kw sq_tc sq_tu) = None) \<and>
      (kw_SearchQuery_status sq_kw = None \<longrightarrow>
        obj_SearchQuery_status (SearchQuery_init sq_kw sq_tc sq_tu) = SearchStatus_value SearchStatus_PENDING) \<and>
      (kw_SearchQuery_completed_at sq_kw = None \<longrightarrow> obj_SearchQuery_completed_at (SearchQuery_init sq_kw sq_tc sq_tu) = None) \<and>
      (kw_SearchQuery_results sq_kw = None \<longrightarrow> obj_SearchQuery_results (SearchQuery_init sq_kw sq_tc sq_tu) = JObj []) \<and>
      (kw_SearchQuery_results_count sq_kw = None \<longrightarrow> obj_SearchQuery_results_count (SearchQuery_init sq_kw sq_tc sq_tu) = 0) \<and>
      (kw_SearchQuery_error_message sq_kw = None \<longrightarrow> obj_SearchQuery_error_message (SearchQuery_init sq_kw sq_tc sq_tu) = None))"
  using SearchQueryCreate_validate_fields [where kw = sqc_kw and x = sqc]
  by (auto simp: SearchQuery_init_def with_default_def)

lemma VideoProjectCreate_defaults:
  "(VideoProjectCreate_validate vpc_kw = Inr vpc \<and> VideoProject_model_validate vp_kw vp_tc vp_tu = Inr vp \<longrightarrow>
      (kw_VideoProjectCreate_description vpc_kw = None \<longrightarrow>
        VideoProjectCreate_description vpc = Some '''' \<and>
        (kw_VideoProject_description vp_kw = None \<or> kw_VideoProject_description vp_kw = VideoProjectCreate_description vpc \<longrightarrow>
          VideoProject_description vp = '''')) \<and>
      (kw_VideoProject_id vp_kw = None \<longrightarrow> VideoProject_id vp = None) \<and>
      (kw_VideoProject_settings vp_kw = None \<longrightarrow> VideoProject_settings vp = JObj []))"
  using VideoProjectCreate_validate_fields [where kw = vpc_kw and x = vpc]
    VideoProject_model_validate_fields [where kw = vp_kw and x = vp and now_created_at = vp_tc and now_updated_at = vp_tu]
  by (auto simp: with_default_def enum_member_default_def)

lemma VideoProjectCreate_init_defaults:
  "(VideoProjectCreate_validate vpc_kw = Inr vpc \<longrightarrow>
      (kw_VideoProjectCreate_description vpc_kw = None \<longrightarrow>
        (kw_VideoProject_description vp_kw = None \<or> kw_VideoProject_description vp_kw = VideoProjectCreate_description vpc \<longrightarrow>
          obj_VideoProject_description (VideoProject_init vp_kw vp_tc vp_tu) = '''')) \<and>
      (kw_VideoProject_id vp_kw = None \<longrightarrow> obj_VideoProject_id (VideoProject_init vp_kw vp_tc vp_tu) = None) \<and>
      (kw_VideoProject_settings vp_kw = None \<longrightarrow> obj_VideoProject_settings (VideoProject_init vp_kw vp_tc vp_tu) = JObj []))"
  using VideoProjectCreate_validate_fields [where kw = vpc_kw and x = vpc]
  by (auto simp: VideoProject_init_def with_default_def)

lemma VideoEditTaskCreate_defaults:
  "(VideoEditTaskCreate_validate vtc_kw = Inr vtc \<and> VideoEditTask_model_validate vt_kw vt_tc vt_tu = Inr vt \<longrightarrow>
      (kw_VideoEditTask_id vt_kw = None \<longrightarrow> VideoEditTask_id vt = None) \<and>
      (kw_VideoEditTask_status vt_kw = None \<longrightarrow> VideoEditTask_status vt = VideoStatus_UPLOADED) \<and>
      (kw_VideoEditTask_completed_at vt_kw = None \<longrightarrow> VideoEditTask_completed_at vt = None) \<and>
      (kw_VideoEditTask_edit_parameters vt_kw = None \<longrightarrow> VideoEditTask_edit_parameters vt = JObj []) \<and>
      (kw_VideoEditTask_output_file_path vt_kw = None \<longrightarrow> VideoEditTask_output_file_path vt = None) \<and>
      (kw_VideoEditTask_processing_log vt_kw = None \<longrightarrow> VideoEditTask_processing_log vt = '''') \<and>
      (kw_VideoEditTask_error_message vt_kw = None \<longrightarrow> VideoEditTask_error_message vt = None) \<and>
      (kw_VideoEditTask_progress_percentage vt_kw = None \<longrightarrow> VideoEditTask_progress_percentage vt = 0))"
  using VideoEditTaskCreate_validate_fields [where kw = vtc_kw and x = vtc]
    VideoEditTask_model_validate_fields [where kw = vt_kw and x = vt and now_created_at = vt_tc and now_updated_at = vt_tu]
  by (auto simp: with_default_def enum_member_default_def)

lemma VideoEditTaskCreate_init_defaults:
  "(VideoEditTaskCreate_validate vtc_kw = Inr vtc \<longrightarrow>
      (kw_VideoEditTask_id vt_kw = None \<longrightarrow> obj_VideoEditTask_id (VideoEditTask_init vt_kw vt_tc vt_tu) = None) \<and>
      (kw_VideoEditTask_status vt_kw = None \<longrightarrow>
        obj_VideoEditTask_status (VideoEditTask_init vt_kw vt_tc vt_tu) = VideoStatus_value VideoStatus_UPLOADED) \<and>
      (kw_VideoEditTask_completed_at vt_kw = None \<longrightarrow> obj_VideoEditTask_completed_at (VideoEditTask_init vt_kw vt_tc vt_tu) = None) \<and>
      (kw_VideoEditTask_edit_parameters vt_kw = None \<longrightarrow> obj_VideoEditTask_edit_parameters (VideoEditTask_init vt_kw vt_tc vt_tu) = JObj []) \<and>
      (kw_VideoEditTask_output_file_path vt_kw = None \<longrightarrow> obj_VideoEditTask_output_file_path (VideoEditTask_init vt_kw vt_tc vt_tu) = None) \<and>
      (kw_VideoEditTask_processing_log vt_kw = None \<longrightarrow> obj_VideoEditTask_processing_log (VideoEditTask_init vt_kw vt_tc vt_tu) = '''') \<and>
      (kw_VideoEditTask_error_message vt_kw = None \<longrightarrow> obj_VideoEditTask_error_message (VideoEditTask_init vt_kw vt_tc vt_tu) = None) \<and>
      (kw_VideoEditTask_progress_percentage vt_kw = None \<longrightarrow> obj_VideoEditTask_progress_percentage (VideoEditTask_init vt_kw vt_tc vt_tu) = 0))"
  using VideoEditTaskCreate_validate_fields [where kw = vtc_kw and x = vtc]
  by (auto simp: VideoEditTask_init_def with_default_def)

text \<open>
  Claim C2. For every Create shape and every field of it that has a default: when the
  payload omits the field, the validated shape holds the declared default, and the entity
  constructed from it, whether the field is left out of the constructor call or handed on
  from the shape, holds the same declared default. The defaulted fields of an entity that
  its Create shape lacks take their declared defaults too: a \<^verbatim>\<open>User\<close> created with only
  \<^verbatim>\<open>username\<close>, \<^verbatim>\<open>email\<close> and \<^verbatim>\<open>full_name\<close> has \<^verbatim>\<open>storage_quota = 5368709120\<close>,
  \<^verbatim>\<open>storage_used = 0\<close> and \<^verbatim>\<open>is_active = True\<close>; a \<^verbatim>\<open>ChatSession\<close> without \<^verbatim>\<open>ai_model\<close> has
  \<^verbatim>\<open>"gpt-3.5-turbo"\<close> and without \<^verbatim>\<open>temperature\<close> has 0.7; a \<^verbatim>\<open>SearchQuery\<close> without
  \<^verbatim>\<open>search_engines\<close> has \<^verbatim>\<open>["google"]\<close>. The entity is constructed either way: the first six
  parts are about the instance that \<^verbatim>\<open>model_validate\<close> returns, the last six about the
  object that the constructor call returns.
\<close>

theorem create_defaults:
  "(UserCreate_validate uc_kw = Inr uc \<and> User_model_validate u_kw u_tc u_tu = Inr u \<longrightarrow>
      (kw_UserCreate_storage_quota uc_kw = None \<longrightarrow>
        UserCreate_storage_quota uc = Some 5368709120 \<and>
        (kw_User_storage_quota u_kw = None \<or> kw_User_storage_quota u_kw = UserCreate_storage_quota uc \<longrightarrow>
          User_storage_quota u = 5368709120)) \<and>
      (kw_User_id u_kw = None \<longrightarrow> User_id u = None) \<and>
      (kw_User_is_active u_kw = None \<longrightarrow> User_is_active u = True) \<and>
      (kw_User_storage_used u_kw = None \<longrightarrow> User_storage_used u = 0)) \<and>
   (ChatSessionCreate_validate csc_kw = Inr csc \<and> ChatSession_model_validate cs_kw cs_tc cs_tu = Inr cs \<longrightarrow>
      (kw_ChatSessionCreate_title csc_kw = None \<longrightarrow>
        ChatSessionCreate_title csc = Some (''New Chat'') \<and>
        (kw_ChatSession_title cs_kw = None \<or> kw_ChatSession_title cs_kw = ChatSessionCreate_title csc \<longrightarrow>
          ChatSession_title cs = ''New Chat'')) \<and>
      (kw_ChatSessionCreate_ai_model csc_kw = None \<longrightarrow>
        ChatSessionCreate_ai_model csc = Some ''gpt-3.5-turbo'' \<and>
        (kw_ChatSession_ai_model cs_kw = None \<or> kw_ChatSession_ai_model cs_kw = ChatSessionCreate_ai_model csc \<longrightarrow>
          ChatSession_ai_model cs = ''gpt-3.5-turbo'')) \<and>
      (kw_ChatSessionCreate_system_prompt csc_kw = None \<longrightarrow>
        ChatSessionCreate_system_prompt csc = Some '''' \<and>
        (kw_ChatSession_system_prompt cs_kw = None \<or> kw_ChatSession_system_prompt cs_kw = ChatSessionCreate_system_prompt csc \<longrightarrow>
          ChatSession_system_prompt cs = '''')) \<and>
      (kw_ChatSessionCreate_temperature csc_kw = None \<longrightarrow>
        ChatSessionCreate_temperature csc = Some (7 / 10) \<and>
        (kw_ChatSession_temperature cs_kw = None \<or> kw_ChatSession_temperature cs_kw = ChatSessionCreate_temperature csc \<longrightarrow>
          ChatSession_temperature cs = 7 / 10)) \<and>
      (kw_ChatSessionCreate_max_tokens csc_kw = None \<longrightarrow>
        ChatSessionCreate_max_tokens csc = Some 2048 \<and>
        (kw_ChatSession_max_tokens cs_kw = None \<or> kw_ChatSession_max_tokens cs_kw = ChatSessionCreate_max_tokens csc \<longrightarrow>
          ChatSession_max_tokens cs = 2048)) \<and>
      (kw_ChatSession_id cs_kw = None \<longrightarrow> ChatSession_id cs = None) \<and>
      (kw_ChatSession_is_active cs_kw = None \<longrightarrow> ChatSession_is_active cs = True) \<and>
      (kw_ChatSession_settings cs_kw = None \<longrightarrow> ChatSession_settings cs = JObj [])) \<and>
   (ChatMessageCreate_validate cmc_kw = Inr cmc \<and> ChatMessage_model_validate cm_kw cm_tc = Inr cm \<longrightarrow>
      (kw_ChatMessageCreate_file_ids cmc_kw = None \<longrightarrow> ChatMessageCreate_file_ids cmc = Some []) \<and>
      (kw_ChatMessage_id cm_kw = None \<longrightarrow> ChatMessage_id cm = None) \<and>
      (kw_ChatMessage_input_tokens cm_kw = None \<longrightarrow> ChatMessage_input_tokens cm = None) \<and>
      (kw_ChatMessage_output_tokens cm_kw = None \<longrightarrow> ChatMessage_output_tokens cm = None) \<and>
      (kw_ChatMessage_message_metadata cm_kw = None \<longrightarrow> ChatMessage_message_metadata cm = JObj [])) \<and>
   (SearchQueryCreate_validate sqc_kw = Inr sqc \<and> SearchQuery_model_validate sq_kw sq_tc sq_tu = Inr sq \<longrightarrow>
      (kw_SearchQueryCreate_search_engines sqc_kw = None \<longrightarrow>
        SearchQueryCreate_search_engines sqc = Some [''google''] \<and>
        (kw_SearchQuery_search_engines sq_kw = None \<or> kw_SearchQuery_search_engines sq_kw = SearchQueryCreate_search_engines sqc \<longrightarrow>
          SearchQuery_search_engines sq = [''google''])) \<and>
      (kw_SearchQueryCreate_max_results sqc_kw = None \<longrightarrow>
        SearchQueryCreate_max_results sqc = Some 10 \<and>
        (kw_SearchQuery_max_results sq_kw = None \<or> kw_SearchQuery_max_results sq_kw = SearchQueryCreate_max_results sqc \<longrightarrow>
          SearchQuery_max_results sq = 10)) \<and>
      (kw_SearchQueryCreate_language sqc_kw = None \<longrightarrow>
        SearchQueryCreate_language sqc = Some ''en'' \<and>
        (kw_SearchQuery_language sq_kw = None \<or> kw_SearchQuery_language sq_kw = SearchQueryCreate_language sqc \<longrightarrow>
          SearchQuery_language sq = ''en'')) \<and>
      (kw_SearchQueryCreate_region sqc_kw = None \<longrightarrow>
        SearchQueryCreate_region sqc = Some ''us'' \<and>
        (kw_SearchQuery_region sq_kw = None \<or> kw_SearchQuery_region sq_kw = SearchQueryCreate_region sqc \<longrightarrow>
          SearchQuery_region sq = ''us'')) \<and>
      (kw_SearchQuery_id sq_kw = None \<longrightarrow> SearchQuery_id sq = None) \<and>
      (kw_SearchQuery_status sq_kw = None \<longrightarrow> SearchQuery_status sq = SearchStatus_PENDING) \<and>
      (kw_SearchQuery_completed_at sq_kw = None \<longrightarrow> SearchQuery_completed_at sq = None) \<and>
      (kw_SearchQuery_results sq_kw = None \<longrightarrow> SearchQuery_results sq = JObj []) \<and>
      (kw_SearchQuery_results_count sq_kw = None \<longrightarrow> SearchQuery_results_count sq = 0) \<and>
      (kw_SearchQuery_error_message sq_kw = None \<longrightarrow> SearchQuery_error_message sq = None)) \<and>
   (VideoProjectCreate_validate vpc_kw = Inr vpc \<and> VideoProject_model_validate vp_kw vp_tc vp_tu = Inr vp \<longrightarrow>
      (kw_VideoProjectCreate_description vpc_kw = None \<longrightarrow>
        VideoProjectCreate_description vpc = Some '''' \<and>
        (kw_VideoProject_description vp_kw = None \<or> kw_VideoProject_description vp_kw = VideoProjectCreate_description vpc \<longrightarrow>
          VideoProject_description vp = '''')) \<and>
      (kw_VideoProject_id vp_kw = None \<longrightarrow> VideoProject_id vp = None) \<and>
      (kw_VideoProject_settings vp_kw = None \<longrightarrow> VideoProject_settings vp = JObj [])) \<and>
   (VideoEditTaskCreate_validate vtc_kw = Inr vtc \<and> VideoEditTask_model_validate vt_kw vt_tc vt_tu = Inr vt \<longrightarrow>
      (kw_VideoEditTask_id vt_kw = None \<longrightarrow> VideoEditTask_id vt = None) \<and>
      (kw_VideoEditTask_status vt_kw = None \<longrightarrow> VideoEditTask_status vt = VideoStatus_UPLOADED) \<and>
      (kw_VideoEditTask_completed_at vt_kw = None \<longrightarrow> VideoEditTask_completed_at vt = None) \<and>
      (kw_VideoEditTask_edit_parameters vt_kw = None \<longrightarrow> VideoEditTask_edit_parameters vt = JObj []) \<and>
      (kw_VideoEditTask_output_file_path vt_kw = None \<longrightarrow> VideoEditTask_output_file_path vt = None) \<and>
      (kw_VideoEditTask_processing_log vt_kw = None \<longrightarrow> VideoEditTask_processing_log vt = '''') \<and>
      (kw_VideoEditTask_error_message vt_kw = None \<longrightarrow> VideoEditTask_error_message vt = None) \<and>
      (kw_VideoEditTask_progress_percentage vt_kw = None \<longrightarrow> VideoEditTask_progress_percentage vt = 0)) \<and>
   (UserCreate_validate uc_kw = Inr uc \<longrightarrow>
      (kw_UserCreate_storage_quota uc_kw = None \<longrightarrow>
        (kw_User_storage_quota u_kw = None \<or> kw_User_storage_quota u_kw = UserCreate_storage_quota uc \<longrightarrow>
          obj_User_storage_quota (User_init u_kw u_tc u_tu) = 5368709120)) \<and>
      (kw_User_id u_kw = None \<longrightarrow> obj_User_id (User_init u_kw u_tc u_tu) = None) \<and>
      (kw_User_is_active u_kw = None \<longrightarrow> obj_User_is_active (User_init u_kw u_tc u_tu) = True) \<and>
      (kw_User_storage_used u_kw = None \<longrightarrow> obj_User_storage_used (User_init u_kw u_tc u_tu) = 0)) \<and>
   (ChatSessionCreate_validate csc_kw = Inr csc \<longrightarrow>
      (kw_ChatSessionCreate_title csc_kw = None \<longrightarrow>
        (kw_ChatSession_title cs_kw = None \<or> kw_ChatSession_title cs_kw = ChatSessionCreate_title csc \<longrightarrow>
          obj_ChatSession_title (ChatSession_init cs_kw cs_tc cs_tu) = ''New Chat'')) \<and>
      (kw_ChatSessionCreate_ai_model csc_kw = None \<longrightarrow>
        (kw_ChatSession_ai_model cs_kw = None \<or> kw_ChatSession_ai_model cs_kw = ChatSessionCreate_ai_model csc \<longrightarrow>
          obj_ChatSession_ai_model (ChatSession_init cs_kw cs_tc cs_tu) = ''gpt-3.5-turbo'')) \<and>
      (kw_ChatSessionCreate_system_prompt csc_kw = None \<longrightarrow>
        (kw_ChatSession_system_prompt cs_kw = None \<or> kw_ChatSession_system_prompt cs_kw = ChatSessionCreate_system_prompt csc \<longrightarrow>
          obj_ChatSession_system_prompt (ChatSession_init cs_kw cs_tc cs_tu) = '''')) \<and>
      (kw_ChatSessionCreate_temperature csc_kw = None \<longrightarrow>
        (kw_ChatSession_temperature cs_kw = None \<or> kw_ChatSession_temperature cs_kw = ChatSessionCreate_temperature csc \<longrightarrow>
          obj_ChatSession_temperature (ChatSession_init cs_kw cs_tc cs_tu) = 7 / 10)) \<and>
      (kw_ChatSessionCreate_max_tokens csc_kw = None \<longrightarrow>
        (kw_ChatSession_max_tokens cs_kw = None \<or> kw_ChatSession_max_tokens cs_kw = ChatSessionCreate_max_tokens csc \<longrightarrow>
          obj_ChatSession_max_tokens (ChatSession_init cs_kw cs_tc cs_tu) = 2048)) \<and>
      (kw_ChatSession_id cs_kw = None \<longrightarrow> obj_ChatSession_id (ChatSession_init cs_kw cs_tc cs_tu) = None) \<and>
      (kw_ChatSession_is_active cs_kw = None \<longrightarrow> obj_ChatSession_is_active (ChatSession_init cs_kw cs_tc cs_tu) = True) \<and>
      (kw_ChatSession_settings cs_kw = None \<longrightarrow> obj_ChatSession_settings (ChatSession_init cs_kw cs_tc cs_tu) = JObj [])) \<and>
   (ChatMessageCreate_validate cmc_kw = Inr cmc \<longrightarrow>
      (kw_ChatMessage_id cm_kw = None \<longrightarrow> obj_ChatMessage_id (ChatMessage_init cm_kw cm_tc) = None) \<and>
      (kw_ChatMessage_input_tokens cm_kw = None \<longrightarrow> obj_ChatMessage_input_tokens (ChatMessage_init cm_kw cm_tc) = None) \<and>
      (kw_ChatMessage_output_tokens cm_kw = None \<longrightarrow> obj_ChatMessage_output_tokens (ChatMessage_init cm_kw cm_tc) = None) \<and>
      (kw_ChatMessage_message_metadata cm_kw = None \<longrightarrow> obj_ChatMessage_message_metadata (ChatMessage_init cm_kw cm_tc) = JObj [])) \<and>
   (SearchQueryCreate_validate sqc_kw = Inr sqc \<longrightarrow>
      (kw_SearchQueryCreate_search_engines sqc_kw = None \<longrightarrow>
        (kw_SearchQuery_search_engines sq_kw = None \<or> kw_SearchQuery_search_engines sq_kw = SearchQueryCreate_search_engines sqc \<longrightarrow>
          obj_SearchQuery_search_engines (SearchQuery_init sq_kw sq_tc sq_tu) = [''google''])) \<and>
      (kw_SearchQueryCreate_max_results sqc_kw = None \<longrightarrow>
        (kw_SearchQuery_max_results sq_kw = None \<or> kw_SearchQuery_max_results sq_kw = SearchQueryCreate_max_results sqc \<longrightarrow>
          obj_SearchQuery_max_results (SearchQuery_init sq_kw sq_tc sq_tu) = 10)) \<and>
      (kw_SearchQueryCreate_language sqc_kw = None \<longrightarrow>
        (kw_SearchQuery_language sq_kw = None \<or> kw_SearchQuery_language sq_kw = SearchQueryCreate_language sqc \<longrightarrow>
          obj_SearchQuery_language (SearchQuery_init sq_kw sq_tc sq_tu) = ''en'')) \<and>
      (kw_SearchQueryCreate_region sqc_kw = None \<longrightarrow>
        (kw_SearchQuery_region sq_kw = None \<or> kw_SearchQuery_region sq_kw = SearchQueryCreate_region sqc \<longrightarrow>
          obj_SearchQuery_region (SearchQuery_init sq_kw sq_tc sq_tu) = ''us'')) \<and>
      (kw_SearchQuery_id sq_kw = None \<longrightarrow> obj_SearchQuery_id (SearchQuery_init sq_kw sq_tc sq_tu) = None) \<and>
      (kw_SearchQuery_status sq_kw = None \<longrightarrow>
        obj_SearchQuery_status (SearchQuery_init sq_kw sq_tc sq_tu) = SearchStatus_value SearchStatus_PENDING) \<and>
      (kw_SearchQuery_completed_at sq_kw = None \<longrightarrow> obj_SearchQuery_completed_at (SearchQuery_init sq_kw sq_tc sq_tu) = None) \<and>
      (kw_SearchQuery_results sq_kw = None \<longrightarrow> obj_SearchQuery_results (SearchQuery_init sq_kw sq_tc sq_tu) = JObj []) \<and>
      (kw_SearchQuery_results_count sq_kw = None \<longrightarrow> obj_SearchQuery_results_count (SearchQuery_init sq_kw sq_tc sq_tu) = 0) \<and>
      (kw_SearchQuery_error_message sq_kw = None \<longrightarrow> obj_SearchQuery_error_message (SearchQuery_init sq_kw sq_tc sq_tu) = None)) \<and>
   (VideoProjectCreate_validate vpc_kw = Inr vpc \<longrightarrow>
      (kw_VideoProjectCreate_description vpc_kw = None \<longrightarrow>
        (kw_VideoProject_description vp_kw = None \<or> kw_VideoProject_description vp_kw = VideoProjectCreate_description vpc \<longrightarrow>
          obj_VideoProject_description (VideoProject_init vp_kw vp_tc vp_tu) = '''')) \<and>
      (kw_VideoProject_id vp_kw = None \<longrightarrow> obj_VideoProject_id (VideoProject_init vp_kw vp_tc vp_tu) = None) \<and>
      (kw_VideoProject_settings vp_kw = None \<longrightarrow> obj_VideoProject_settings (VideoProject_init vp_kw vp_tc vp_tu) = JObj [])) \<and>
   (VideoEditTaskCreate_validate vtc_kw = Inr vtc \<longrightarrow>
      (kw_VideoEditTask_id vt_kw = None \<longrightarrow> obj_VideoEditTask_id (VideoEditTask_init vt_kw vt_tc vt_tu) = None) \<and>
      (kw_VideoEditTask_status vt_kw = None \<longrightarrow>
        obj_VideoEditTask_status (VideoEditTask_init vt_kw vt_tc vt_tu) = VideoStatus_value VideoStatus_UPLOADED) \<and>
      (kw_VideoEditTask_completed_at vt_kw = None \<longrightarrow> obj_VideoEditTask_completed_at (VideoEditTask_init vt_kw vt_tc vt_tu) = None) \<and>
      (kw_VideoEditTask_edit_parameters vt_kw = None \<longrightarrow> obj_VideoEditTask_edit_parameters (VideoEditTask_init vt_kw vt_tc vt_tu) = JObj []) \<and>
      (kw_VideoEditTask_output_file_path vt_kw = None \<longrightarrow> obj_VideoEditTask_output_file_path (VideoEditTask_init vt_kw vt_tc vt_tu) = None) \<and>
      (kw_VideoEditTask_processing_log vt_kw = None \<longrightarrow> obj_VideoEditTask_processing_log (VideoEditTask_init vt_kw vt_tc vt_tu) = '''') \<and>
      (kw_VideoEditTask_error_message vt_kw = None \<longrightarrow> obj_VideoEditTask_error_message (VideoEditTask_init vt_kw vt_tc vt_tu) = None) \<and>
      (kw_VideoEditTask_progress_percentage vt_kw = None \<longrightarrow> obj_VideoEditTask_progress_percentage (VideoEditTask_init vt_kw vt_tc vt_tu) = 0))"
  by (rule conjI [OF UserCreate_defaults conjI [OF ChatSessionCreate_defaults conjI [OF ChatMessageCreate_defaults conjI [OF SearchQueryCreate_defaults conjI [OF VideoProjectCreate_defaults conjI [OF VideoEditTaskCreate_defaults conjI [OF UserCreate_init_defaults conjI [OF ChatSessionCreate_init_defaults conjI [OF ChatMessageCreate_init_defaults conjI [OF SearchQueryCreate_init_defaults conjI [OF VideoProjectCreate_init_defaults VideoEditTaskCreate_init_defaults]]]]]]]]]]])

theorem create_defaults_witness:
  "(case User_model_validate sample_User_kwargs 5 6 of
      Inl errs \<Rightarrow> False
    | Inr u \<Rightarrow>
        User_storage_quota u = 5368709120 \<and>
        User_storage_used u = 0 \<and>
        User_is_active u = True) \<and>
   (case ChatSession_model_validate sample_ChatSession_kwargs 5 6 of
      Inl errs \<Rightarrow> False
    | Inr cs \<Rightarrow>
        ChatSession_ai_model cs = ''gpt-3.5-turbo'' \<and>
        ChatSession_temperature cs = 7 / 10) \<and>
   (case ChatMessage_model_validate sample_ChatMessage_kwargs 5 of
      Inl errs \<Rightarrow> False
    | Inr cm \<Rightarrow>
        ChatMessage_message_metadata cm = JObj []) \<and>
   (case SearchQuery_model_validate sample_SearchQuery_kwargs 5 6 of
      Inl errs \<Rightarrow> False
    | Inr sq \<Rightarrow>
        SearchQuery_search_engines sq = [''google'']) \<and>
   (case VideoProject_model_validate sample_VideoProject_kwargs 5 6 of
      Inl errs \<Rightarrow> False
    | Inr vp \<Rightarrow>
        VideoProject_description vp = '''') \<and>
   (case VideoEditTask_model_validate sample_VideoEditTask_kwargs 5 6 of
      Inl errs \<Rightarrow> False
    | Inr vt \<Rightarrow>
        VideoEditTask_status vt = VideoStatus_UPLOADED \<and>
        VideoEditTask_progress_percentage vt = 0) \<and>
   (obj_User_storage_quota (User_init sample_User_kwargs 5 6) = 5368709120 \<and>
    obj_User_storage_used (User_init sample_User_kwargs 5 6) = 0 \<and>
    obj_User_is_active (User_init sample_User_kwargs 5 6) = True) \<and>
   (obj_ChatSession_ai_model (ChatSession_init sample_ChatSession_kwargs 5 6) = ''gpt-3.5-turbo'' \<and>
    obj_ChatSession_temperature (ChatSession_init sample_ChatSession_kwargs 5 6) = 7 / 10) \<and>
   (obj_ChatMessage_message_metadata (ChatMessage_init sample_ChatMessage_kwargs 5) = JObj []) \<and>
   (obj_SearchQuery_search_engines (SearchQuery_init sample_SearchQuery_kwargs 5 6) = [''google'']) \<and>
   (obj_VideoProject_description (VideoProject_init sample_VideoProject_kwargs 5 6) = '''') \<and>
   (obj_VideoEditTask_status (VideoEditTask_init sample_VideoEditTask_kwargs 5 6) = ''uploaded'' \<and>
    obj_VideoEditTask_progress_percentage (VideoEditTask_init sample_VideoEditTask_kwargs 5 6) = 0)"
proof -
  obtain uc where uc: "UserCreate_validate sample_UserCreate_kwargs = Inr uc"
    by (simp add: UserCreate_validate_def UserCreate_errors_def check_defs
        sample_UserCreate_kwargs_def)
  obtain u where u: "User_model_validate sample_User_kwargs 5 6 = Inr u"
    by (simp add: User_model_validate_def User_errors_def check_defs
        sample_User_kwargs_def)
  obtain csc where csc: "ChatSessionCreate_validate sample_ChatSessionCreate_kwargs = Inr csc"
    by (simp add: ChatSessionCreate_validate_def ChatSessionCreate_errors_def check_defs
        sample_ChatSessionCreate_kwargs_def)
  obtain cs where cs: "ChatSession_model_validate sample_ChatSession_kwargs 5 6 = Inr cs"
    by (simp add: ChatSession_model_validate_def ChatSession_errors_def check_defs
        sample_ChatSession_kwargs_def)
  obtain cmc where cmc: "ChatMessageCreate_validate sample_ChatMessageCreate_kwargs = Inr cmc"
    by (simp add: ChatMessageCreate_validate_def ChatMessageCreate_errors_def check_defs
        sample_ChatMessageCreate_kwargs_def ChatMessageRole_members_def)
  obtain cm where cm: "ChatMessage_model_validate sample_ChatMessage_kwargs 5 = Inr cm"
    by (simp add: ChatMessage_model_validate_def ChatMessage_errors_def check_defs
        sample_ChatMessage_kwargs_def ChatMessageRole_members_def)
  obtain sqc where sqc: "SearchQueryCreate_validate sample_SearchQueryCreate_kwargs = Inr sqc"
    by (simp add: SearchQueryCreate_validate_def SearchQueryCreate_errors_def check_defs
        sample_SearchQueryCreate_kwargs_def)
  obtain sq where sq: "SearchQuery_model_validate sample_SearchQuery_kwargs 5 6 = Inr sq"
    by (simp add: SearchQuery_model_validate_def SearchQuery_errors_def check_defs
        sample_SearchQuery_kwargs_def)
  obtain vpc where vpc: "VideoProjectCreate_validate sample_VideoProjectCreate_kwargs = Inr vpc"
    by (simp add: VideoProjectCreate_validate_def VideoProjectCreate_errors_def check_defs
        sample_VideoProjectCreate_kwargs_def)
  obtain vp where vp: "VideoProject_model_validate sample_VideoProject_kwargs 5 6 = Inr vp"
    by (simp add: VideoProject_model_validate_def VideoProject_errors_def check_defs
        sample_VideoProject_kwargs_def)
  obtain vtc where vtc: "VideoEditTaskCreate_validate sample_VideoEditTaskCreate_kwargs = Inr vtc"
    by (simp add: VideoEditTaskCreate_validate_def VideoEditTaskCreate_errors_def check_defs
        sample_VideoEditTaskCreate_kwargs_def VideoEditType_members_def)
  obtain vt where vt: "VideoEditTask_model_validate sample_VideoEditTask_kwargs 5 6 = Inr vt"
    by (simp add: VideoEditTask_model_validate_def VideoEditTask_errors_def check_defs
        sample_VideoEditTask_kwargs_def VideoEditType_members_def)
  note th = create_defaults
    [where uc_kw = sample_UserCreate_kwargs
      and uc = uc
      and u_kw = sample_User_kwargs
      and u = u
      and u_tc = 5
      and u_tu = 6
      and csc_kw = sample_ChatSessionCreate_kwargs
      and csc = csc
      and cs_kw = sample_ChatSession_kwargs
      and cs = cs
      and cs_tc = 5
      and cs_tu = 6
      and cmc_kw = sample_ChatMessageCreate_kwargs
      and cmc = cmc
      and cm_kw = sample_ChatMessage_kwargs
      and cm = cm
      and cm_tc = 5
      and sqc_kw = sample_SearchQueryCreate_kwargs
      and sqc = sqc
      and sq_kw = sample_SearchQuery_kwargs
      and sq = sq
      and sq_tc = 5
      and sq_tu = 6
      and vpc_kw = sample_VideoProjectCreate_kwargs
      and vpc = vpc
      and vp_kw = sample_VideoProject_kwargs
      and vp = vp
      and vp_tc = 5
      and vp_tu = 6
      and vtc_kw = sample_VideoEditTaskCreate_kwargs
      and vtc = vtc
      and vt_kw = sample_VideoEditTask_kwargs
      and vt = vt
      and vt_tc = 5
      and vt_tu = 6]
  have f0: "User_storage_quota u = 5368709120 \<and> User_storage_used u = 0 \<and> User_is_active u = True"
    using th [THEN conjunct1] uc u
    by (simp add: sample_UserCreate_kwargs_def sample_User_kwargs_def)
  have f1: "ChatSession_ai_model cs = ''gpt-3.5-turbo'' \<and> ChatSession_temperature cs = 7 / 10"
    using th [THEN conjunct2, THEN conjunct1] csc cs
    by (simp add: sample_ChatSessionCreate_kwargs_def sample_ChatSession_kwargs_def)
  have f2: "ChatMessage_message_metadata cm = JObj []"
    using th [THEN conjunct2, THEN conjunct2, THEN conjunct1] cmc cm
    by (simp add: sample_ChatMessageCreate_kwargs_def sample_ChatMessage_kwargs_def)
  have f3: "SearchQuery_search_engines sq = [''google'']"
    using th [THEN conjunct2, THEN conjunct2, THEN conjunct2, THEN conjunct1] sqc sq
    by (simp add: sample_SearchQueryCreate_kwargs_def sample_SearchQuery_kwargs_def)
  have f4: "VideoProject_description vp = ''''"
    using th [THEN conjunct2, THEN conjunct2, THEN conjunct2, THEN conjunct2, THEN conjunct1] vpc vp
    by (simp add: sample_VideoProjectCreate_kwargs_def sample_VideoProject_kwargs_def)
  have f5: "VideoEditTask_status vt = VideoStatus_UPLOADED \<and> VideoEditTask_progress_percentage vt = 0"
    using th [THEN conjunct2, THEN conjunct2, THEN conjunct2, THEN conjunct2, THEN conjunct2, THEN conjunct1] vtc vt
    by (simp add: sample_VideoEditTaskCreate_kwargs_def sample_VideoEditTask_kwargs_def)
  have g0: "obj_User_storage_quota (User_init sample_User_kwargs 5 6) = 5368709120 \<and>
      obj_User_storage_used (User_init sample_User_kwargs 5 6) = 0 \<and>
      obj_User_is_active (User_init sample_User_kwargs 5 6) = True"
    using th [THEN conjunct2, THEN conjunct2, THEN conjunct2, THEN conjunct2, THEN conjunct2, THEN conjunct2, THEN conjunct1] uc
    by (simp add: sample_UserCreate_kwargs_def sample_User_kwargs_def)
  have g1: "obj_ChatSession_ai_model (ChatSession_init sample_ChatSession_kwargs 5 6) = ''gpt-3.5-turbo'' \<and>
      obj_ChatSession_temperature (ChatSession_init sample_ChatSession_kwargs 5 6) = 7 / 10"
    using th [THEN conjunct2, THEN conjunct2, THEN conjunct2, THEN conjunct2, THEN conjunct2, THEN conjunct2, THEN conjunct2, THEN conjunct1] csc
    by (simp add: sample_ChatSessionCreate_kwargs_def sample_ChatSession_kwargs_def)
  have g2: "obj_ChatMessage_message_metadata (ChatMessage_init sample_ChatMessage_kwargs 5) = JObj []"
    using th [THEN conjunct2, THEN conjunct2, THEN conjunct2, THEN conjunct2, THEN conjunct2, THEN conjunct2, THEN conjunct2, THEN conjunct2, THEN conjunct1] cmc
    by (simp add: sample_ChatMessageCreate_kwargs_def sample_ChatMessage_kwargs_def)
  have g3: "obj_SearchQuery_search_engines (SearchQuery_init sample_SearchQuery_kwargs 5 6) = [''google'']"
    using th [THEN conjunct2, THEN conjunct2, THEN conjunct2, THEN conjunct2, THEN conjunct2, THEN conjunct2, THEN conjunct2, THEN conjunct2, THEN conjunct2, THEN conjunct1] sqc
    by (simp add: sample_SearchQueryCreate_kwargs_def sample_SearchQuery_kwargs_def)
  have g4: "obj_VideoProject_description (VideoProject_init sample_VideoProject_kwargs 5 6) = ''''"
    using th [THEN conjunct2, THEN conjunct2, THEN conjunct2, THEN conjunct2, THEN conjunct2, THEN conjunct2, THEN conjunct2, THEN conjunct2, THEN conjunct2, THEN conjunct2, THEN conjunct1] vpc
    by (simp add: sample_VideoProjectCreate_kwargs_def sample_VideoProject_kwargs_def)
  have g5: "obj_VideoEditTask_status (VideoEditTask_init sample_VideoEditTask_kwargs 5 6) = ''uploaded'' \<and>
      obj_VideoEditTask_progress_percentage (VideoEditTask_init sample_VideoEditTask_kwargs 5 6) = 0"
    using th [THEN conjunct2, THEN conjunct2, THEN conjunct2, THEN conjunct2, THEN conjunct2, THEN conjunct2, THEN conjunct2, THEN conjunct2, THEN conjunct2, THEN conjunct2, THEN conjunct2] vtc
    by (simp add: sample_VideoEditTaskCreate_kwargs_def sample_VideoEditTask_kwargs_def)
  show ?thesis
    unfolding u cs cm sq vp vt
    using f0 f1 f2 f3 f4 f5 g0 g1 g2 g3 g4 g5 by simp
qed

subsection \<open>Fields without bounds\<close>

lemma User_errors_storage_quota:
  "User_errors (kw\<lparr>kw_User_storage_quota := v\<rparr>) = User_errors kw"
  by (simp add: User_errors_def)

lemma User_storage_quota_unbounded:
  "(User_model_validate u_kw u_tc u_tu = Inr u \<longrightarrow>
      User_model_validate (u_kw\<lparr>kw_User_storage_quota := Some n\<rparr>) u_tc u_tu =
        Inr (u\<lparr>User_storage_quota := n\<rparr>))"
  by (auto simp: User_model_validate_def User_errors_storage_quota with_default_def
      split: if_splits option.splits)

lemma User_errors_storage_used:
  "User_errors (kw\<lparr>kw_User_storage_used := v\<rparr>) = User_errors kw"
  by (simp add: User_errors_def)

lemma User_storage_used_unbounded:
  "(User_model_validate u_kw u_tc u_tu = Inr u \<longrightarrow>
      User_model_validate (u_kw\<lparr>kw_User_storage_used := Some n\<rparr>) u_tc u_tu =
        Inr (u\<lparr>User_storage_used := n\<rparr>))"
  by (auto simp: User_model_validate_def User_errors_storage_used with_default_def
      split: if_splits option.splits)

lemma SearchQuery_errors_max_results:
  "SearchQuery_errors (kw\<lparr>kw_SearchQuery_max_results := v\<rparr>) = SearchQuery_errors kw"
  by (simp add: SearchQuery_errors_def)

lemma SearchQuery_max_results_unbounded:
  "(SearchQuery_model_validate sq_kw sq_tc sq_tu = Inr sq \<longrightarrow>
      SearchQuery_model_validate (sq_kw\<lparr>kw_SearchQuery_max_results := Some n\<rparr>) sq_tc sq_tu =
        Inr (sq\<lparr>SearchQuery_max_results := n\<rparr>))"
  by (auto simp: SearchQuery_model_validate_def SearchQuery_errors_max_results with_default_def
      split: if_splits option.splits)

lemma ChatSession_errors_max_tokens:
  "ChatSession_errors (kw\<lparr>kw_ChatSession_max_tokens := v\<rparr>) = ChatSession_errors kw"
  by (simp add: ChatSession_errors_def)

lemma ChatSession_max_tokens_unbounded:
  "(ChatSession_model_validate cs_kw cs_tc cs_tu = Inr cs \<longrightarrow>
      ChatSession_model_validate (cs_kw\<lparr>kw_ChatSession_max_tokens := Some n\<rparr>) cs_tc cs_tu =
        Inr (cs\<lparr>ChatSession_max_tokens := n\<rparr>))"
  by (auto simp: ChatSession_model_validate_def ChatSession_errors_max_tokens with_default_def
      split: if_splits option.splits)

lemma VideoEditTask_errors_progress_percentage:
  "VideoEditTask_errors (kw\<lparr>kw_VideoEditTask_progress_percentage := v\<rparr>) = VideoEditTask_errors kw"
  by (simp add: VideoEditTask_errors_def)

lemma VideoEditTask_progress_percentage_unbounded:
  "(VideoEditTask_model_validate vt_kw vt_tc vt_tu = Inr vt \<longrightarrow>
      VideoEditTask_model_validate (vt_kw\<lparr>kw_VideoEditTask_progress_percentage := Some q\<rparr>) vt_tc vt_tu =
        Inr (vt\<lparr>VideoEditTask_progress_percentage := q\<rparr>))"
  by (auto simp: VideoEditTask_model_validate_def VideoEditTask_errors_progress_percentage with_default_def
      split: if_splits option.splits)

lemma UserCreate_errors_storage_quota:
  "UserCreate_errors (kw\<lparr>kw_UserCreate_storage_quota := v\<rparr>) = UserCreate_errors kw"
  by (simp add: UserCreate_errors_def)

lemma UserCreate_storage_quota_unbounded:
  "(UserCreate_validate uc_kw = Inr uc \<longrightarrow>
      UserCreate_validate (uc_kw\<lparr>kw_UserCreate_storage_quota := Some (Some n)\<rparr>) =
        Inr (uc\<lparr>UserCreate_storage_quota := Some n\<rparr>))"
  by (auto simp: UserCreate_validate_def UserCreate_errors_storage_quota with_default_def
      split: if_splits option.splits)

lemma UserUpdate_errors_storage_quota:
  "UserUpdate_errors (kw\<lparr>kw_UserUpdate_storage_quota := v\<rparr>) = UserUpdate_errors kw"
  by (simp add: UserUpdate_errors_def)

lemma UserUpdate_storage_quota_unbounded:
  "(UserUpdate_validate uu_kw = Inr uu \<longrightarrow>
      UserUpdate_validate (uu_kw\<lparr>kw_UserUpdate_storage_quota := Some (Some n)\<rparr>) =
        Inr (uu\<lparr>UserUpdate_storage_quota := Some (Some n)\<rparr>))"
  by (auto simp: UserUpdate_validate_def UserUpdate_errors_storage_quota with_default_def
      split: if_splits option.splits)

lemma SearchQueryCreate_errors_max_results:
  "SearchQueryCreate_errors (kw\<lparr>kw_SearchQueryCreate_max_results := v\<rparr>) = SearchQueryCreate_errors kw"
  by (simp add: SearchQueryCreate_errors_def)

lemma SearchQueryCreate_max_results_unbounded:
  "(SearchQueryCreate_validate sqc_kw = Inr sqc \<longrightarrow>
      SearchQueryCreate_validate (sqc_kw\<lparr>kw_SearchQueryCreate_max_results := Some (Some n)\<rparr>) =
        Inr (sqc\<lparr>SearchQueryCreate_max_results := Some n\<rparr>))"
  by (auto simp: SearchQueryCreate_validate_def SearchQueryCreate_errors_max_results with_default_def
      split: if_splits option.splits)

lemma ChatSessionCreate_errors_max_tokens:
  "ChatSessionCreate_errors (kw\<lparr>kw_ChatSessionCreate_max_tokens := v\<rparr>) = ChatSessionCreate_errors kw"
  by (simp add: ChatSessionCreate_errors_def)

lemma ChatSessionCreate_max_tokens_unbounded:
  "(ChatSessionCreate_validate csc_kw = Inr csc \<longrightarrow>
      ChatSessionCreate_validate (csc_kw\<lparr>kw_ChatSessionCreate_max_tokens := Some (Some n)\<rparr>) =
        Inr (csc\<lparr>ChatSessionCreate_max_tokens := Some n\<rparr>))"
  by (auto simp: ChatSessionCreate_validate_def ChatSessionCreate_errors_max_tokens with_default_def
      split: if_splits option.splits)

lemma ChatSessionUpdate_errors_max_tokens:
  "ChatSessionUpdate_errors (kw\<lparr>kw_ChatSessionUpdate_max_tokens := v\<rparr>) = ChatSessionUpdate_errors kw"
  by (simp add: ChatSessionUpdate_errors_def)

lemma ChatSessionUpdate_max_tokens_unbounded:
  "(ChatSessionUpdate_validate csu_kw = Inr csu \<longrightarrow>
      ChatSessionUpdate_validate (csu_kw\<lparr>kw_ChatSessionUpdate_max_tokens := Some (Some n)\<rparr>) =
        Inr (csu\<lparr>ChatSessionUpdate_max_tokens := Some (Some n)\<rparr>))"
  by (auto simp: ChatSessionUpdate_validate_def ChatSessionUpdate_errors_max_tokens with_default_def
      split: if_splits option.splits)

lemma VideoEditTaskUpdate_errors_progress_percentage:
  "VideoEditTaskUpdate_errors (kw\<lparr>kw_VideoEditTaskUpdate_progress_percentage := v\<rparr>) = VideoEditTaskUpdate_errors kw"
  by (simp add: VideoEditTaskUpdate_errors_def)

lemma VideoEditTaskUpdate_progress_percentage_unbounded:
  "(VideoEditTaskUpdate_validate vtu_kw = Inr vtu \<longrightarrow>
      VideoEditTaskUpdate_validate (vtu_kw\<lparr>kw_VideoEditTaskUpdate_progress_percentage := Some (Some q)\<rparr>) =
        Inr (vtu\<lparr>VideoEditTaskUpdate_progress_percentage := Some (Some q)\<rparr>))"
  by (auto simp: VideoEditTaskUpdate_validate_def VideoEditTaskUpdate_errors_progress_percentage with_default_def
      split: if_splits option.splits)

lemma User_init_storage_quota:
  "obj_User_storage_quota
      (User_init (u_kw\<lparr>kw_User_storage_quota := Some n\<rparr>) u_tc u_tu) = n"
  by (simp add: User_init_def with_default_def)

lemma User_init_storage_used:
  "obj_User_storage_used
      (User_init (u_kw\<lparr>kw_User_storage_used := Some n\<rparr>) u_tc u_tu) = n"
  by (simp add: User_init_def with_default_def)

lemma SearchQuery_init_max_results:
  "obj_SearchQuery_max_results
      (SearchQuery_init (sq_kw\<lparr>kw_SearchQuery_max_results := Some n\<rparr>) sq_tc sq_tu) = n"
  by (simp add: SearchQuery_init_def with_default_def)

lemma ChatSession_init_max_tokens:
  "obj_ChatSession_max_tokens
      (ChatSession_init (cs_kw\<lparr>kw_ChatSession_max_tokens := Some n\<rparr>) cs_tc cs_tu) = n"
  by (simp add: ChatSession_init_def with_default_def)

lemma VideoEditTask_init_progress_percentage:
  "obj_VideoEditTask_progress_percentage
      (VideoEditTask_init (vt_kw\<lparr>kw_VideoEditTask_progress_percentage := Some q\<rparr>) vt_tc vt_tu) = q"
  by (simp add: VideoEditTask_init_def with_default_def)

text \<open>
  Claim C10. No bound is declared on \<^verbatim>\<open>User.storage_quota\<close>, \<^verbatim>\<open>User.storage_used\<close>,
  \<^verbatim>\<open>SearchQuery.max_results\<close>, \<^verbatim>\<open>ChatSession.max_tokens\<close> and
  \<^verbatim>\<open>VideoEditTask.progress_percentage\<close>: in a call that validates, the field may be replaced
  by any integer (any decimal for \<^verbatim>\<open>progress_percentage\<close>), negative ones and those above
  100 included; the call still validates, and the instance holds that value. The same
  holds for these fields in the Create and Update shapes that carry them (in an Update
  shape \<open>Some (Some n)\<close> is the field set to \<open>n\<close>). The constructor of the table class
  checks nothing, and the object that it returns holds the value as well.
\<close>

theorem unconstrained_fields_accept_every_value:
  "(User_model_validate u_kw u_tc u_tu = Inr u \<longrightarrow>
      User_model_validate (u_kw\<lparr>kw_User_storage_quota := Some n\<rparr>) u_tc u_tu =
        Inr (u\<lparr>User_storage_quota := n\<rparr>)) \<and>
   (User_model_validate u_kw u_tc u_tu = Inr u \<longrightarrow>
      User_model_validate (u_kw\<lparr>kw_User_storage_used := Some n\<rparr>) u_tc u_tu =
        Inr (u\<lparr>User_storage_used := n\<rparr>)) \<and>
   (SearchQuery_model_validate sq_kw sq_tc sq_tu = Inr sq \<longrightarrow>
      SearchQuery_model_validate (sq_kw\<lparr>kw_SearchQuery_max_results := Some n\<rparr>) sq_tc sq_tu =
        Inr (sq\<lparr>SearchQuery_max_results := n\<rparr>)) \<and>
   (ChatSession_model_validate cs_kw cs_tc cs_tu = Inr cs \<longrightarrow>
      ChatSession_model_validate (cs_kw\<lparr>kw_ChatSession_max_tokens := Some n\<rparr>) cs_tc cs_tu =
        Inr (cs\<lparr>ChatSession_max_tokens := n\<rparr>)) \<and>
   (VideoEditTask_model_validate vt_kw vt_tc vt_tu = Inr vt \<longrightarrow>
      VideoEditTask_model_validate (vt_kw\<lparr>kw_VideoEditTask_progress_percentage := Some q\<rparr>) vt_tc vt_tu =
        Inr (vt\<lparr>VideoEditTask_progress_percentage := q\<rparr>)) \<and>
   (UserCreate_validate uc_kw = Inr uc \<longrightarrow>
      UserCreate_validate (uc_kw\<lparr>kw_UserCreate_storage_quota := Some (Some n)\<rparr>) =
        Inr (uc\<lparr>UserCreate_storage_quota := Some n\<rparr>)) \<and>
   (UserUpdate_validate uu_kw = Inr uu \<longrightarrow>
      UserUpdate_validate (uu_kw\<lparr>kw_UserUpdate_storage_quota := Some (Some n)\<rparr>) =
        Inr (uu\<lparr>UserUpdate_storage_quota := Some (Some n)\<rparr>)) \<and>
   (SearchQueryCreate_validate sqc_kw = Inr sqc \<longrightarrow>
      SearchQueryCreate_validate (sqc_kw\<lparr>kw_SearchQueryCreate_max_results := Some (Some n)\<rparr>) =
        Inr (sqc\<lparr>SearchQueryCreate_max_results := Some n\<rparr>)) \<and>
   (ChatSessionCreate_validate csc_kw = Inr csc \<longrightarrow>
      ChatSessionCreate_validate (csc_kw\<lparr>kw_ChatSessionCreate_max_tokens := Some (Some n)\<rparr>) =
        Inr (csc\<lparr>ChatSessionCreate_max_tokens := Some n\<rparr>)) \<and>
   (ChatSessionUpdate_validate csu_kw = Inr csu \<longrightarrow>
      ChatSessionUpdate_validate (csu_kw\<lparr>kw_ChatSessionUpdate_max_tokens := Some (Some n)\<rparr>) =
        Inr (csu\<lparr>ChatSessionUpdate_max_tokens := Some (Some n)\<rparr>)) \<and>
   (VideoEditTaskUpdate_validate vtu_kw = Inr vtu \<longrightarrow>
      VideoEditTaskUpdate_validate (vtu_kw\<lparr>kw_VideoEditTaskUpdate_progress_percentage := Some (Some q)\<rparr>) =
        Inr (vtu\<lparr>VideoEditTaskUpdate_progress_percentage := Some (Some q)\<rparr>)) \<and>
   obj_User_storage_quota
      (User_init (u_kw\<lparr>kw_User_storage_quota := Some n\<rparr>) u_tc u_tu) = n \<and>
   obj_User_storage_used
      (User_init (u_kw\<lparr>kw_User_storage_used := Some n\<rparr>) u_tc u_tu) = n \<and>
   obj_SearchQuery_max_results
      (SearchQuery_init (sq_kw\<lparr>kw_SearchQuery_max_results := Some n\<rparr>) sq_tc sq_tu) = n \<and>
   obj_ChatSession_max_tokens
      (ChatSession_init (cs_kw\<lparr>kw_ChatSession_max_tokens := Some n\<rparr>) cs_tc cs_tu) = n \<and>
   obj_VideoEditTask_progress_percentage
      (VideoEditTask_init (vt_kw\<lparr>kw_VideoEditTask_progress_percentage := Some q\<rparr>) vt_tc vt_tu) = q"
  by (rule conjI [OF User_storage_quota_unbounded conjI [OF User_storage_used_unbounded conjI [OF SearchQuery_max_results_unbounded conjI [OF ChatSession_max_tokens_unbounded conjI [OF VideoEditTask_progress_percentage_unbounded conjI [OF UserCreate_storage_quota_unbounded conjI [OF UserUpdate_storage_quota_unbounded conjI [OF SearchQueryCreate_max_results_unbounded conjI [OF ChatSessionCreate_max_tokens_unbounded conjI [OF ChatSessionUpdate_max_tokens_unbounded conjI [OF VideoEditTaskUpdate_progress_percentage_unbounded conjI [OF User_init_storage_quota conjI [OF User_init_storage_used conjI [OF SearchQuery_init_max_results conjI [OF ChatSession_init_max_tokens VideoEditTask_init_progress_percentage]]]]]]]]]]]]]]])

theorem unconstrained_fields_accept_every_value_witness:
  "(case User_model_validate (sample_User_kwargs\<lparr>kw_User_storage_quota := Some (- 5)\<rparr>) 5 6 of
      Inl errs \<Rightarrow> False
    | Inr x \<Rightarrow> User_storage_quota x = - 5) \<and>
   (case User_model_validate (sample_User_kwargs\<lparr>kw_User_storage_used := Some (- 5)\<rparr>) 5 6 of
      Inl errs \<Rightarrow> False
    | Inr x \<Rightarrow> User_storage_used x = - 5) \<and>
   (case SearchQuery_model_validate (sample_SearchQuery_kwargs\<lparr>kw_SearchQuery_max_results := Some (- 5)\<rparr>) 5 6 of
      Inl errs \<Rightarrow> False
    | Inr x \<Rightarrow> SearchQuery_max_results x = - 5) \<and>
   (case ChatSession_model_validate (sample_ChatSession_kwargs\<lparr>kw_ChatSession_max_tokens := Some (- 5)\<rparr>) 5 6 of
      Inl errs \<Rightarrow> False
    | Inr x \<Rightarrow> ChatSession_max_tokens x = - 5) \<and>
   (case VideoEditTask_model_validate (sample_VideoEditTask_kwargs\<lparr>kw_VideoEditTask_progress_percentage := Some 250\<rparr>) 5 6 of
      Inl errs \<Rightarrow> False
    | Inr x \<Rightarrow> VideoEditTask_progress_percentage x = 250) \<and>
   (case UserCreate_validate (sample_UserCreate_kwargs\<lparr>kw_UserCreate_storage_quota := Some (Some (- 5))\<rparr>) of
      Inl errs \<Rightarrow> False
    | Inr x \<Rightarrow> UserCreate_storage_quota x = Some (- 5)) \<and>
   (case UserUpdate_validate (sample_UserUpdate_kwargs\<lparr>kw_UserUpdate_storage_quota := Some (Some (- 5))\<rparr>) of
      Inl errs \<Rightarrow> False
    | Inr x \<Rightarrow> UserUpdate_storage_quota x = Some (Some (- 5))) \<and>
   (case SearchQueryCreate_validate (sample_SearchQueryCreate_kwargs\<lparr>kw_SearchQueryCreate_max_results := Some (Some (- 5))\<rparr>) of
      Inl errs \<Rightarrow> False
    | Inr x \<Rightarrow> SearchQueryCreate_max_results x = Some (- 5)) \<and>
   (case ChatSessionCreate_validate (sample_ChatSessionCreate_kwargs\<lparr>kw_ChatSessionCreate_max_tokens := Some (Some (- 5))\<rparr>) of
      Inl errs \<Rightarrow> False
    | Inr x \<Rightarrow> ChatSessionCreate_max_tokens x = Some (- 5)) \<and>
   (case ChatSessionUpdate_validate (sample_ChatSessionUpdate_kwargs\<lparr>kw_ChatSessionUpdate_max_tokens := Some (Some (- 5))\<rparr>) of
      Inl errs \<Rightarrow> False
    | Inr x \<Rightarrow> ChatSessionUpdate_max_tokens x = Some (Some (- 5))) \<and>
   (case VideoEditTaskUpdate_validate (sample_VideoEditTaskUpdate_kwargs\<lparr>kw_VideoEditTaskUpdate_progress_percentage := Some (Some 250)\<rparr>) of
      Inl errs \<Rightarrow> False
    | Inr x \<Rightarrow> VideoEditTaskUpdate_progress_percentage x = Some (Some 250)) \<and>
   obj_User_storage_quota
      (User_init (sample_User_kwargs\<lparr>kw_User_storage_quota := Some (- 5)\<rparr>) 5 6) = - 5 \<and>
   obj_User_storage_used
      (User_init (sample_User_kwargs\<lparr>kw_User_storage_used := Some (- 5)\<rparr>) 5 6) = - 5 \<and>
   obj_SearchQuery_max_results
      (SearchQuery_init (sample_SearchQuery_kwargs\<lparr>kw_SearchQuery_max_results := Some (- 5)\<rparr>) 5 6) = - 5 \<and>
   obj_ChatSession_max_tokens
      (ChatSession_init (sample_ChatSession_kwargs\<lparr>kw_ChatSession_max_tokens := Some (- 5)\<rparr>) 5 6) = - 5 \<and>
   obj_VideoEditTask_progress_percentage
      (VideoEditTask_init (sample_VideoEditTask_kwargs\<lparr>kw_VideoEditTask_progress_percentage := Some 250\<rparr>) 5 6) = 250"
proof -
  obtain u where u: "User_model_validate sample_User_kwargs 5 6 = Inr u"
    by (simp add: User_model_validate_def User_errors_def check_defs
        sample_User_kwargs_def)
  obtain sq where sq: "SearchQuery_model_validate sample_SearchQuery_kwargs 5 6 = Inr sq"
    by (simp add: SearchQuery_model_validate_def SearchQuery_errors_def check_defs
        sample_SearchQuery_kwargs_def)
  obtain cs where cs: "ChatSession_model_validate sample_ChatSession_kwargs 5 6 = Inr cs"
    by (simp add: ChatSession_model_validate_def ChatSession_errors_def check_defs
        sample_ChatSession_kwargs_def)
  obtain vt where vt: "VideoEditTask_model_validate sample_VideoEditTask_kwargs 5 6 = Inr vt"
    by (simp add: VideoEditTask_model_validate_def VideoEditTask_errors_def check_defs
        sample_VideoEditTask_kwargs_def VideoEditType_members_def)
  obtain uc where uc: "UserCreate_validate sample_UserCreate_kwargs = Inr uc"
    by (simp add: UserCreate_validate_def UserCreate_errors_def check_defs
        sample_UserCreate_kwargs_def)
  obtain uu where uu: "UserUpdate_validate sample_UserUpdate_kwargs = Inr uu"
    by (simp add: UserUpdate_validate_def UserUpdate_errors_def check_defs
        sample_UserUpdate_kwargs_def)
  obtain sqc where sqc: "SearchQueryCreate_validate sample_SearchQueryCreate_kwargs = Inr sqc"
    by (simp add: SearchQueryCreate_validate_def SearchQueryCreate_errors_def check_defs
        sample_SearchQueryCreate_kwargs_def)
  obtain csc where csc: "ChatSessionCreate_validate sample_ChatSessionCreate_kwargs = Inr csc"
    by (simp add: ChatSessionCreate_validate_def ChatSessionCreate_errors_def check_defs
        sample_ChatSessionCreate_kwargs_def)
  obtain csu where csu: "ChatSessionUpdate_validate sample_ChatSessionUpdate_kwargs = Inr csu"
    by (simp add: ChatSessionUpdate_validate_def ChatSessionUpdate_errors_def check_defs
        sample_ChatSessionUpdate_kwargs_def)
  obtain vtu where vtu: "VideoEditTaskUpdate_validate sample_VideoEditTaskUpdate_kwargs = Inr vtu"
    by (simp add: VideoEditTaskUpdate_validate_def VideoEditTaskUpdate_errors_def check_defs
        sample_VideoEditTaskUpdate_kwargs_def VideoStatus_members_def)
  note th = unconstrained_fields_accept_every_value
    [where n = "- 5"
      and q = 250
      and u_kw = sample_User_kwargs
      and u = u
      and u_tc = 5
      and u_tu = 6
      and sq_kw = sample_SearchQuery_kwargs
      and sq = sq
      and sq_tc = 5
      and sq_tu = 6
      and cs_kw = sample_ChatSession_kwargs
      and cs = cs
      and cs_tc = 5
      and cs_tu = 6
      and vt_kw = sample_VideoEditTask_kwargs
      and vt = vt
      and vt_tc = 5
      and vt_tu = 6
      and uc_kw = sample_UserCreate_kwargs
      and uc = uc
      and uu_kw = sample_UserUpdate_kwargs
      and uu = uu
      and sqc_kw = sample_SearchQueryCreate_kwargs
      and sqc = sqc
      and csc_kw = sample_ChatSessionCreate_kwargs
      and csc = csc
      and csu_kw = sample_ChatSessionUpdate_kwargs
      and csu = csu
      and vtu_kw = sample_VideoEditTaskUpdate_kwargs
      and vtu = vtu]
  note e0 = th [THEN conjunct1, rule_format, OF u]
  note e1 = th [THEN conjunct2, THEN conjunct1, rule_format, OF u]
  note e2 = th [THEN conjunct2, THEN conjunct2, THEN conjunct1, rule_format, OF sq]
  note e3 = th [THEN conjunct2, THEN conjunct2, THEN conjunct2, THEN conjunct1, rule_format, OF cs]
  note e4 = th [THEN conjunct2, THEN conjunct2, THEN conjunct2, THEN conjunct2, THEN conjunct1, rule_format, OF vt]
  note e5 = th [THEN conjunct2, THEN conjunct2, THEN conjunct2, THEN conjunct2, THEN conjunct2, THEN conjunct1, rule_format, OF uc]
  note e6 = th [THEN conjunct2, THEN conjunct2, THEN conjunct2, THEN conjunct2, THEN conjunct2, THEN conjunct2, THEN conjunct1, rule_format, OF uu]
  note e7 = th [THEN conjunct2, THEN conjunct2, THEN conjunct2, THEN conjunct2, THEN conjunct2, THEN conjunct2, THEN conjunct2, THEN conjunct1, rule_format, OF sqc]
  note e8 = th [THEN conjunct2, THEN conjunct2, THEN conjunct2, THEN conjunct2, THEN conjunct2, THEN conjunct2, THEN conjunct2, THEN conjunct2, THEN conjunct1, rule_format, OF csc]
  note e9 = th [THEN conjunct2, THEN conjunct2, THEN conjunct2, THEN conjunct2, THEN conjunct2, THEN conjunct2, THEN conjunct2, THEN conjunct2, THEN conjunct2, THEN conjunct1, rule_format, OF csu]
  note e10 = th [THEN conjunct2, THEN conjunct2, THEN conjunct2, THEN conjunct2, THEN conjunct2, THEN conjunct2, THEN conjunct2, THEN conjunct2, THEN conjunct2, THEN conjunct2, THEN conjunct1, rule_format, OF vtu]
  note rest = th [THEN conjunct2, THEN conjunct2, THEN conjunct2, THEN conjunct2, THEN conjunct2, THEN conjunct2, THEN conjunct2, THEN conjunct2, THEN conjunct2, THEN conjunct2, THEN conjunct2]
  show ?thesis
    unfolding e0 e1 e2 e3 e4 e5 e6 e7 e8 e9 e10
    using rest by simp
qed

subsection \<open>\<^verbatim>\<open>completed_at\<close> and the status\<close>

lemma SearchQuery_errors_completed_at:
  "SearchQuery_errors (kw\<lparr>kw_SearchQuery_completed_at := c\<rparr>) = SearchQuery_errors kw"
  by (simp add: SearchQuery_errors_def)

lemma VideoEditTask_errors_completed_at:
  "VideoEditTask_errors (kw\<lparr>kw_VideoEditTask_completed_at := c\<rparr>) = VideoEditTask_errors kw"
  by (simp add: VideoEditTask_errors_def)

lemma SearchQuery_completed_at_free:
  "SearchQuery_model_validate kw tc tu = Inr x \<Longrightarrow>
   SearchQuery_model_validate (kw\<lparr>kw_SearchQuery_completed_at := c\<rparr>) tc tu =
     Inr (x\<lparr>SearchQuery_completed_at := c\<rparr>)"
  by (auto simp: SearchQuery_model_validate_def SearchQuery_errors_completed_at
      split: if_splits option.splits)

lemma VideoEditTask_completed_at_free:
  "VideoEditTask_model_validate kw tc tu = Inr x \<Longrightarrow>
   VideoEditTask_model_validate (kw\<lparr>kw_VideoEditTask_completed_at := c\<rparr>) tc tu =
     Inr (x\<lparr>VideoEditTask_completed_at := c\<rparr>)"
  by (auto simp: VideoEditTask_model_validate_def VideoEditTask_errors_completed_at
      split: if_splits option.splits)

lemma SearchQuery_init_completed_at:
  "obj_SearchQuery_completed_at (SearchQuery_init sq_kw sq_tc sq_tu) =
     kw_SearchQuery_completed_at sq_kw \<and>
   (kw_SearchQuery_status sq_kw = None \<longrightarrow>
      obj_SearchQuery_status (SearchQuery_init sq_kw sq_tc sq_tu) =
        SearchStatus_value SearchStatus_PENDING)"
  by (simp add: SearchQuery_init_def with_default_def)

lemma VideoEditTask_init_completed_at:
  "obj_VideoEditTask_completed_at (VideoEditTask_init vt_kw vt_tc vt_tu) =
     kw_VideoEditTask_completed_at vt_kw \<and>
   (kw_VideoEditTask_status vt_kw = None \<longrightarrow>
      obj_VideoEditTask_status (VideoEditTask_init vt_kw vt_tc vt_tu) =
        VideoStatus_value VideoStatus_UPLOADED)"
  by (simp add: VideoEditTask_init_def with_default_def)

lemma completed_at_validated:
  "(SearchQuery_model_validate sq_kw sq_tc sq_tu = Inr sq \<longrightarrow>
      SearchQuery_completed_at sq = kw_SearchQuery_completed_at sq_kw \<and>
      (kw_SearchQuery_status sq_kw = None \<longrightarrow> SearchQuery_status sq = SearchStatus_PENDING) \<and>
      SearchQuery_model_validate (sq_kw\<lparr>kw_SearchQuery_completed_at := c\<rparr>) sq_tc sq_tu =
        Inr (sq\<lparr>SearchQuery_completed_at := c\<rparr>)) \<and>
   (VideoEditTask_model_validate vt_kw vt_tc vt_tu = Inr vt \<longrightarrow>
      VideoEditTask_completed_at vt = kw_VideoEditTask_completed_at vt_kw \<and>
      (kw_VideoEditTask_status vt_kw = None \<longrightarrow> VideoEditTask_status vt = VideoStatus_UPLOADED) \<and>
      VideoEditTask_model_validate (vt_kw\<lparr>kw_VideoEditTask_completed_at := c\<rparr>) vt_tc vt_tu =
        Inr (vt\<lparr>VideoEditTask_completed_at := c\<rparr>))"
proof (intro conjI impI)
  assume v: "SearchQuery_model_validate sq_kw sq_tc sq_tu = Inr sq"
  note f = SearchQuery_model_validate_fields [OF v]
  from f show "SearchQuery_completed_at sq = kw_SearchQuery_completed_at sq_kw"
    by blast
  from v show "SearchQuery_model_validate (sq_kw\<lparr>kw_SearchQuery_completed_at := c\<rparr>) sq_tc sq_tu =
        Inr (sq\<lparr>SearchQuery_completed_at := c\<rparr>)"
    by (rule SearchQuery_completed_at_free)
  assume "kw_SearchQuery_status sq_kw = None"
  with f show "SearchQuery_status sq = SearchStatus_PENDING"
    by (simp add: enum_member_default_def)
next
  assume v: "VideoEditTask_model_validate vt_kw vt_tc vt_tu = Inr vt"
  note f = VideoEditTask_model_validate_fields [OF v]
  from f show "VideoEditTask_completed_at vt = kw_VideoEditTask_completed_at vt_kw"
    by blast
  from v show "VideoEditTask_model_validate (vt_kw\<lparr>kw_VideoEditTask_completed_at := c\<rparr>) vt_tc vt_tu =
        Inr (vt\<lparr>VideoEditTask_completed_at := c\<rparr>)"
    by (rule VideoEditTask_completed_at_free)
  assume "kw_VideoEditTask_status vt_kw = None"
  with f show "VideoEditTask_status vt = VideoStatus_UPLOADED"
    by (simp add: enum_member_default_def)
qed

text \<open>
  Claim C8, as amended. A \<^verbatim>\<open>SearchQuery\<close> or \<^verbatim>\<open>VideoEditTask\<close> holds the \<^verbatim>\<open>completed_at\<close>
  of the constructor call: null when the call omits it, and the status is then the
  default (\<^verbatim>\<open>pending\<close>, \<^verbatim>\<open>uploaded\<close>) when the call omits the status too. The schema does
  not relate \<^verbatim>\<open>completed_at\<close> to the status: in a call that validates, \<^verbatim>\<open>completed_at\<close>
  may be replaced by any value, null or not, whatever the status; the call still validates
  and the record holds that value. The first two parts are about the instance that
  \<^verbatim>\<open>model_validate\<close> returns, the last two about the object that the constructor call
  returns, which holds the \<^verbatim>\<open>completed_at\<close> of every call.
\<close>

theorem completed_at_is_independent_of_status:
  "(SearchQuery_model_validate sq_kw sq_tc sq_tu = Inr sq \<longrightarrow>
      SearchQuery_completed_at sq = kw_SearchQuery_completed_at sq_kw \<and>
      (kw_SearchQuery_status sq_kw = None \<longrightarrow> SearchQuery_status sq = SearchStatus_PENDING) \<and>
      SearchQuery_model_validate (sq_kw\<lparr>kw_SearchQuery_completed_at := c\<rparr>) sq_tc sq_tu =
        Inr (sq\<lparr>SearchQuery_completed_at := c\<rparr>)) \<and>
   (VideoEditTask_model_validate vt_kw vt_tc vt_tu = Inr vt \<longrightarrow>
      VideoEditTask_completed_at vt = kw_VideoEditTask_completed_at vt_kw \<and>
      (kw_VideoEditTask_status vt_kw = None \<longrightarrow> VideoEditTask_status vt = VideoStatus_UPLOADED) \<and>
      VideoEditTask_model_validate (vt_kw\<lparr>kw_VideoEditTask_completed_at := c\<rparr>) vt_tc vt_tu =
        Inr (vt\<lparr>VideoEditTask_completed_at := c\<rparr>)) \<and>
   (obj_SearchQuery_completed_at (SearchQuery_init sq_kw sq_tc sq_tu) =
      kw_SearchQuery_completed_at sq_kw \<and>
    (kw_SearchQuery_status sq_kw = None \<longrightarrow>
       obj_SearchQuery_status (SearchQuery_init sq_kw sq_tc sq_tu) =
         SearchStatus_value SearchStatus_PENDING)) \<and>
   (obj_VideoEditTask_completed_at (VideoEditTask_init vt_kw vt_tc vt_tu) =
      kw_VideoEditTask_completed_at vt_kw \<and>
    (kw_VideoEditTask_status vt_kw = None \<longrightarrow>
       obj_VideoEditTask_status (VideoEditTask_init vt_kw vt_tc vt_tu) =
         VideoStatus_value VideoStatus_UPLOADED))"
  using completed_at_validated [of sq_kw sq_tc sq_tu sq c vt_kw vt_tc vt_tu vt]
    SearchQuery_init_completed_at [of sq_kw sq_tc sq_tu]
    VideoEditTask_init_completed_at [of vt_kw vt_tc vt_tu]
  by blast

theorem completed_at_is_independent_of_status_witness:
  "(case SearchQuery_model_validate sample_SearchQuery_kwargs 5 6 of
      Inl errs \<Rightarrow> False
    | Inr x \<Rightarrow> SearchQuery_completed_at x = None \<and> SearchQuery_status x = SearchStatus_PENDING) \<and>
   (case SearchQuery_model_validate
        (sample_SearchQuery_kwargs\<lparr>kw_SearchQuery_completed_at := Some 7\<rparr>) 5 6 of
      Inl errs \<Rightarrow> False
    | Inr x \<Rightarrow> SearchQuery_completed_at x = Some 7) \<and>
   (case VideoEditTask_model_validate sample_VideoEditTask_kwargs 5 6 of
      Inl errs \<Rightarrow> False
    | Inr x \<Rightarrow> VideoEditTask_completed_at x = None \<and> VideoEditTask_status x = VideoStatus_UPLOADED) \<and>
   (case VideoEditTask_model_validate
        (sample_VideoEditTask_kwargs\<lparr>kw_VideoEditTask_completed_at := Some 7\<rparr>) 5 6 of
      Inl errs \<Rightarrow> False
    | Inr x \<Rightarrow> VideoEditTask_completed_at x = Some 7) \<and>
   obj_SearchQuery_completed_at (SearchQuery_init sample_SearchQuery_kwargs 5 6) = None \<and>
   obj_SearchQuery_status (SearchQuery_init sample_SearchQuery_kwargs 5 6) = ''pending'' \<and>
   obj_VideoEditTask_completed_at (VideoEditTask_init sample_VideoEditTask_kwargs 5 6) = None \<and>
   obj_VideoEditTask_status (VideoEditTask_init sample_VideoEditTask_kwargs 5 6) = ''uploaded''"
proof -
  obtain sq where sq: "SearchQuery_model_validate sample_SearchQuery_kwargs 5 6 = Inr sq"
    by (simp add: SearchQuery_model_validate_def SearchQuery_errors_def check_defs
        sample_SearchQuery_kwargs_def)
  obtain vt where vt: "VideoEditTask_model_validate sample_VideoEditTask_kwargs 5 6 = Inr vt"
    by (simp add: VideoEditTask_model_validate_def VideoEditTask_errors_def check_defs
        sample_VideoEditTask_kwargs_def VideoEditType_members_def)
  note th = completed_at_is_independent_of_status
    [where sq_kw = sample_SearchQuery_kwargs and sq_tc = 5 and sq_tu = 6 and sq = sq
      and vt_kw = sample_VideoEditTask_kwargs and vt_tc = 5 and vt_tu = 6 and vt = vt
      and c = "Some 7"]
  note a = th [THEN conjunct1, rule_format, OF sq]
  note b = th [THEN conjunct2, THEN conjunct1, rule_format, OF vt]
  note c = th [THEN conjunct2, THEN conjunct2, THEN conjunct1]
  note d = th [THEN conjunct2, THEN conjunct2, THEN conjunct2]
  have 1: "SearchQuery_completed_at sq = None \<and> SearchQuery_status sq = SearchStatus_PENDING"
    using a by (simp add: sample_SearchQuery_kwargs_def)
  have 2: "VideoEditTask_completed_at vt = None \<and> VideoEditTask_status vt = VideoStatus_UPLOADED"
    using b by (simp add: sample_VideoEditTask_kwargs_def)
  have 3: "obj_SearchQuery_completed_at (SearchQuery_init sample_SearchQuery_kwargs 5 6) = None \<and>
      obj_SearchQuery_status (SearchQuery_init sample_SearchQuery_kwargs 5 6) = ''pending''"
    using c by (simp add: sample_SearchQuery_kwargs_def)
  have 4: "obj_VideoEditTask_completed_at (VideoEditTask_init sample_VideoEditTask_kwargs 5 6) = None \<and>
      obj_VideoEditTask_status (VideoEditTask_init sample_VideoEditTask_kwargs 5 6) = ''uploaded''"
    using d by (simp add: sample_VideoEditTask_kwargs_def)
  show ?thesis
    unfolding a [THEN conjunct2, THEN conjunct2] b [THEN conjunct2, THEN conjunct2] sq vt
    using 1 2 3 4 by simp
qed

text \<open>
  The claim as stated fails: a \<^verbatim>\<open>SearchQuery\<close> with status \<^verbatim>\<open>pending\<close> and a
  \<^verbatim>\<open>VideoEditTask\<close> with status \<^verbatim>\<open>processing\<close>, both non-terminal, are constructed with a
  \<^verbatim>\<open>completed_at\<close> that is not null, by \<^verbatim>\<open>model_validate\<close> and by the constructor call.
\<close>

theorem completed_at_counterexample:
  "(case SearchQuery_model_validate
        (sample_SearchQuery_kwargs
           \<lparr>kw_SearchQuery_status := Some ''pending'', kw_SearchQuery_completed_at := Some 7\<rparr>) 5 6 of
      Inl errs \<Rightarrow> False
    | Inr x \<Rightarrow> SearchQuery_status x = SearchStatus_PENDING \<and> SearchQuery_completed_at x = Some 7) \<and>
   (case VideoEditTask_model_validate
        (sample_VideoEditTask_kwargs
           \<lparr>kw_VideoEditTask_status := Some ''processing'',
            kw_VideoEditTask_completed_at := Some 7\<rparr>) 5 6 of
      Inl errs \<Rightarrow> False
    | Inr x \<Rightarrow> VideoEditTask_status x = VideoStatus_PROCESSING \<and> VideoEditTask_completed_at x = Some 7) \<and>
   obj_SearchQuery_status
     (SearchQuery_init
        (sample_SearchQuery_kwargs
           \<lparr>kw_SearchQuery_status := Some ''pending'', kw_SearchQuery_completed_at := Some 7\<rparr>) 5 6) =
     ''pending'' \<and>
   obj_SearchQuery_completed_at
     (SearchQuery_init
        (sample_SearchQuery_kwargs
           \<lparr>kw_SearchQuery_status := Some ''pending'', kw_SearchQuery_completed_at := Some 7\<rparr>) 5 6) =
     Some 7 \<and>
   obj_VideoEditTask_status
     (VideoEditTask_init
        (sample_VideoEditTask_kwargs
           \<lparr>kw_VideoEditTask_status := Some ''processing'',
            kw_VideoEditTask_completed_at := Some 7\<rparr>) 5 6) =
     ''processing'' \<and>
   obj_VideoEditTask_completed_at
     (VideoEditTask_init
        (sample_VideoEditTask_kwargs
           \<lparr>kw_VideoEditTask_status := Some ''processing'',
            kw_VideoEditTask_completed_at := Some 7\<rparr>) 5 6) =
     Some 7"
  by (simp add: SearchQuery_model_validate_def SearchQuery_errors_def VideoEditTask_model_validate_def
      VideoEditTask_errors_def check_defs sample_SearchQuery_kwargs_def sample_VideoEditTask_kwargs_def
      SearchStatus_members_def VideoStatus_members_def VideoEditType_members_def
      SearchQuery_init_def VideoEditTask_init_def)

subsection \<open>What the constructor of a table class lets through\<close>

text \<open>
  The constructor call of a class declared with \<^verbatim>\<open>table=True\<close> checks none of the
  constraints that the class declares. The three theorems of this subsection evaluate
  it on the calls of claims C1, C4 and C9, beside \<^verbatim>\<open>model_validate\<close> of the same class
  and the non-table shape that declares the same constraint, which both reject them.
\<close>

text \<open>
  Claim C1 says that constructing an \<^verbatim>\<open>UploadedFile\<close> with \<^verbatim>\<open>file_size = 0\<close> succeeds and
  with \<^verbatim>\<open>file_size = -1\<close> fails, and that constructing a \<^verbatim>\<open>ChatMessage\<close> with a content of
  10000 characters succeeds and of 10001 characters fails. The two calls that are to
  succeed do. The two calls that are to fail fail in \<^verbatim>\<open>model_validate\<close>, with the
  violation of the field, and in the shapes \<^verbatim>\<open>FileUploadRequest\<close> and \<^verbatim>\<open>ChatMessageCreate\<close>;
  the constructor calls \<^verbatim>\<open>UploadedFile(..., file_size=-1)\<close> and
  \<^verbatim>\<open>ChatMessage(..., content=10001 characters)\<close> return objects that hold these values.
\<close>

theorem file_size_and_content_bounds_not_checked_by_constructor:
  "obj_UploadedFile_file_size
     (UploadedFile_init (sample_UploadedFile_kwargs\<lparr>kw_UploadedFile_file_size := - 1\<rparr>) 5 6) = - 1 \<and>
   UploadedFile_model_validate
     (sample_UploadedFile_kwargs\<lparr>kw_UploadedFile_file_size := - 1\<rparr>) 5 6 =
     Inl [FieldValidationError ''file_size'' (GreaterEqual 0)] \<and>
   FileUploadRequest_validate
     (sample_FileUploadRequest_kwargs\<lparr>kw_FileUploadRequest_file_size := - 1\<rparr>) =
     Inl [FieldValidationError ''file_size'' (GreaterEqual 0)] \<and>
   obj_UploadedFile_file_size
     (UploadedFile_init (sample_UploadedFile_kwargs\<lparr>kw_UploadedFile_file_size := 0\<rparr>) 5 6) = 0 \<and>
   (case UploadedFile_model_validate
        (sample_UploadedFile_kwargs\<lparr>kw_UploadedFile_file_size := 0\<rparr>) 5 6 of
      Inl errs \<Rightarrow> False
    | Inr x \<Rightarrow> UploadedFile_file_size x = 0) \<and>
   (case FileUploadRequest_validate
        (sample_FileUploadRequest_kwargs\<lparr>kw_FileUploadRequest_file_size := 0\<rparr>) of
      Inl errs \<Rightarrow> False
    | Inr x \<Rightarrow> FileUploadRequest_file_size x = 0) \<and>
   length (obj_ChatMessage_content
     (ChatMessage_init
        (sample_ChatMessage_kwargs\<lparr>kw_ChatMessage_content := replicate 10001 CHR ''x''\<rparr>) 5)) =
     10001 \<and>
   ChatMessage_model_validate
     (sample_ChatMessage_kwargs\<lparr>kw_ChatMessage_content := replicate 10001 CHR ''x''\<rparr>) 5 =
     Inl [FieldValidationError ''content'' (MaxLength 10000)] \<and>
   ChatMessageCreate_validate
     (sample_ChatMessageCreate_kwargs\<lparr>kw_ChatMessageCreate_content := replicate 10001 CHR ''x''\<rparr>) =
     Inl [FieldValidationError ''content'' (MaxLength 10000)] \<and>
   length (obj_ChatMessage_content
     (ChatMessage_init
        (sample_ChatMessage_kwargs\<lparr>kw_ChatMessage_content := replicate 10000 CHR ''x''\<rparr>) 5)) =
     10000 \<and>
   (case ChatMessage_model_validate
        (sample_ChatMessage_kwargs\<lparr>kw_ChatMessage_content := replicate 10000 CHR ''x''\<rparr>) 5 of
      Inl errs \<Rightarrow> False
    | Inr x \<Rightarrow> length (ChatMessage_content x) = 10000) \<and>
   (case ChatMessageCreate_validate
        (sample_ChatMessageCreate_kwargs\<lparr>kw_ChatMessageCreate_content := replicate 10000 CHR ''x''\<rparr>) of
      Inl errs \<Rightarrow> False
    | Inr x \<Rightarrow> length (ChatMessageCreate_content x) = 10000)"
  by (simp add: UploadedFile_init_def UploadedFile_model_validate_def UploadedFile_errors_def
      FileUploadRequest_validate_def FileUploadRequest_errors_def
      ChatMessage_init_def ChatMessage_model_validate_def ChatMessage_errors_def
      ChatMessageCreate_validate_def ChatMessageCreate_errors_def check_defs
      sample_UploadedFile_kwargs_def sample_FileUploadRequest_kwargs_def
      sample_ChatMessage_kwargs_def sample_ChatMessageCreate_kwargs_def
      ChatMessageRole_members_def)

text \<open>
  Claim C4 says that an enumerated field accepts the declared values of its enumeration
  and rejects every other string, and that constructing a \<^verbatim>\<open>VideoEditTask\<close> or a
  \<^verbatim>\<open>VideoEditTaskCreate\<close> with \<^verbatim>\<open>edit_type = "trim"\<close> succeeds and with \<^verbatim>\<open>"rotate"\<close> fails.
  \<^verbatim>\<open>"rotate"\<close> is no value of \<^verbatim>\<open>VideoEditType\<close>; the shape and \<^verbatim>\<open>model_validate\<close> reject it
  with the violation of the field, and accept \<^verbatim>\<open>"trim"\<close>. The constructor call
  \<^verbatim>\<open>VideoEditTask(..., edit_type="rotate")\<close> returns an object whose \<^verbatim>\<open>edit_type\<close> is the
  string \<^verbatim>\<open>"rotate"\<close>.
\<close>

theorem edit_type_not_checked_by_constructor:
  "enum_member VideoEditType_members ''rotate'' = None \<and>
   obj_VideoEditTask_edit_type
     (VideoEditTask_init
        (sample_VideoEditTask_kwargs\<lparr>kw_VideoEditTask_edit_type := ''rotate''\<rparr>) 5 6) = ''rotate'' \<and>
   VideoEditTask_model_validate
     (sample_VideoEditTask_kwargs\<lparr>kw_VideoEditTask_edit_type := ''rotate''\<rparr>) 5 6 =
     Inl [EnumValueError ''edit_type''] \<and>
   VideoEditTaskCreate_validate
     (sample_VideoEditTaskCreate_kwargs\<lparr>kw_VideoEditTaskCreate_edit_type := ''rotate''\<rparr>) =
     Inl [EnumValueError ''edit_type''] \<and>
   enum_member VideoEditType_members ''trim'' = Some VideoEditType_TRIM \<and>
   obj_VideoEditTask_edit_type
     (VideoEditTask_init
        (sample_VideoEditTask_kwargs\<lparr>kw_VideoEditTask_edit_type := ''trim''\<rparr>) 5 6) = ''trim'' \<and>
   (case VideoEditTask_model_validate
        (sample_VideoEditTask_kwargs\<lparr>kw_VideoEditTask_edit_type := ''trim''\<rparr>) 5 6 of
      Inl errs \<Rightarrow> False
    | Inr x \<Rightarrow> VideoEditTask_edit_type x = VideoEditType_TRIM) \<and>
   (case VideoEditTaskCreate_validate
        (sample_VideoEditTaskCreate_kwargs\<lparr>kw_VideoEditTaskCreate_edit_type := ''trim''\<rparr>) of
      Inl errs \<Rightarrow> False
    | Inr x \<Rightarrow> VideoEditTaskCreate_edit_type x = VideoEditType_TRIM)"
  by (simp add: VideoEditTask_init_def VideoEditTask_model_validate_def VideoEditTask_errors_def
      VideoEditTaskCreate_validate_def VideoEditTaskCreate_errors_def check_defs
      sample_VideoEditTask_kwargs_def sample_VideoEditTaskCreate_kwargs_def
      VideoEditType_members_def)

text \<open>
  Claim C9 says that the status of a \<^verbatim>\<open>VideoEditTask\<close> ranges over \<^verbatim>\<open>VideoStatus\<close>, whose
  values are \<^verbatim>\<open>"uploaded"\<close>, \<^verbatim>\<open>"processing"\<close>, \<^verbatim>\<open>"ready"\<close> and \<^verbatim>\<open>"error"\<close>, that the values
  \<^verbatim>\<open>"completed"\<close> and \<^verbatim>\<open>"failed"\<close> can never occur, and that a freshly created task has the
  status \<^verbatim>\<open>"uploaded"\<close>. The values are these four, and a call that omits the status gives
  \<^verbatim>\<open>"uploaded"\<close>. \<^verbatim>\<open>model_validate\<close> and the shape \<^verbatim>\<open>VideoEditTaskUpdate\<close> reject
  \<^verbatim>\<open>"completed"\<close> and \<^verbatim>\<open>"failed"\<close>; the constructor calls
  \<^verbatim>\<open>VideoEditTask(..., status="completed")\<close> and \<^verbatim>\<open>VideoEditTask(..., status="failed")\<close>
  return objects whose status is that string.
\<close>

theorem VideoEditTask_status_not_checked_by_constructor:
  "map fst VideoStatus_members = [''uploaded'', ''processing'', ''ready'', ''error''] \<and>
   obj_VideoEditTask_status
     (VideoEditTask_init
        (sample_VideoEditTask_kwargs\<lparr>kw_VideoEditTask_status := Some ''completed''\<rparr>) 5 6) =
     ''completed'' \<and>
   obj_VideoEditTask_status
     (VideoEditTask_init
        (sample_VideoEditTask_kwargs\<lparr>kw_VideoEditTask_status := Some ''failed''\<rparr>) 5 6) =
     ''failed'' \<and>
   VideoEditTask_model_validate
     (sample_VideoEditTask_kwargs\<lparr>kw_VideoEditTask_status := Some ''completed''\<rparr>) 5 6 =
     Inl [EnumValueError ''status''] \<and>
   VideoEditTask_model_validate
     (sample_VideoEditTask_kwargs\<lparr>kw_VideoEditTask_status := Some ''failed''\<rparr>) 5 6 =
     Inl [EnumValueError ''status''] \<and>
   VideoEditTaskUpdate_validate
     (sample_VideoEditTaskUpdate_kwargs
        \<lparr>kw_VideoEditTaskUpdate_status := Some (Some ''completed'')\<rparr>) =
     Inl [EnumValueError ''status''] \<and>
   VideoEditTaskUpdate_validate
     (sample_VideoEditTaskUpdate_kwargs
        \<lparr>kw_VideoEditTaskUpdate_status := Some (Some ''failed'')\<rparr>) =
     Inl [EnumValueError ''status''] \<and>
   obj_VideoEditTask_status (VideoEditTask_init sample_VideoEditTask_kwargs 5 6) = ''uploaded'' \<and>
   (case VideoEditTask_model_validate sample_VideoEditTask_kwargs 5 6 of
      Inl errs \<Rightarrow> False
    | Inr x \<Rightarrow> VideoEditTask_status x = VideoStatus_UPLOADED)"
  by (simp add: VideoEditTask_init_def VideoEditTask_model_validate_def VideoEditTask_errors_def
      VideoEditTaskUpdate_validate_def VideoEditTaskUpdate_errors_def check_defs
      sample_VideoEditTask_kwargs_def sample_VideoEditTaskUpdate_kwargs_def
      VideoEditType_members_def VideoStatus_members_def)

subsection \<open>The pattern of \<^verbatim>\<open>User.email\<close>\<close>

text \<open>
  Claim C3 says that a string is accepted as the email of a \<^verbatim>\<open>User\<close> exactly when it is
  of the form that the pattern describes, and that any other string is rejected.
  \<^verbatim>\<open>alice.example.com\<close> has no \<^verbatim>\<open>@\<close>: it is not of the form of the specification, and
  the pattern that the field declares matches it under neither engine. The pattern is
  declared and not run: \<^verbatim>\<open>User.model_validate\<close> returns a \<^verbatim>\<open>User\<close> with this email, and so
  does the constructor call. \<^verbatim>\<open>alice@example.com\<close>, which is of the form, is accepted as
  well.
\<close>

theorem User_email_pattern_not_enforced:
  "\<not> spec_email_form ''alice.example.com'' \<and>
   \<not> anchored_match Python_re email_regex ''alice.example.com'' \<and>
   \<not> anchored_match Rust_regex email_regex ''alice.example.com'' \<and>
   (case User_model_validate
        (sample_User_kwargs\<lparr>kw_User_email := ''alice.example.com''\<rparr>) 5 6 of
      Inl errs \<Rightarrow> False
    | Inr x \<Rightarrow> User_email x = ''alice.example.com'') \<and>
   obj_User_email
     (User_init (sample_User_kwargs\<lparr>kw_User_email := ''alice.example.com''\<rparr>) 5 6) =
     ''alice.example.com'' \<and>
   spec_email_form ''alice@example.com'' \<and>
   anchored_match Python_re email_regex ''alice@example.com'' \<and>
   anchored_match Rust_regex email_regex ''alice@example.com'' \<and>
   (case User_model_validate sample_User_kwargs 5 6 of
      Inl errs \<Rightarrow> False
    | Inr x \<Rightarrow> User_email x = ''alice@example.com'')"
  by (simp add: User_model_validate_def User_errors_def User_init_def check_defs
      sample_User_kwargs_def anchored_match_def email_regex_def Plus_def class_defs
      spec_email_form_def line_feed_def)

text \<open>
  The declared pattern and the form of the specification are not the same set of
  strings either: the last character class of the pattern contains the dot, so the
  pattern matches \<^verbatim>\<open>a@b..c\<close>, whose domain has an empty label.
\<close>

lemma email_regex_matches_empty_label:
  "anchored_match Python_re email_regex ''a@b..c'' \<and>
   anchored_match Rust_regex email_regex ''a@b..c'' \<and>
   \<not> spec_email_form ''a@b..c''"
  by (simp add: anchored_match_def email_regex_def Plus_def class_defs spec_email_form_def
      line_feed_def)

section \<open>Properties of the writes\<close>

subsection \<open>Applying an Update shape\<close>




lemma apply_UserUpdate_fails:
  "isl (apply_UserUpdate u u_upd u_now) = (UserUpdate_null_errors u_upd \<noteq> [])"
  by (simp add: apply_UserUpdate_def)




lemma apply_ChatSessionUpdate_fails:
  "isl (apply_ChatSessionUpdate cs cs_upd cs_now) = (ChatSessionUpdate_null_errors cs_upd \<noteq> [])"
  by (simp add: apply_ChatSessionUpdate_def)




lemma apply_VideoProjectUpdate_fails:
  "isl (apply_VideoProjectUpdate vp vp_upd vp_now) = (VideoProjectUpdate_null_errors vp_upd \<noteq> [])"
  by (simp add: apply_VideoProjectUpdate_def)




lemma apply_VideoEditTaskUpdate_fails:
  "isl (apply_VideoEditTaskUpdate vt vt_upd vt_now) = (VideoEditTaskUpdate_null_errors vt_upd \<noteq> [])"
  by (simp add: apply_VideoEditTaskUpdate_def)



subsection \<open>Timestamps\<close>

lemma foldl_updates_created:
  assumes "\<And>e change now. created (update e change now) = created e"
  shows "created (foldl (\<lambda>e (change, now). update e change now) e ups) = created e"
  by (induction ups arbitrary: e) (simp_all add: assms split: prod.split)

lemma after_updates_created:
  assumes "\<And>e change now. created (update e change now) = created e"
  shows "created (after_updates update e ups n) = created e"
  unfolding after_updates_def using assms by (rule foldl_updates_created)

lemma after_changes_created:
  assumes "\<And>e change. created (update e change) = created e"
  shows "created (after_changes update e changes n) = created e"
proof -
  have "created (foldl update e cs) = created e" for cs
    by (induction cs arbitrary: e) (simp_all add: assms)
  then show ?thesis
    by (simp add: after_changes_def)
qed

lemma after_updates_Suc:
  assumes "n < length ups"
  shows "after_updates update e ups (Suc n) =
    update (after_updates update e ups n) (fst (ups ! n)) (snd (ups ! n))"
  using assms by (simp add: after_updates_def take_Suc_conv_app_nth split: prod.split)

lemma after_updates_updated:
  assumes "\<And>e change now. updated (update e change now) = now" and "n < length ups"
  shows "updated (after_updates update e ups (Suc n)) = snd (ups ! n)"
  by (simp add: after_updates_Suc [OF assms(2)] assms(1))

lemma after_updates_changes:
  fixes updated :: "'e \<Rightarrow> datetime"
  assumes u: "\<And>e change now. updated (update e change now) = now"
    and s: "sorted_wrt (<) (updated e # map snd ups)"
    and n: "n < length ups"
  shows "updated (after_updates update e ups (Suc n)) \<noteq> updated (after_updates update e ups n)"
proof (cases n)
  case 0
  from s n have "updated e < snd (ups ! n)"
    by simp
  moreover have "updated (after_updates update e ups (Suc n)) = snd (ups ! n)"
    by (rule after_updates_updated [where updated = updated and update = update, OF u n])
  moreover from 0 have "after_updates update e ups n = e"
    by (simp add: after_updates_def)
  ultimately show ?thesis
    by simp
next
  case (Suc k)
  from s have "sorted_wrt (<) (map snd ups)"
    by simp
  with n Suc have "snd (ups ! k) < snd (ups ! Suc k)"
    by (simp add: sorted_wrt_iff_nth_less)
  with n Suc show ?thesis
    by (simp add: after_updates_updated [where updated = updated and update = update, OF u])
qed

lemma User_update_timestamps:
  "User_created_at (User_update x change now) = User_created_at x"
  "User_updated_at (User_update x change now) = now"
  by (simp_all add: User_update_def)

lemma User_timestamps:
  "(''created_at'' \<in> set User_columns \<and>
    (\<forall>n. User_created_at (after_updates User_update u u_ups n) = User_created_at u) \<and>
    ''updated_at'' \<in> set User_columns \<and>
    (\<forall>n<length u_ups.
       User_updated_at (after_updates User_update u u_ups (Suc n)) = snd (u_ups ! n)) \<and>
    (sorted_wrt (<) (User_updated_at u # map snd u_ups) \<longrightarrow>
      (\<forall>n<length u_ups.
         User_updated_at (after_updates User_update u u_ups (Suc n)) \<noteq>
         User_updated_at (after_updates User_update u u_ups n))))"
proof -
  have cols: "''created_at'' \<in> set User_columns" "''updated_at'' \<in> set User_columns"
    by (simp_all add: User_columns_def)
  have c: "User_created_at (after_updates User_update u u_ups n) = User_created_at u" for n
    by (rule after_updates_created [where created = User_created_at and update = User_update])
      (rule User_update_timestamps)
  have u: "User_updated_at (after_updates User_update u u_ups (Suc n)) = snd (u_ups ! n)"
    if "n < length u_ups" for n
    using that
    by (rule after_updates_updated [where updated = User_updated_at and update = User_update,
        OF User_update_timestamps(2)])
  have ch: "User_updated_at (after_updates User_update u u_ups (Suc n)) \<noteq>
      User_updated_at (after_updates User_update u u_ups n)"
    if "sorted_wrt (<) (User_updated_at u # map snd u_ups)" and "n < length u_ups" for n
    using that
    by (rule after_updates_changes [where updated = User_updated_at and update = User_update,
        OF User_update_timestamps(2)])
  from cols c u ch show ?thesis
    by blast
qed

lemma UploadedFile_update_timestamps:
  "UploadedFile_created_at (UploadedFile_update x change now) = UploadedFile_created_at x"
  "UploadedFile_updated_at (UploadedFile_update x change now) = now"
  by (simp_all add: UploadedFile_update_def)

lemma UploadedFile_timestamps:
  "(''created_at'' \<in> set UploadedFile_columns \<and>
    (\<forall>n. UploadedFile_created_at (after_updates UploadedFile_update uf uf_ups n) = UploadedFile_created_at uf) \<and>
    ''updated_at'' \<in> set UploadedFile_columns \<and>
    (\<forall>n<length uf_ups.
       UploadedFile_updated_at (after_updates UploadedFile_update uf uf_ups (Suc n)) = snd (uf_ups ! n)) \<and>
    (sorted_wrt (<) (UploadedFile_updated_at uf # map snd uf_ups) \<longrightarrow>
      (\<forall>n<length uf_ups.
         UploadedFile_updated_at (after_updates UploadedFile_update uf uf_ups (Suc n)) \<noteq>
         UploadedFile_updated_at (after_updates UploadedFile_update uf uf_ups n))))"
proof -
  have cols: "''created_at'' \<in> set UploadedFile_columns" "''updated_at'' \<in> set UploadedFile_columns"
    by (simp_all add: UploadedFile_columns_def)
  have c: "UploadedFile_created_at (after_updates UploadedFile_update uf uf_ups n) = UploadedFile_created_at uf" for n
    by (rule after_updates_created [where created = UploadedFile_created_at and update = UploadedFile_update])
      (rule UploadedFile_update_timestamps)
  have u: "UploadedFile_updated_at (after_updates UploadedFile_update uf uf_ups (Suc n)) = snd (uf_ups ! n)"
    if "n < length uf_ups" for n
    using that
    by (rule after_updates_updated [where updated = UploadedFile_updated_at and update = UploadedFile_update,
        OF UploadedFile_update_timestamps(2)])
  have ch: "UploadedFile_updated_at (after_updates UploadedFile_update uf uf_ups (Suc n)) \<noteq>
      UploadedFile_updated_at (after_updates UploadedFile_update uf uf_ups n)"
    if "sorted_wrt (<) (UploadedFile_updated_at uf # map snd uf_ups)" and "n < length uf_ups" for n
    using that
    by (rule after_updates_changes [where updated = UploadedFile_updated_at and update = UploadedFile_update,
        OF UploadedFile_update_timestamps(2)])
  from cols c u ch show ?thesis
    by blast
qed

lemma ChatSession_update_timestamps:
  "ChatSession_created_at (ChatSession_update x change now) = ChatSession_created_at x"
  "ChatSession_updated_at (ChatSession_update x change now) = now"
  by (simp_all add: ChatSession_update_def)

lemma ChatSession_timestamps:
  "(''created_at'' \<in> set ChatSession_columns \<and>
    (\<forall>n. ChatSession_created_at (after_updates ChatSession_update cs cs_ups n) = ChatSession_created_at cs) \<and>
    ''updated_at'' \<in> set ChatSession_columns \<and>
    (\<forall>n<length cs_ups.
       ChatSession_updated_at (after_updates ChatSession_update cs cs_ups (Suc n)) = snd (cs_ups ! n)) \<and>
    (sorted_wrt (<) (ChatSession_updated_at cs # map snd cs_ups) \<longrightarrow>
      (\<forall>n<length cs_ups.
         ChatSession_updated_at (after_updates ChatSession_update cs cs_ups (Suc n)) \<noteq>
         ChatSession_updated_at (after_updates ChatSession_update cs cs_ups n))))"
proof -
  have cols: "''created_at'' \<in> set ChatSession_columns" "''updated_at'' \<in> set ChatSession_columns"
    by (simp_all add: ChatSession_columns_def)
  have c: "ChatSession_created_at (after_updates ChatSession_update cs cs_ups n) = ChatSession_created_at cs" for n
    by (rule after_updates_created [where created = ChatSession_created_at and update = ChatSession_update])
      (rule ChatSession_update_timestamps)
  have u: "ChatSession_updated_at (after_updates ChatSession_update cs cs_ups (Suc n)) = snd (cs_ups ! n)"
    if "n < length cs_ups" for n
    using that
    by (rule after_updates_updated [where updated = ChatSession_updated_at and update = ChatSession_update,
        OF ChatSession_update_timestamps(2)])
  have ch: "ChatSession_updated_at (after_updates ChatSession_update cs cs_ups (Suc n)) \<noteq>
      ChatSession_updated_at (after_updates ChatSession_update cs cs_ups n)"
    if "sorted_wrt (<) (ChatSession_updated_at cs # map snd cs_ups)" and "n < length cs_ups" for n
    using that
    by (rule after_updates_changes [where updated = ChatSession_updated_at and update = ChatSession_update,
        OF ChatSession_update_timestamps(2)])
  from cols c u ch show ?thesis
    by blast
qed

lemma ChatMessage_update_timestamps:
  "ChatMessage_created_at (ChatMessage_update x change) = ChatMessage_created_at x"
  by (simp add: ChatMessage_update_def)

lemma ChatMessage_timestamps:
  "(''created_at'' \<in> set ChatMessage_columns \<and>
    (\<forall>n. ChatMessage_created_at (after_changes ChatMessage_update cm cm_ups n) = ChatMessage_created_at cm) \<and>
    ''updated_at'' \<notin> set ChatMessage_columns)"
proof -
  have cols: "''created_at'' \<in> set ChatMessage_columns" "''updated_at'' \<notin> set ChatMessage_columns"
    by (simp_all add: ChatMessage_columns_def)
  have c: "ChatMessage_created_at (after_changes ChatMessage_update cm cm_ups n) = ChatMessage_created_at cm" for n
    by (rule after_changes_created [where created = ChatMessage_created_at and update = ChatMessage_update])
      (rule ChatMessage_update_timestamps)
  from cols c show ?thesis
    by blast
qed

lemma ChatFileAttachment_update_timestamps:
  "ChatFileAttachment_created_at (ChatFileAttachment_update x change) = ChatFileAttachment_created_at x"
  by (simp add: ChatFileAttachment_update_def)

lemma ChatFileAttachment_timestamps:
  "(''created_at'' \<in> set ChatFileAttachment_columns \<and>
    (\<forall>n. ChatFileAttachment_created_at (after_changes ChatFileAttachment_update ca ca_ups n) = ChatFileAttachment_created_at ca) \<and>
    ''updated_at'' \<notin> set ChatFileAttachment_columns)"
proof -
  have cols: "''created_at'' \<in> set ChatFileAttachment_columns" "''updated_at'' \<notin> set ChatFileAttachment_columns"
    by (simp_all add: ChatFileAttachment_columns_def)
  have c: "ChatFileAttachment_created_at (after_changes ChatFileAttachment_update ca ca_ups n) = ChatFileAttachment_created_at ca" for n
    by (rule after_changes_created [where created = ChatFileAttachment_created_at and update = ChatFileAttachment_update])
      (rule ChatFileAttachment_update_timestamps)
  from cols c show ?thesis
    by blast
qed

lemma SearchQuery_update_timestamps:
  "SearchQuery_created_at (SearchQuery_update x change now) = SearchQuery_created_at x"
  "SearchQuery_updated_at (SearchQuery_update x change now) = now"
  by (simp_all add: SearchQuery_update_def)

lemma SearchQuery_timestamps:
  "(''created_at'' \<in> set SearchQuery_columns \<and>
    (\<forall>n. SearchQuery_created_at (after_updates SearchQuery_update sq sq_ups n) = SearchQuery_created_at sq) \<and>
    ''updated_at'' \<in> set SearchQuery_columns \<and>
    (\<forall>n<length sq_ups.
       SearchQuery_updated_at (after_updates SearchQuery_update sq sq_ups (Suc n)) = snd (sq_ups ! n)) \<and>
    (sorted_wrt (<) (SearchQuery_updated_at sq # map snd sq_ups) \<longrightarrow>
      (\<forall>n<length sq_ups.
         SearchQuery_updated_at (after_updates SearchQuery_update sq sq_ups (Suc n)) \<noteq>
         SearchQuery_updated_at (after_updates SearchQuery_update sq sq_ups n))))"
proof -
  have cols: "''created_at'' \<in> set SearchQuery_columns" "''updated_at'' \<in> set SearchQuery_columns"
    by (simp_all add: SearchQuery_columns_def)
  have c: "SearchQuery_created_at (after_updates SearchQuery_update sq sq_ups n) = SearchQuery_created_at sq" for n
    by (rule after_updates_created [where created = SearchQuery_created_at and update = SearchQuery_update])
      (rule SearchQuery_update_timestamps)
  have u: "SearchQuery_updated_at (after_updates SearchQuery_update sq sq_ups (Suc n)) = snd (sq_ups ! n)"
    if "n < length sq_ups" for n
    using that
    by (rule after_updates_updated [where updated = SearchQuery_updated_at and update = SearchQuery_update,
        OF SearchQuery_update_timestamps(2)])
  have ch: "SearchQuery_updated_at (after_updates SearchQuery_update sq sq_ups (Suc n)) \<noteq>
      SearchQuery_updated_at (after_updates SearchQuery_update sq sq_ups n)"
    if "sorted_wrt (<) (SearchQuery_updated_at sq # map snd sq_ups)" and "n < length sq_ups" for n
    using that
    by (rule after_updates_changes [where updated = SearchQuery_updated_at and update = SearchQuery_update,
        OF SearchQuery_update_timestamps(2)])
  from cols c u ch show ?thesis
    by blast
qed

lemma VideoProject_update_timestamps:
  "VideoProject_created_at (VideoProject_update x change now) = VideoProject_created_at x"
  "VideoProject_updated_at (VideoProject_update x change now) = now"
  by (simp_all add: VideoProject_update_def)

lemma VideoProject_timestamps:
  "(''created_at'' \<in> set VideoProject_columns \<and>
    (\<forall>n. VideoProject_created_at (after_updates VideoProject_update vp vp_ups n) = VideoProject_created_at vp) \<and>
    ''updated_at'' \<in> set VideoProject_columns \<and>
    (\<forall>n<length vp_ups.
       VideoProject_updated_at (after_updates VideoProject_update vp vp_ups (Suc n)) = snd (vp_ups ! n)) \<and>
    (sorted_wrt (<) (VideoProject_updated_at vp # map snd vp_ups) \<longrightarrow>
      (\<forall>n<length vp_ups.
         VideoProject_updated_at (after_updates VideoProject_update vp vp_ups (Suc n)) \<noteq>
         VideoProject_updated_at (after_updates VideoProject_update vp vp_ups n))))"
proof -
  have cols: "''created_at'' \<in> set VideoProject_columns" "''updated_at'' \<in> set VideoProject_columns"
    by (simp_all add: VideoProject_columns_def)
  have c: "VideoProject_created_at (after_updates VideoProject_update vp vp_ups n) = VideoProject_created_at vp" for n
    by (rule after_updates_created [where created = VideoProject_created_at and update = VideoProject_update])
      (rule VideoProject_update_timestamps)
  have u: "VideoProject_updated_at (after_updates VideoProject_update vp vp_ups (Suc n)) = snd (vp_ups ! n)"
    if "n < length vp_ups" for n
    using that
    by (rule after_updates_updated [where updated = VideoProject_updated_at and update = VideoProject_update,
        OF VideoProject_update_timestamps(2)])
  have ch: "VideoProject_updated_at (after_updates VideoProject_update vp vp_ups (Suc n)) \<noteq>
      VideoProject_updated_at (after_updates VideoProject_update vp vp_ups n)"
    if "sorted_wrt (<) (VideoProject_updated_at vp # map snd vp_ups)" and "n < length vp_ups" for n
    using that
    by (rule after_updates_changes [where updated = VideoProject_updated_at and update = VideoProject_update,
        OF VideoProject_update_timestamps(2)])
  from cols c u ch show ?thesis
    by blast
qed

lemma VideoFile_update_timestamps:
  "VideoFile_created_at (VideoFile_update x change now) = VideoFile_created_at x"
  "VideoFile_updated_at (VideoFile_update x change now) = now"
  by (simp_all add: VideoFile_update_def)

lemma VideoFile_timestamps:
  "(''created_at'' \<in> set VideoFile_columns \<and>
    (\<forall>n. VideoFile_created_at (after_updates VideoFile_update vf vf_ups n) = VideoFile_created_at vf) \<and>
    ''updated_at'' \<in> set VideoFile_columns \<and>
    (\<forall>n<length vf_ups.
       VideoFile_updated_at (after_updates VideoFile_update vf vf_ups (Suc n)) = snd (vf_ups ! n)) \<and>
    (sorted_wrt (<) (VideoFile_updated_at vf # map snd vf_ups) \<longrightarrow>
      (\<forall>n<length vf_ups.
         VideoFile_updated_at (after_updates VideoFile_update vf vf_ups (Suc n)) \<noteq>
         VideoFile_updated_at (after_updates VideoFile_update vf vf_ups n))))"
proof -
  have cols: "''created_at'' \<in> set VideoFile_columns" "''updated_at'' \<in> set VideoFile_columns"
    by (simp_all add: VideoFile_columns_def)
  have c: "VideoFile_created_at (after_updates VideoFile_update vf vf_ups n) = VideoFile_created_at vf" for n
    by (rule after_updates_created [where created = VideoFile_created_at and update = VideoFile_update])
      (rule VideoFile_update_timestamps)
  have u: "VideoFile_updated_at (after_updates VideoFile_update vf vf_ups (Suc n)) = snd (vf_ups ! n)"
    if "n < length vf_ups" for n
    using that
    by (rule after_updates_updated [where updated = VideoFile_updated_at and update = VideoFile_update,
        OF VideoFile_update_timestamps(2)])
  have ch: "VideoFile_updated_at (after_updates VideoFile_update vf vf_ups (Suc n)) \<noteq>
      VideoFile_updated_at (after_updates VideoFile_update vf vf_ups n)"
    if "sorted_wrt (<) (VideoFile_updated_at vf # map snd vf_ups)" and "n < length vf_ups" for n
    using that
    by (rule after_updates_changes [where updated = VideoFile_updated_at and update = VideoFile_update,
        OF VideoFile_update_timestamps(2)])
  from cols c u ch show ?thesis
    by blast
qed

lemma VideoEditTask_update_timestamps:
  "VideoEditTask_created_at (VideoEditTask_update x change now) = VideoEditTask_created_at x"
  "VideoEditTask_updated_at (VideoEditTask_update x change now) = now"
  by (simp_all add: VideoEditTask_update_def)

lemma VideoEditTask_timestamps:
  "(''created_at'' \<in> set VideoEditTask_columns \<and>
    (\<forall>n. VideoEditTask_created_at (after_updates VideoEditTask_update vt vt_ups n) = VideoEditTask_created_at vt) \<and>
    ''updated_at'' \<in> set VideoEditTask_columns \<and>
    (\<forall>n<length vt_ups.
       VideoEditTask_updated_at (after_updates VideoEditTask_update vt vt_ups (Suc n)) = snd (vt_ups ! n)) \<and>
    (sorted_wrt (<) (VideoEditTask_updated_at vt # map snd vt_ups) \<longrightarrow>
      (\<forall>n<length vt_ups.
         VideoEditTask_updated_at (after_updates VideoEditTask_update vt vt_ups (Suc n)) \<noteq>
         VideoEditTask_updated_at (after_updates VideoEditTask_update vt vt_ups n))))"
proof -
  have cols: "''created_at'' \<in> set VideoEditTask_columns" "''updated_at'' \<in> set VideoEditTask_columns"
    by (simp_all add: VideoEditTask_columns_def)
  have c: "VideoEditTask_created_at (after_updates VideoEditTask_update vt vt_ups n) = VideoEditTask_created_at vt" for n
    by (rule after_updates_created [where created = VideoEditTask_created_at and update = VideoEditTask_update])
      (rule VideoEditTask_update_timestamps)
  have u: "VideoEditTask_updated_at (after_updates VideoEditTask_update vt vt_ups (Suc n)) = snd (vt_ups ! n)"
    if "n < length vt_ups" for n
    using that
    by (rule after_updates_updated [where updated = VideoEditTask_updated_at and update = VideoEditTask_update,
        OF VideoEditTask_update_timestamps(2)])
  have ch: "VideoEditTask_updated_at (after_updates VideoEditTask_update vt vt_ups (Suc n)) \<noteq>
      VideoEditTask_updated_at (after_updates VideoEditTask_update vt vt_ups n)"
    if "sorted_wrt (<) (VideoEditTask_updated_at vt # map snd vt_ups)" and "n < length vt_ups" for n
    using that
    by (rule after_updates_changes [where updated = VideoEditTask_updated_at and update = VideoEditTask_update,
        OF VideoEditTask_update_timestamps(2)])
  from cols c u ch show ?thesis
    by blast
qed

text \<open>
  Claim C6, as amended. Every entity has a \<^verbatim>\<open>created_at\<close>, and after any number of
  updates of any sequence it is the \<^verbatim>\<open>created_at\<close> that the entity had when the sequence
  began: no update alters it. Every entity but \<^verbatim>\<open>ChatMessage\<close> and \<^verbatim>\<open>ChatFileAttachment\<close>
  has an \<^verbatim>\<open>updated_at\<close>; after each update it is the time of that update, so that it
  changes on every update of a sequence whose clock readings increase. \<^verbatim>\<open>ChatMessage\<close>
  and \<^verbatim>\<open>ChatFileAttachment\<close> declare no \<^verbatim>\<open>updated_at\<close>.
\<close>

theorem timestamps_under_updates:
  "(''created_at'' \<in> set User_columns \<and>
    (\<forall>n. User_created_at (after_updates User_update u u_ups n) = User_created_at u) \<and>
    ''updated_at'' \<in> set User_columns \<and>
    (\<forall>n<length u_ups.
       User_updated_at (after_updates User_update u u_ups (Suc n)) = snd (u_ups ! n)) \<and>
    (sorted_wrt (<) (User_updated_at u # map snd u_ups) \<longrightarrow>
      (\<forall>n<length u_ups.
         User_updated_at (after_updates User_update u u_ups (Suc n)) \<noteq>
         User_updated_at (after_updates User_update u u_ups n)))) \<and>
   (''created_at'' \<in> set UploadedFile_columns \<and>
    (\<forall>n. UploadedFile_created_at (after_updates UploadedFile_update uf uf_ups n) = UploadedFile_created_at uf) \<and>
    ''updated_at'' \<in> set UploadedFile_columns \<and>
    (\<forall>n<length uf_ups.
       UploadedFile_updated_at (after_updates UploadedFile_update uf uf_ups (Suc n)) = snd (uf_ups ! n)) \<and>
    (sorted_wrt (<) (UploadedFile_updated_at uf # map snd uf_ups) \<longrightarrow>
      (\<forall>n<length uf_ups.
         UploadedFile_updated_at (after_updates UploadedFile_update uf uf_ups (Suc n)) \<noteq>
         UploadedFile_updated_at (after_updates UploadedFile_update uf uf_ups n)))) \<and>
   (''created_at'' \<in> set ChatSession_columns \<and>
    (\<forall>n. ChatSession_created_at (after_updates ChatSession_update cs cs_ups n) = ChatSession_created_at cs) \<and>
    ''updated_at'' \<in> set ChatSession_columns \<and>
    (\<forall>n<length cs_ups.
       ChatSession_updated_at (after_updates ChatSession_update cs cs_ups (Suc n)) = snd (cs_ups ! n)) \<and>
    (sorted_wrt (<) (ChatSession_updated_at cs # map snd cs_ups) \<longrightarrow>
      (\<forall>n<length cs_ups.
         ChatSession_updated_at (after_updates ChatSession_update cs cs_ups (Suc n)) \<noteq>
         ChatSession_updated_at (after_updates ChatSession_update cs cs_ups n)))) \<and>
   (''created_at'' \<in> set ChatMessage_columns \<and>
    (\<forall>n. ChatMessage_created_at (after_changes ChatMessage_update cm cm_ups n) = ChatMessage_created_at cm) \<and>
    ''updated_at'' \<notin> set ChatMessage_columns) \<and>
   (''created_at'' \<in> set ChatFileAttachment_columns \<and>
    (\<forall>n. ChatFileAttachment_created_at (after_changes ChatFileAttachment_update ca ca_ups n) = ChatFileAttachment_created_at ca) \<and>
    ''updated_at'' \<notin> set ChatFileAttachment_columns) \<and>
   (''created_at'' \<in> set SearchQuery_columns \<and>
    (\<forall>n. SearchQuery_created_at (after_updates SearchQuery_update sq sq_ups n) = SearchQuery_created_at sq) \<and>
    ''updated_at'' \<in> set SearchQuery_columns \<and>
    (\<forall>n<length sq_ups.
       SearchQuery_updated_at (after_updates SearchQuery_update sq sq_ups (Suc n)) = snd (sq_ups ! n)) \<and>
    (sorted_wrt (<) (SearchQuery_updated_at sq # map snd sq_ups) \<longrightarrow>
      (\<forall>n<length sq_ups.
         SearchQuery_updated_at (after_updates SearchQuery_update sq sq_ups (Suc n)) \<noteq>
         SearchQuery_updated_at (after_updates SearchQuery_update sq sq_ups n)))) \<and>
   (''created_at'' \<in> set VideoProject_columns \<and>
    (\<forall>n. VideoProject_created_at (after_updates VideoProject_update vp vp_ups n) = VideoProject_created_at vp) \<and>
    ''updated_at'' \<in> set VideoProject_columns \<and>
    (\<forall>n<length vp_ups.
       VideoProject_updated_at (after_updates VideoProject_update vp vp_ups (Suc n)) = snd (vp_ups ! n)) \<and>
    (sorted_wrt (<) (VideoProject_updated_at vp # map snd vp_ups) \<longrightarrow>
      (\<forall>n<length vp_ups.
         VideoProject_updated_at (after_updates VideoProject_update vp vp_ups (Suc n)) \<noteq>
         VideoProject_updated_at (after_updates VideoProject_update vp vp_ups n)))) \<and>
   (''created_at'' \<in> set VideoFile_columns \<and>
    (\<forall>n. VideoFile_created_at (after_updates VideoFile_update vf vf_ups n) = VideoFile_created_at vf) \<and>
    ''updated_at'' \<in> set VideoFile_columns \<and>
    (\<forall>n<length vf_ups.
       VideoFile_updated_at (after_updates VideoFile_update vf vf_ups (Suc n)) = snd (vf_ups ! n)) \<and>
    (sorted_wrt (<) (VideoFile_updated_at vf # map snd vf_ups) \<longrightarrow>
      (\<forall>n<length vf_ups.
         VideoFile_updated_at (after_updates VideoFile_update vf vf_ups (Suc n)) \<noteq>
         VideoFile_updated_at (after_updates VideoFile_update vf vf_ups n)))) \<and>
   (''created_at'' \<in> set VideoEditTask_columns \<and>
    (\<forall>n. VideoEditTask_created_at (after_updates VideoEditTask_update vt vt_ups n) = VideoEditTask_created_at vt) \<and>
    ''updated_at'' \<in> set VideoEditTask_columns \<and>
    (\<forall>n<length vt_ups.
       VideoEditTask_updated_at (after_updates VideoEditTask_update vt vt_ups (Suc n)) = snd (vt_ups ! n)) \<and>
    (sorted_wrt (<) (VideoEditTask_updated_at vt # map snd vt_ups) \<longrightarrow>
      (\<forall>n<length vt_ups.
         VideoEditTask_updated_at (after_updates VideoEditTask_update vt vt_ups (Suc n)) \<noteq>
         VideoEditTask_updated_at (after_updates VideoEditTask_update vt vt_ups n))))"
  by (rule conjI [OF User_timestamps conjI [OF UploadedFile_timestamps conjI [OF ChatSession_timestamps conjI [OF ChatMessage_timestamps conjI [OF ChatFileAttachment_timestamps conjI [OF SearchQuery_timestamps conjI [OF VideoProject_timestamps conjI [OF VideoFile_timestamps VideoEditTask_timestamps]]]]]]]])

theorem timestamps_under_updates_witness:
  "(User_created_at (after_updates User_update stored_User sample_User_updates 2) = 5 \<and>
    User_updated_at (after_updates User_update stored_User sample_User_updates 1) = 10 \<and>
    User_updated_at (after_updates User_update stored_User sample_User_updates 2) = 20 \<and>
    User_updated_at (after_updates User_update stored_User sample_User_updates 2) \<noteq>
      User_updated_at (after_updates User_update stored_User sample_User_updates 1)) \<and>
   (UploadedFile_created_at (after_updates UploadedFile_update stored_UploadedFile sample_UploadedFile_updates 2) = 5 \<and>
    UploadedFile_updated_at (after_updates UploadedFile_update stored_UploadedFile sample_UploadedFile_updates 1) = 10 \<and>
    UploadedFile_updated_at (after_updates UploadedFile_update stored_UploadedFile sample_UploadedFile_updates 2) = 20 \<and>
    UploadedFile_updated_at (after_updates UploadedFile_update stored_UploadedFile sample_UploadedFile_updates 2) \<noteq>
      UploadedFile_updated_at (after_updates UploadedFile_update stored_UploadedFile sample_UploadedFile_updates 1)) \<and>
   (ChatSession_created_at (after_updates ChatSession_update stored_ChatSession sample_ChatSession_updates 2) = 5 \<and>
    ChatSession_updated_at (after_updates ChatSession_update stored_ChatSession sample_ChatSession_updates 1) = 10 \<and>
    ChatSession_updated_at (after_updates ChatSession_update stored_ChatSession sample_ChatSession_updates 2) = 20 \<and>
    ChatSession_updated_at (after_updates ChatSession_update stored_ChatSession sample_ChatSession_updates 2) \<noteq>
      ChatSession_updated_at (after_updates ChatSession_update stored_ChatSession sample_ChatSession_updates 1)) \<and>
   (ChatMessage_created_at (after_changes ChatMessage_update stored_ChatMessage sample_ChatMessage_updates 2) = 5) \<and>
   (ChatFileAttachment_created_at (after_changes ChatFileAttachment_update stored_ChatFileAttachment sample_ChatFileAttachment_updates 2) = 5) \<and>
   (SearchQuery_created_at (after_updates SearchQuery_update stored_SearchQuery sample_SearchQuery_updates 2) = 5 \<and>
    SearchQuery_updated_at (after_updates SearchQuery_update stored_SearchQuery sample_SearchQuery_updates 1) = 10 \<and>
    SearchQuery_updated_at (after_updates SearchQuery_update stored_SearchQuery sample_SearchQuery_updates 2) = 20 \<and>
    SearchQuery_updated_at (after_updates SearchQuery_update stored_SearchQuery sample_SearchQuery_updates 2) \<noteq>
      SearchQuery_updated_at (after_updates SearchQuery_update stored_SearchQuery sample_SearchQuery_updates 1)) \<and>
   (VideoProject_created_at (after_updates VideoProject_update stored_VideoProject sample_VideoProject_updates 2) = 5 \<and>
    VideoProject_updated_at (after_updates VideoProject_update stored_VideoProject sample_VideoProject_updates 1) = 10 \<and>
    VideoProject_updated_at (after_updates VideoProject_update stored_VideoProject sample_VideoProject_updates 2) = 20 \<and>
    VideoProject_updated_at (after_updates VideoProject_update stored_VideoProject sample_VideoProject_updates 2) \<noteq>
      VideoProject_updated_at (after_updates VideoProject_update stored_VideoProject sample_VideoProject_updates 1)) \<and>
   (VideoFile_created_at (after_updates VideoFile_update stored_VideoFile sample_VideoFile_updates 2) = 5 \<and>
    VideoFile_updated_at (after_updates VideoFile_update stored_VideoFile sample_VideoFile_updates 1) = 10 \<and>
    VideoFile_updated_at (after_updates VideoFile_update stored_VideoFile sample_VideoFile_updates 2) = 20 \<and>
    VideoFile_updated_at (after_updates VideoFile_update stored_VideoFile sample_VideoFile_updates 2) \<noteq>
      VideoFile_updated_at (after_updates VideoFile_update stored_VideoFile sample_VideoFile_updates 1)) \<and>
   (VideoEditTask_created_at (after_updates VideoEditTask_update stored_VideoEditTask sample_VideoEditTask_updates 2) = 5 \<and>
    VideoEditTask_updated_at (after_updates VideoEditTask_update stored_VideoEditTask sample_VideoEditTask_updates 1) = 10 \<and>
    VideoEditTask_updated_at (after_updates VideoEditTask_update stored_VideoEditTask sample_VideoEditTask_updates 2) = 20 \<and>
    VideoEditTask_updated_at (after_updates VideoEditTask_update stored_VideoEditTask sample_VideoEditTask_updates 2) \<noteq>
      VideoEditTask_updated_at (after_updates VideoEditTask_update stored_VideoEditTask sample_VideoEditTask_updates 1))"
proof -
  note th = timestamps_under_updates
    [where u = stored_User
      and u_ups = sample_User_updates
      and uf = stored_UploadedFile
      and uf_ups = sample_UploadedFile_updates
      and cs = stored_ChatSession
      and cs_ups = sample_ChatSession_updates
      and cm = stored_ChatMessage
      and cm_ups = sample_ChatMessage_updates
      and ca = stored_ChatFileAttachment
      and ca_ups = sample_ChatFileAttachment_updates
      and sq = stored_SearchQuery
      and sq_ups = sample_SearchQuery_updates
      and vp = stored_VideoProject
      and vp_ups = sample_VideoProject_updates
      and vf = stored_VideoFile
      and vf_ups = sample_VideoFile_updates
      and vt = stored_VideoEditTask
      and vt_ups = sample_VideoEditTask_updates]
  note u = th [THEN conjunct1]
  have u_c: "User_created_at (after_updates User_update stored_User sample_User_updates 2) = 5"
    using u [THEN conjunct2, THEN conjunct1, THEN spec, of 2]
    by (simp add: stored_User_def)
  have u_1: "User_updated_at (after_updates User_update stored_User sample_User_updates 1) = 10"
    using u [THEN conjunct2, THEN conjunct2, THEN conjunct2, THEN conjunct1, rule_format, of 0]
    by (simp add: sample_User_updates_def)
  have u_2: "User_updated_at (after_updates User_update stored_User sample_User_updates 2) = 20"
    using u [THEN conjunct2, THEN conjunct2, THEN conjunct2, THEN conjunct1, rule_format, of 1]
    by (simp add: sample_User_updates_def numeral_2_eq_2)
  have u_3: "User_updated_at (after_updates User_update stored_User sample_User_updates 2) \<noteq>
      User_updated_at (after_updates User_update stored_User sample_User_updates 1)"
    using u [THEN conjunct2, THEN conjunct2, THEN conjunct2, THEN conjunct2, rule_format, of 1]
    by (simp add: sample_User_updates_def stored_User_def numeral_2_eq_2)
  note uf = th [THEN conjunct2, THEN conjunct1]
  have uf_c: "UploadedFile_created_at (after_updates UploadedFile_update stored_UploadedFile sample_UploadedFile_updates 2) = 5"
    using uf [THEN conjunct2, THEN conjunct1, THEN spec, of 2]
    by (simp add: stored_UploadedFile_def)
  have uf_1: "UploadedFile_updated_at (after_updates UploadedFile_update stored_UploadedFile sample_UploadedFile_updates 1) = 10"
    using uf [THEN conjunct2, THEN conjunct2, THEN conjunct2, THEN conjunct1, rule_format, of 0]
    by (simp add: sample_UploadedFile_updates_def)
  have uf_2: "UploadedFile_updated_at (after_updates UploadedFile_update stored_UploadedFile sample_UploadedFile_updates 2) = 20"
    using uf [THEN conjunct2, THEN conjunct2, THEN conjunct2, THEN conjunct1, rule_format, of 1]
    by (simp add: sample_UploadedFile_updates_def numeral_2_eq_2)
  have uf_3: "UploadedFile_updated_at (after_updates UploadedFile_update stored_UploadedFile sample_UploadedFile_updates 2) \<noteq>
      UploadedFile_updated_at (after_updates UploadedFile_update stored_UploadedFile sample_UploadedFile_updates 1)"
    using uf [THEN conjunct2, THEN conjunct2, THEN conjunct2, THEN conjunct2, rule_format, of 1]
    by (simp add: sample_UploadedFile_updates_def stored_UploadedFile_def numeral_2_eq_2)
  note cs = th [THEN conjunct2, THEN conjunct2, THEN conjunct1]
  have cs_c: "ChatSession_created_at (after_updates ChatSession_update stored_ChatSession sample_ChatSession_updates 2) = 5"
    using cs [THEN conjunct2, THEN conjunct1, THEN spec, of 2]
    by (simp add: stored_ChatSession_def)
  have cs_1: "ChatSession_updated_at (after_updates ChatSession_update stored_ChatSession sample_ChatSession_updates 1) = 10"
    using cs [THEN conjunct2, THEN conjunct2, THEN conjunct2, THEN conjunct1, rule_format, of 0]
    by (simp add: sample_ChatSession_updates_def)
  have cs_2: "ChatSession_updated_at (after_updates ChatSession_update stored_ChatSession sample_ChatSession_updates 2) = 20"
    using cs [THEN conjunct2, THEN conjunct2, THEN conjunct2, THEN conjunct1, rule_format, of 1]
    by (simp add: sample_ChatSession_updates_def numeral_2_eq_2)
  have cs_3: "ChatSession_updated_at (after_updates ChatSession_update stored_ChatSession sample_ChatSession_updates 2) \<noteq>
      ChatSession_updated_at (after_updates ChatSession_update stored_ChatSession sample_ChatSession_updates 1)"
    using cs [THEN conjunct2, THEN conjunct2, THEN conjunct2, THEN conjunct2, rule_format, of 1]
    by (simp add: sample_ChatSession_updates_def stored_ChatSession_def numeral_2_eq_2)
  note cm = th [THEN conjunct2, THEN conjunct2, THEN conjunct2, THEN conjunct1]
  have cm_c: "ChatMessage_created_at (after_changes ChatMessage_update stored_ChatMessage sample_ChatMessage_updates 2) = 5"
    using cm [THEN conjunct2, THEN conjunct1, THEN spec, of 2]
    by (simp add: stored_ChatMessage_def)
  note ca = th [THEN conjunct2, THEN conjunct2, THEN conjunct2, THEN conjunct2, THEN conjunct1]
  have ca_c: "ChatFileAttachment_created_at (after_changes ChatFileAttachment_update stored_ChatFileAttachment sample_ChatFileAttachment_updates 2) = 5"
    using ca [THEN conjunct2, THEN conjunct1, THEN spec, of 2]
    by (simp add: stored_ChatFileAttachment_def)
  note sq = th [THEN conjunct2, THEN conjunct2, THEN conjunct2, THEN conjunct2, THEN conjunct2, THEN conjunct1]
  have sq_c: "SearchQuery_created_at (after_updates SearchQuery_update stored_SearchQuery sample_SearchQuery_updates 2) = 5"
    using sq [THEN conjunct2, THEN conjunct1, THEN spec, of 2]
    by (simp add: stored_SearchQuery_def)
  have sq_1: "SearchQuery_updated_at (after_updates SearchQuery_update stored_SearchQuery sample_SearchQuery_updates 1) = 10"
    using sq [THEN conjunct2, THEN conjunct2, THEN conjunct2, THEN conjunct1, rule_format, of 0]
    by (simp add: sample_SearchQuery_updates_def)
  have sq_2: "SearchQuery_updated_at (after_updates SearchQuery_update stored_SearchQuery sample_SearchQuery_updates 2) = 20"
    using sq [THEN conjunct2, THEN conjunct2, THEN conjunct2, THEN conjunct1, rule_format, of 1]
    by (simp add: sample_SearchQuery_updates_def numeral_2_eq_2)
  have sq_3: "SearchQuery_updated_at (after_updates SearchQuery_update stored_SearchQuery sample_SearchQuery_updates 2) \<noteq>
      SearchQuery_updated_at (after_updates SearchQuery_update stored_SearchQuery sample_SearchQuery_updates 1)"
    using sq [THEN conjunct2, THEN conjunct2, THEN conjunct2, THEN conjunct2, rule_format, of 1]
    by (simp add: sample_SearchQuery_updates_def stored_SearchQuery_def numeral_2_eq_2)
  note vp = th [THEN conjunct2, THEN conjunct2, THEN conjunct2, THEN conjunct2, THEN conjunct2, THEN conjunct2, THEN conjunct1]
  have vp_c: "VideoProject_created_at (after_updates VideoProject_update stored_VideoProject sample_VideoProject_updates 2) = 5"
    using vp [THEN conjunct2, THEN conjunct1, THEN spec, of 2]
    by (simp add: stored_VideoProject_def)
  have vp_1: "VideoProject_updated_at (after_updates VideoProject_update stored_VideoProject sample_VideoProject_updates 1) = 10"
    using vp [THEN conjunct2, THEN conjunct2, THEN conjunct2, THEN conjunct1, rule_format, of 0]
    by (simp add: sample_VideoProject_updates_def)
  have vp_2: "VideoProject_updated_at (after_updates VideoProject_update stored_VideoProject sample_VideoProject_updates 2) = 20"
    using vp [THEN conjunct2, THEN conjunct2, THEN conjunct2, THEN conjunct1, rule_format, of 1]
    by (simp add: sample_VideoProject_updates_def numeral_2_eq_2)
  have vp_3: "VideoProject_updated_at (after_updates VideoProject_update stored_VideoProject sample_VideoProject_updates 2) \<noteq>
      VideoProject_updated_at (after_updates VideoProject_update stored_VideoProject sample_VideoProject_updates 1)"
    using vp [THEN conjunct2, THEN conjunct2, THEN conjunct2, THEN conjunct2, rule_format, of 1]
    by (simp add: sample_VideoProject_updates_def stored_VideoProject_def numeral_2_eq_2)
  note vf = th [THEN conjunct2, THEN conjunct2, THEN conjunct2, THEN conjunct2, THEN conjunct2, THEN conjunct2, THEN conjunct2, THEN conjunct1]
  have vf_c: "VideoFile_created_at (after_updates VideoFile_update stored_VideoFile sample_VideoFile_updates 2) = 5"
    using vf [THEN conjunct2, THEN conjunct1, THEN spec, of 2]
    by (simp add: stored_VideoFile_def)
  have vf_1: "VideoFile_updated_at (after_updates VideoFile_update stored_VideoFile sample_VideoFile_updates 1) = 10"
    using vf [THEN conjunct2, THEN conjunct2, THEN conjunct2, THEN conjunct1, rule_format, of 0]
    by (simp add: sample_VideoFile_updates_def)
  have vf_2: "VideoFile_updated_at (after_updates VideoFile_update stored_VideoFile sample_VideoFile_updates 2) = 20"
    using vf [THEN conjunct2, THEN conjunct2, THEN conjunct2, THEN conjunct1, rule_format, of 1]
    by (simp add: sample_VideoFile_updates_def numeral_2_eq_2)
  have vf_3: "VideoFile_updated_at (after_updates VideoFile_update stored_VideoFile sample_VideoFile_updates 2) \<noteq>
      VideoFile_updated_at (after_updates VideoFile_update stored_VideoFile sample_VideoFile_updates 1)"
    using vf [THEN conjunct2, THEN conjunct2, THEN conjunct2, THEN conjunct2, rule_format, of 1]
    by (simp add: sample_VideoFile_updates_def stored_VideoFile_def numeral_2_eq_2)
  note vt = th [THEN conjunct2, THEN conjunct2, THEN conjunct2, THEN conjunct2, THEN conjunct2, THEN conjunct2, THEN conjunct2, THEN conjunct2]
  have vt_c: "VideoEditTask_created_at (after_updates VideoEditTask_update stored_VideoEditTask sample_VideoEditTask_updates 2) = 5"
    using vt [THEN conjunct2, THEN conjunct1, THEN spec, of 2]
    by (simp add: stored_VideoEditTask_def)
  have vt_1: "VideoEditTask_updated_at (after_updates VideoEditTask_update stored_VideoEditTask sample_VideoEditTask_updates 1) = 10"
    using vt [THEN conjunct2, THEN conjunct2, THEN conjunct2, THEN conjunct1, rule_format, of 0]
    by (simp add: sample_VideoEditTask_updates_def)
  have vt_2: "VideoEditTask_updated_at (after_updates VideoEditTask_update stored_VideoEditTask sample_VideoEditTask_updates 2) = 20"
    using vt [THEN conjunct2, THEN conjunct2, THEN conjunct2, THEN conjunct1, rule_format, of 1]
    by (simp add: sample_VideoEditTask_updates_def numeral_2_eq_2)
  have vt_3: "VideoEditTask_updated_at (after_updates VideoEditTask_update stored_VideoEditTask sample_VideoEditTask_updates 2) \<noteq>
      VideoEditTask_updated_at (after_updates VideoEditTask_update stored_VideoEditTask sample_VideoEditTask_updates 1)"
    using vt [THEN conjunct2, THEN conjunct2, THEN conjunct2, THEN conjunct2, rule_format, of 1]
    by (simp add: sample_VideoEditTask_updates_def stored_VideoEditTask_def numeral_2_eq_2)
  show ?thesis
    by (intro conjI u_c u_1 u_2 u_3 uf_c uf_1 uf_2 uf_3 cs_c cs_1 cs_2 cs_3 cm_c ca_c sq_c sq_1 sq_2 sq_3 vp_c vp_1 vp_2 vp_3 vf_c vf_1 vf_2 vf_3 vt_c vt_1 vt_2 vt_3)
qed

text \<open>
  The claim as stated fails: it gives every entity an \<^verbatim>\<open>updated_at\<close> that changes on
  every update, and \<^verbatim>\<open>ChatMessage\<close> and \<^verbatim>\<open>ChatFileAttachment\<close> declare \<^verbatim>\<open>created_at\<close> and no
  \<^verbatim>\<open>updated_at\<close>. An update of a stored \<^verbatim>\<open>ChatMessage\<close> that rewrites the content leaves
  every other column as it was: no column holds the time of the update.
\<close>

theorem updated_at_counterexample:
  "''created_at'' \<in> set ChatMessage_columns \<and>
   ''updated_at'' \<notin> set ChatMessage_columns \<and>
   ''created_at'' \<in> set ChatFileAttachment_columns \<and>
   ''updated_at'' \<notin> set ChatFileAttachment_columns \<and>
   ChatMessage_update stored_ChatMessage (\<lambda>x. x\<lparr>ChatMessage_content := ''edited''\<rparr>) =
     stored_ChatMessage\<lparr>ChatMessage_content := ''edited''\<rparr>"
  by (simp add: ChatMessage_columns_def ChatFileAttachment_columns_def ChatMessage_update_def
      stored_ChatMessage_def)

subsection \<open>Unique columns of \<^verbatim>\<open>users\<close>\<close>

lemma users_insert_username:
  "list_ex (\<lambda>r. User_username r = User_username u) tbl \<Longrightarrow>
   users_insert tbl u = (tbl, Inl (UniquenessConstraintError ''username''))"
  by (simp add: users_insert_def)

lemma users_insert_email:
  "list_ex (\<lambda>r. User_email r = User_email u) tbl \<Longrightarrow>
   users_insert tbl u =
     (tbl, Inl (UniquenessConstraintError
        (if list_ex (\<lambda>r. User_username r = User_username u) tbl then ''username'' else ''email'')))"
  by (simp add: users_insert_def)

lemma users_insert_fresh:
  "\<not> list_ex (\<lambda>r. User_username r = User_username u) tbl \<Longrightarrow>
   \<not> list_ex (\<lambda>r. User_email r = User_email u) tbl \<Longrightarrow>
   users_insert tbl u =
     (tbl @ [u\<lparr>User_id := Some (next_User_id tbl)\<rparr>], Inr (u\<lparr>User_id := Some (next_User_id tbl)\<rparr>))"
  by (simp add: users_insert_def Let_def)

text \<open>
  Claim C5. In a store that holds a \<^verbatim>\<open>User\<close> with a given email, creating a second
  \<^verbatim>\<open>User\<close> with the same email fails with a UniquenessConstraintError and leaves the
  store unchanged; the error names \<^verbatim>\<open>email\<close>, unless the username collides as well. The
  same holds for the username. Strings are compared as they are, so emails that differ
  in case do not collide; a \<^verbatim>\<open>User\<close> that collides on neither column is stored.
\<close>

theorem unique_username_and_email:
  "((\<exists>r \<in> set tbl. User_email r = User_email u) \<longrightarrow>
      fst (users_insert tbl u) = tbl \<and>
      snd (users_insert tbl u) =
        Inl (UniquenessConstraintError
          (if \<exists>r \<in> set tbl. User_username r = User_username u then ''username'' else ''email''))) \<and>
   ((\<exists>r \<in> set tbl. User_username r = User_username u) \<longrightarrow>
      fst (users_insert tbl u) = tbl \<and>
      snd (users_insert tbl u) = Inl (UniquenessConstraintError ''username'')) \<and>
   ((\<forall>r \<in> set tbl. User_username r \<noteq> User_username u \<and> User_email r \<noteq> User_email u) \<longrightarrow>
      users_insert tbl u =
        (tbl @ [u\<lparr>User_id := Some (next_User_id tbl)\<rparr>],
         Inr (u\<lparr>User_id := Some (next_User_id tbl)\<rparr>)))"
proof (intro conjI impI)
  assume e: "\<exists>r \<in> set tbl. User_email r = User_email u"
  then have "list_ex (\<lambda>r. User_email r = User_email u) tbl"
    by (simp add: list_ex_iff)
  from users_insert_email [OF this]
  show "fst (users_insert tbl u) = tbl"
    "snd (users_insert tbl u) =
        Inl (UniquenessConstraintError
          (if \<exists>r \<in> set tbl. User_username r = User_username u then ''username'' else ''email''))"
    by (simp_all add: list_ex_iff)
next
  assume "\<exists>r \<in> set tbl. User_username r = User_username u"
  then have "list_ex (\<lambda>r. User_username r = User_username u) tbl"
    by (simp add: list_ex_iff)
  from users_insert_username [OF this]
  show "fst (users_insert tbl u) = tbl"
    "snd (users_insert tbl u) = Inl (UniquenessConstraintError ''username'')"
    by simp_all
next
  assume "\<forall>r \<in> set tbl. User_username r \<noteq> User_username u \<and> User_email r \<noteq> User_email u"
  then have "\<not> list_ex (\<lambda>r. User_username r = User_username u) tbl"
    "\<not> list_ex (\<lambda>r. User_email r = User_email u) tbl"
    by (auto simp: list_ex_iff)
  then show "users_insert tbl u =
        (tbl @ [u\<lparr>User_id := Some (next_User_id tbl)\<rparr>],
         Inr (u\<lparr>User_id := Some (next_User_id tbl)\<rparr>))"
    by (rule users_insert_fresh)
qed

theorem unique_username_and_email_witness:
  "(case User_model_validate sample_User_kwargs 5 6 of
      Inl errs \<Rightarrow> False
    | Inr alice \<Rightarrow>
        users_insert [] alice = ([alice\<lparr>User_id := Some 1\<rparr>], Inr (alice\<lparr>User_id := Some 1\<rparr>)) \<and>
        users_insert [alice\<lparr>User_id := Some 1\<rparr>] (alice\<lparr>User_username := ''alice2''\<rparr>) =
          ([alice\<lparr>User_id := Some 1\<rparr>], Inl (UniquenessConstraintError ''email'')) \<and>
        users_insert [alice\<lparr>User_id := Some 1\<rparr>] (alice\<lparr>User_email := ''al@example.com''\<rparr>) =
          ([alice\<lparr>User_id := Some 1\<rparr>], Inl (UniquenessConstraintError ''username'')) \<and>
        \<not> isl (snd (users_insert [alice\<lparr>User_id := Some 1\<rparr>]
          (alice\<lparr>User_username := ''alice2'', User_email := ''Alice@example.com''\<rparr>))))"
proof -
  obtain alice where alice: "User_model_validate sample_User_kwargs 5 6 = Inr alice"
    by (simp add: User_model_validate_def User_errors_def check_defs sample_User_kwargs_def)
  from User_model_validate_fields [OF alice]
  have n: "User_username alice = ''alice''" "User_email alice = ''alice@example.com''"
    by (simp_all add: sample_User_kwargs_def)
  let ?row = "alice\<lparr>User_id := Some 1\<rparr>"
  note th = unique_username_and_email
  have 1: "users_insert [] alice = ([?row], Inr ?row)"
    using th [of "[]" alice] by (simp add: next_User_id_def)
  have 2: "users_insert [?row] (alice\<lparr>User_username := ''alice2''\<rparr>) =
      ([?row], Inl (UniquenessConstraintError ''email''))"
    using th [of "[?row]" "alice\<lparr>User_username := ''alice2''\<rparr>"] n
    by (simp add: prod_eq_iff)
  have 3: "users_insert [?row] (alice\<lparr>User_email := ''al@example.com''\<rparr>) =
      ([?row], Inl (UniquenessConstraintError ''username''))"
    using th [of "[?row]" "alice\<lparr>User_email := ''al@example.com''\<rparr>"] n
    by (simp add: prod_eq_iff)
  have 4: "\<not> isl (snd (users_insert [?row]
      (alice\<lparr>User_username := ''alice2'', User_email := ''Alice@example.com''\<rparr>)))"
    using th [of "[?row]" "alice\<lparr>User_username := ''alice2'', User_email := ''Alice@example.com''\<rparr>"] n
    by simp
  show ?thesis
    unfolding alice using 1 2 3 4 by simp
qed

end
